theory Spec2Isabelle
  imports Main "HOL-Library.Char_ord" "HOL-Library.List_Lexorder" "HOL-Library.Sublist"
    "HOL-Library.Product_Lexorder" "HOL-Library.Multiset"
begin

section \<open>The store adapter\<close>

text \<open>
  The generated client (\<^verbatim>\<open>prisma-idb-client.ts\<close>) keeps one IndexedDB object store per
  model, each with key path \<^verbatim>\<open>["id"]\<close>. An object store is modelled as the list of its
  (key, row) pairs in ascending key order, which is the order \<^verbatim>\<open>getAll()\<close> and a forward
  cursor return; \<^verbatim>\<open>openCursor(null, "prev")\<close> starts at the last pair.
\<close>

type_synonym ('k, 'v) objectStore = "('k \<times> 'v) list"

definition store_get :: "('k, 'v) objectStore \<Rightarrow> 'k \<Rightarrow> 'v option" where
  "store_get s k = map_of s k"

definition store_getAll :: "('k, 'v) objectStore \<Rightarrow> 'v list" where
  "store_getAll s = map snd s"

definition store_keys :: "('k, 'v) objectStore \<Rightarrow> 'k list" where
  "store_keys s = map fst s"

fun store_put :: "('k::linorder, 'v) objectStore \<Rightarrow> 'k \<Rightarrow> 'v \<Rightarrow> ('k, 'v) objectStore" where
  "store_put [] k v = [(k, v)]"
| "store_put ((k', v') # s) k v =
     (if k < k' then (k, v) # (k', v') # s
      else if k = k' then (k, v) # s
      else (k', v') # store_put s k v)"

definition store_delete :: "('k, 'v) objectStore \<Rightarrow> 'k \<Rightarrow> ('k, 'v) objectStore" where
  "store_delete s k = filter (\<lambda>kv. fst kv \<noteq> k) s"

text \<open>\<^verbatim>\<open>openCursor(null, "prev")\<close>: the key under the cursor, or no cursor on an empty store.\<close>

definition store_openCursor_prev :: "('k, 'v) objectStore \<Rightarrow> 'k option" where
  "store_openCursor_prev s = (if s = [] then None else Some (fst (last s)))"

text \<open>The invariant of an object store: keys strictly ascending (so also distinct).\<close>

definition store_ok :: "('k::linorder, 'v) objectStore \<Rightarrow> bool" where
  "store_ok s = sorted_wrt (<) (store_keys s)"

subsection \<open>Rows\<close>

text \<open>
  The rows of \<^verbatim>\<open>schema.prisma\<close>. A nullable column (\<^verbatim>\<open>bio String?\<close>,
  \<^verbatim>\<open>authorId Int?\<close>) holds \<open>None\<close> for \<^verbatim>\<open>null\<close>. The foreign keys of Profile and Comment
  are written by \<^verbatim>\<open>create\<close> from a variable that may still be \<^verbatim>\<open>undefined\<close>, so they are
  optional here as well. The list columns of Post are stored as given; a row created without
  them has none until \<^verbatim>\<open>_preprocessListFields\<close> reads it.
\<close>

record UserRec =
  u_id :: int
  u_name :: string

record ProfileRec =
  pr_id :: int
  pr_bio :: "string option"
  pr_userId :: "int option"

record PostRec =
  po_id :: int
  po_title :: string
  po_authorId :: "int option"
  po_tags :: "string list option"
  po_numberArr :: "int list option"

record CommentRec =
  c_id :: string
  c_postId :: "int option"
  c_userId :: "int option"
  c_text :: string

datatype StoreName = User | Profile | Post | Comment | AllFieldScalarTypes

record DB =
  db_User :: "(int, UserRec) objectStore"
  db_Profile :: "(int, ProfileRec) objectStore"
  db_Post :: "(int, PostRec) objectStore"
  db_Comment :: "(string, CommentRec) objectStore"

definition empty_DB :: DB where
  "empty_DB = \<lparr>db_User = [], db_Profile = [], db_Post = [], db_Comment = []\<rparr>"

text \<open>
  A transaction handle as one call sees it: the stores as they were when the transaction was
  opened, the stores as written so far, and whether \<^verbatim>\<open>abort()\<close> was called. The handle also
  carries the identifier generator \<^verbatim>\<open>createId\<close> of cuid2, which is global state outside the
  repository: the \<open>n\<close>-th call returns \<open>tx_createId n\<close>.
\<close>

record Tx =
  tx_snapshot :: DB
  tx_db :: DB
  tx_aborted :: bool
  tx_createId :: "nat \<Rightarrow> string"
  tx_createId_calls :: nat

definition transaction :: "(nat \<Rightarrow> string) \<Rightarrow> nat \<Rightarrow> DB \<Rightarrow> Tx" where
  "transaction gen n d =
     \<lparr>tx_snapshot = d, tx_db = d, tx_aborted = False, tx_createId = gen, tx_createId_calls = n\<rparr>"

definition abort :: "Tx \<Rightarrow> Tx" where
  "abort tx = tx\<lparr>tx_db := tx_snapshot tx, tx_aborted := True\<rparr>"

definition createId :: "Tx \<Rightarrow> string \<times> Tx" where
  "createId tx = (tx_createId tx (tx_createId_calls tx), tx\<lparr>tx_createId_calls := Suc (tx_createId_calls tx)\<rparr>)"


section \<open>Queries\<close>

text \<open>
  The query payloads are the argument types of the Prisma client. A member that may be left
  out is an \<open>option\<close> (\<open>None\<close> for \<^verbatim>\<open>undefined\<close>); a member that may also be \<^verbatim>\<open>null\<close>
  is a \<open>js\<close> value. A member typed \<^verbatim>\<open>T | T[]\<close> is the list \<^verbatim>\<open>convertToArray\<close> makes of it.
\<close>

datatype 'a js = Undefined | Null | Val 'a

datatype NumberFilter =
    NumberValue "int option"
  | NumberOps (nf_equals: "int js") (nf_in: "int list option") (nf_notIn: "int list option")
      (nf_lt: "int option") (nf_lte: "int option") (nf_gt: "int option") (nf_gte: "int option")
      (nf_not: "NumberFilter option")

datatype StringFilter =
    StringValue "string option"
  | StringOps (sf_equals: "string js") (sf_in: "string list option") (sf_notIn: "string list option")
      (sf_contains: "string option") (sf_startsWith: "string option") (sf_endsWith: "string option")
      (sf_not: "StringFilter option")

datatype 'a ListFilter =
  ListFilter (lf_equals: "'a list option") (lf_has: "'a option") (lf_hasEvery: "'a list option")
    (lf_hasSome: "'a list option") (lf_isEmpty: "bool option")

text \<open>
  A where clause per model (\<^verbatim>\<open>Prisma.UserWhereInput\<close> and its siblings). A to-one
  relation member is an object the engines destructure as \<^verbatim>\<open>{ is, isNot, ...rest }\<close>; a
  to-many relation member has \<^verbatim>\<open>every\<close>, \<^verbatim>\<open>some\<close> and \<^verbatim>\<open>none\<close>.
\<close>

datatype UserWhere =
  UserWhere (uw_AND: "UserWhere list option") (uw_OR: "UserWhere list option")
    (uw_NOT: "UserWhere list option")
    (uw_id: "NumberFilter option") (uw_name: "StringFilter option")
    (uw_profile: "ProfileRelation js") (uw_posts: "PostListRelation option")
    (uw_comments: "CommentListRelation option")
and ProfileWhere =
  ProfileWhere (pw_AND: "ProfileWhere list option") (pw_OR: "ProfileWhere list option")
    (pw_NOT: "ProfileWhere list option")
    (pw_id: "NumberFilter option") (pw_bio: "StringFilter option") (pw_userId: "NumberFilter option")
    (pw_user: "UserRelation option")
and PostWhere =
  PostWhere (pow_AND: "PostWhere list option") (pow_OR: "PostWhere list option")
    (pow_NOT: "PostWhere list option")
    (pow_id: "NumberFilter option") (pow_title: "StringFilter option")
    (pow_authorId: "NumberFilter option")
    (pow_tags: "string ListFilter option") (pow_numberArr: "int ListFilter option")
    (pow_author: "UserRelation js") (pow_comments: "CommentListRelation option")
and CommentWhere =
  CommentWhere (cw_AND: "CommentWhere list option") (cw_OR: "CommentWhere list option")
    (cw_NOT: "CommentWhere list option")
    (cw_id: "StringFilter option") (cw_text: "StringFilter option")
    (cw_postId: "NumberFilter option") (cw_userId: "NumberFilter option")
    (cw_post: "PostRelation option") (cw_user: "UserRelation option")
and UserRelation =
  UserRelation (ur_is: "UserWhere js") (ur_isNot: "UserWhere js") (ur_rest: UserWhere)
and ProfileRelation =
  ProfileRelation (prr_is: "ProfileWhere js") (prr_isNot: "ProfileWhere js") (prr_rest: ProfileWhere)
and PostRelation =
  PostRelation (por_is: "PostWhere js") (por_isNot: "PostWhere js") (por_rest: PostWhere)
and PostListRelation =
  PostListRelation (pol_every: "PostWhere option") (pol_some: "PostWhere option")
    (pol_none: "PostWhere option")
and CommentListRelation =
  CommentListRelation (col_every: "CommentWhere option") (col_some: "CommentWhere option")
    (col_none: "CommentWhere option")


text \<open>
  An \<^verbatim>\<open>orderBy\<close> clause per model (\<^verbatim>\<open>Prisma.UserOrderByWithRelationInput\<close> and its
  siblings): a direction on a column, a nested clause on a to-one relation, or
  \<^verbatim>\<open>{ _count: direction }\<close> on a to-many relation. The \<^verbatim>\<open>{ sort, nulls }\<close> form that Prisma
  also accepts on a nullable column is left out.
\<close>

datatype SortOrder = asc | desc

datatype OrderByCount = OrderByCount (ob_count: "SortOrder option")

datatype UserOrderBy =
  UserOrderBy (uo_id: "SortOrder option") (uo_name: "SortOrder option")
    (uo_profile: "ProfileOrderBy option") (uo_posts: "OrderByCount option")
    (uo_comments: "OrderByCount option")
and ProfileOrderBy =
  ProfileOrderBy (pro_id: "SortOrder option") (pro_bio: "SortOrder option")
    (pro_userId: "SortOrder option") (pro_user: "UserOrderBy option")
and PostOrderBy =
  PostOrderBy (poo_id: "SortOrder option") (poo_title: "SortOrder option")
    (poo_authorId: "SortOrder option") (poo_tags: "SortOrder option")
    (poo_numberArr: "SortOrder option") (poo_author: "UserOrderBy option")
    (poo_comments: "OrderByCount option")
and CommentOrderBy =
  CommentOrderBy (co_id: "SortOrder option") (co_postId: "SortOrder option")
    (co_userId: "SortOrder option") (co_text: "SortOrder option")
    (co_post: "PostOrderBy option") (co_user: "UserOrderBy option")

text \<open>
  The argument of the find operations (\<^verbatim>\<open>Prisma.Args<..., "findMany">\<close>). Of \<^verbatim>\<open>select\<close> and
  \<^verbatim>\<open>include\<close> the relation members are kept: each is \<^verbatim>\<open>true\<close>, \<^verbatim>\<open>false\<close> or the nested
  arguments for the related model.
\<close>

datatype 'q Attach = AttachBool bool | AttachArgs 'q

datatype UserQuery =
  UserQuery (uq_where: "UserWhere option") (uq_orderBy: "UserOrderBy list option")
    (uq_select: "UserSelect option") (uq_include: "UserSelect option")
and UserSelect =
  UserSelect (us_profile: "ProfileQuery Attach option") (us_posts: "PostQuery Attach option")
    (us_comments: "CommentQuery Attach option")
and ProfileQuery =
  ProfileQuery (pq_where: "ProfileWhere option") (pq_orderBy: "ProfileOrderBy list option")
    (pq_select: "ProfileSelect option") (pq_include: "ProfileSelect option")
and ProfileSelect =
  ProfileSelect (ps_user: "UserQuery Attach option")
and PostQuery =
  PostQuery (poq_where: "PostWhere option") (poq_orderBy: "PostOrderBy list option")
    (poq_select: "PostSelect option") (poq_include: "PostSelect option")
and PostSelect =
  PostSelect (pos_author: "UserQuery Attach option") (pos_comments: "CommentQuery Attach option")
and CommentQuery =
  CommentQuery (cq_where: "CommentWhere option") (cq_orderBy: "CommentOrderBy list option")
    (cq_select: "CommentSelect option") (cq_include: "CommentSelect option")
and CommentSelect =
  CommentSelect (cs_post: "PostQuery Attach option") (cs_user: "UserQuery Attach option")


section \<open>Scope analyzer\<close>

text \<open>
  \<^verbatim>\<open>_getNeededStoresForWhere(whereClause, neededStores)\<close> adds store names to the set it is
  handed; the model returns the names added. \<^verbatim>\<open>IDBUtils.LogicalParams\<close> is taken to be
  \<^verbatim>\<open>["AND", "OR", "NOT"]\<close>. A to-one relation member is handed to the related engine as
  it is, so that engine reads the members beside \<^verbatim>\<open>is\<close> and \<^verbatim>\<open>isNot\<close>.
\<close>

definition clausesOf :: "'w list option \<Rightarrow> 'w list" where
  "clausesOf x = (case x of None \<Rightarrow> [] | Some cs \<Rightarrow> cs)"

fun User_getNeededStoresForWhere :: "UserWhere option \<Rightarrow> StoreName set"
and Profile_getNeededStoresForWhere :: "ProfileWhere option \<Rightarrow> StoreName set"
and Post_getNeededStoresForWhere :: "PostWhere option \<Rightarrow> StoreName set"
and Comment_getNeededStoresForWhere :: "CommentWhere option \<Rightarrow> StoreName set"
where
  "User_getNeededStoresForWhere None = {}"
| "User_getNeededStoresForWhere (Some (UserWhere ands ors nots i nm p ps cs)) =
     \<Union> (set (map (\<lambda>c. User_getNeededStoresForWhere (Some c))
        ((case ands of None \<Rightarrow> [] | Some l \<Rightarrow> l) @ (case ors of None \<Rightarrow> [] | Some l \<Rightarrow> l)
          @ (case nots of None \<Rightarrow> [] | Some l \<Rightarrow> l))))
     \<union> (case p of
          Val (ProfileRelation isw isNotw rest) \<Rightarrow>
            {Profile} \<union> Profile_getNeededStoresForWhere (Some rest)
        | _ \<Rightarrow> {})
     \<union> (case ps of
          Some (PostListRelation ev sm nn) \<Rightarrow>
            {Post} \<union> Post_getNeededStoresForWhere ev \<union> Post_getNeededStoresForWhere sm
              \<union> Post_getNeededStoresForWhere nn
        | None \<Rightarrow> {})
     \<union> (case cs of
          Some (CommentListRelation ev sm nn) \<Rightarrow>
            {Comment} \<union> Comment_getNeededStoresForWhere ev
              \<union> Comment_getNeededStoresForWhere sm \<union> Comment_getNeededStoresForWhere nn
        | None \<Rightarrow> {})"
| "Profile_getNeededStoresForWhere None = {}"
| "Profile_getNeededStoresForWhere (Some (ProfileWhere ands ors nots i b ui u)) =
     \<Union> (set (map (\<lambda>c. Profile_getNeededStoresForWhere (Some c))
        ((case ands of None \<Rightarrow> [] | Some l \<Rightarrow> l) @ (case ors of None \<Rightarrow> [] | Some l \<Rightarrow> l)
          @ (case nots of None \<Rightarrow> [] | Some l \<Rightarrow> l))))
     \<union> (case u of
          Some (UserRelation isw isNotw rest) \<Rightarrow> {User} \<union> User_getNeededStoresForWhere (Some rest)
        | None \<Rightarrow> {})"
| "Post_getNeededStoresForWhere None = {}"
| "Post_getNeededStoresForWhere (Some (PostWhere ands ors nots i t ai tg na au cs)) =
     \<Union> (set (map (\<lambda>c. Post_getNeededStoresForWhere (Some c))
        ((case ands of None \<Rightarrow> [] | Some l \<Rightarrow> l) @ (case ors of None \<Rightarrow> [] | Some l \<Rightarrow> l)
          @ (case nots of None \<Rightarrow> [] | Some l \<Rightarrow> l))))
     \<union> (case au of
          Val (UserRelation isw isNotw rest) \<Rightarrow> {User} \<union> User_getNeededStoresForWhere (Some rest)
        | _ \<Rightarrow> {})
     \<union> (case cs of
          Some (CommentListRelation ev sm nn) \<Rightarrow>
            {Comment} \<union> Comment_getNeededStoresForWhere ev
              \<union> Comment_getNeededStoresForWhere sm \<union> Comment_getNeededStoresForWhere nn
        | None \<Rightarrow> {})"
| "Comment_getNeededStoresForWhere None = {}"
| "Comment_getNeededStoresForWhere (Some (CommentWhere ands ors nots i t pi ui po u)) =
     \<Union> (set (map (\<lambda>c. Comment_getNeededStoresForWhere (Some c))
        ((case ands of None \<Rightarrow> [] | Some l \<Rightarrow> l) @ (case ors of None \<Rightarrow> [] | Some l \<Rightarrow> l)
          @ (case nots of None \<Rightarrow> [] | Some l \<Rightarrow> l))))
     \<union> (case po of
          Some (PostRelation isw isNotw rest) \<Rightarrow> {Post} \<union> Post_getNeededStoresForWhere (Some rest)
        | None \<Rightarrow> {})
     \<union> (case u of
          Some (UserRelation isw isNotw rest) \<Rightarrow> {User} \<union> User_getNeededStoresForWhere (Some rest)
        | None \<Rightarrow> {})"


text \<open>
  \<^verbatim>\<open>_getNeededStoresForFind\<close> hands a clause of its own \<^verbatim>\<open>orderBy\<close> to the related engine as
  that engine's \<^verbatim>\<open>orderBy\<close> (\<^verbatim>\<open>{ orderBy: orderBy_profile }\<close>). The types are structurally
  compatible, so the call compiles; at run time the related engine reads its own member names
  from the caller's clause. \<open>X_as_YOrderBy\<close> is that reading: the members both clause types
  have, and nothing for the others.
\<close>

definition User_as_ProfileOrderBy :: "UserOrderBy \<Rightarrow> ProfileOrderBy" where
  "User_as_ProfileOrderBy c = ProfileOrderBy (uo_id c) None None None"

definition User_as_PostOrderBy :: "UserOrderBy \<Rightarrow> PostOrderBy" where
  "User_as_PostOrderBy c = PostOrderBy (uo_id c) None None None None None (uo_comments c)"

definition User_as_CommentOrderBy :: "UserOrderBy \<Rightarrow> CommentOrderBy" where
  "User_as_CommentOrderBy c = CommentOrderBy (uo_id c) None None None None None"

definition Profile_as_UserOrderBy :: "ProfileOrderBy \<Rightarrow> UserOrderBy" where
  "Profile_as_UserOrderBy c = UserOrderBy (pro_id c) None None None None"

definition Post_as_UserOrderBy :: "PostOrderBy \<Rightarrow> UserOrderBy" where
  "Post_as_UserOrderBy c = UserOrderBy (poo_id c) None None None (poo_comments c)"

definition Post_as_CommentOrderBy :: "PostOrderBy \<Rightarrow> CommentOrderBy" where
  "Post_as_CommentOrderBy c = CommentOrderBy (poo_id c) None None None None None"

definition Comment_as_PostOrderBy :: "CommentOrderBy \<Rightarrow> PostOrderBy" where
  "Comment_as_PostOrderBy c = PostOrderBy (co_id c) None None None None None None"

definition Comment_as_UserOrderBy :: "CommentOrderBy \<Rightarrow> UserOrderBy" where
  "Comment_as_UserOrderBy c = UserOrderBy (co_id c) None None None None"

text \<open>Truthiness of a \<^verbatim>\<open>select\<close> or \<^verbatim>\<open>include\<close> member, and its \<^verbatim>\<open>typeof ... === "object"\<close> case.\<close>

definition attached :: "'q Attach option \<Rightarrow> bool" where
  "attached a = (case a of None \<Rightarrow> False | Some (AttachBool b) \<Rightarrow> b | Some (AttachArgs q) \<Rightarrow> True)"

definition attachArgs :: "'q Attach option \<Rightarrow> 'q option" where
  "attachArgs a = (case a of Some (AttachArgs q) \<Rightarrow> Some q | _ \<Rightarrow> None)"

text \<open>
  \<^verbatim>\<open>_getNeededStoresForFind\<close> recurses into the nested arguments of \<^verbatim>\<open>select\<close> and
  \<^verbatim>\<open>include\<close>, and into a query built from one \<^verbatim>\<open>orderBy\<close> clause. Its termination measure
  is the nesting of \<^verbatim>\<open>select\<close>/\<^verbatim>\<open>include\<close>, then the number of relation members present in
  the \<^verbatim>\<open>orderBy\<close> clauses.
\<close>

fun User_select_depth :: "UserQuery \<Rightarrow> nat"
and UserSelect_depth :: "UserSelect \<Rightarrow> nat"
and Profile_select_depth :: "ProfileQuery \<Rightarrow> nat"
and ProfileSelect_depth :: "ProfileSelect \<Rightarrow> nat"
and Post_select_depth :: "PostQuery \<Rightarrow> nat"
and PostSelect_depth :: "PostSelect \<Rightarrow> nat"
and Comment_select_depth :: "CommentQuery \<Rightarrow> nat"
and CommentSelect_depth :: "CommentSelect \<Rightarrow> nat"
where
  "User_select_depth (UserQuery w ob sel inc) =
     Suc ((case sel of None \<Rightarrow> 0 | Some s \<Rightarrow> UserSelect_depth s)
        + (case inc of None \<Rightarrow> 0 | Some s \<Rightarrow> UserSelect_depth s))"
| "UserSelect_depth (UserSelect p ps cs) =
     (case p of Some (AttachArgs q) \<Rightarrow> Profile_select_depth q | _ \<Rightarrow> 0)
     + (case ps of Some (AttachArgs q) \<Rightarrow> Post_select_depth q | _ \<Rightarrow> 0)
     + (case cs of Some (AttachArgs q) \<Rightarrow> Comment_select_depth q | _ \<Rightarrow> 0)"
| "Profile_select_depth (ProfileQuery w ob sel inc) =
     Suc ((case sel of None \<Rightarrow> 0 | Some s \<Rightarrow> ProfileSelect_depth s)
        + (case inc of None \<Rightarrow> 0 | Some s \<Rightarrow> ProfileSelect_depth s))"
| "ProfileSelect_depth (ProfileSelect u) =
     (case u of Some (AttachArgs q) \<Rightarrow> User_select_depth q | _ \<Rightarrow> 0)"
| "Post_select_depth (PostQuery w ob sel inc) =
     Suc ((case sel of None \<Rightarrow> 0 | Some s \<Rightarrow> PostSelect_depth s)
        + (case inc of None \<Rightarrow> 0 | Some s \<Rightarrow> PostSelect_depth s))"
| "PostSelect_depth (PostSelect au cs) =
     (case au of Some (AttachArgs q) \<Rightarrow> User_select_depth q | _ \<Rightarrow> 0)
     + (case cs of Some (AttachArgs q) \<Rightarrow> Comment_select_depth q | _ \<Rightarrow> 0)"
| "Comment_select_depth (CommentQuery w ob sel inc) =
     Suc ((case sel of None \<Rightarrow> 0 | Some s \<Rightarrow> CommentSelect_depth s)
        + (case inc of None \<Rightarrow> 0 | Some s \<Rightarrow> CommentSelect_depth s))"
| "CommentSelect_depth (CommentSelect po u) =
     (case po of Some (AttachArgs q) \<Rightarrow> Post_select_depth q | _ \<Rightarrow> 0)
     + (case u of Some (AttachArgs q) \<Rightarrow> User_select_depth q | _ \<Rightarrow> 0)"

definition present :: "'a option \<Rightarrow> nat" where
  "present x = (case x of None \<Rightarrow> 0 | Some y \<Rightarrow> 1)"

definition User_orderBy_relations :: "UserQuery option \<Rightarrow> nat" where
  "User_orderBy_relations query = (case query of None \<Rightarrow> 0 | Some q \<Rightarrow>
     sum_list (map (\<lambda>c. present (uo_profile c) + present (uo_posts c) + present (uo_comments c))
       (clausesOf (uq_orderBy q))))"

definition Profile_orderBy_relations :: "ProfileQuery option \<Rightarrow> nat" where
  "Profile_orderBy_relations query = (case query of None \<Rightarrow> 0 | Some q \<Rightarrow>
     sum_list (map (\<lambda>c. present (pro_user c)) (clausesOf (pq_orderBy q))))"

definition Post_orderBy_relations :: "PostQuery option \<Rightarrow> nat" where
  "Post_orderBy_relations query = (case query of None \<Rightarrow> 0 | Some q \<Rightarrow>
     sum_list (map (\<lambda>c. present (poo_author c) + present (poo_comments c))
       (clausesOf (poq_orderBy q))))"

definition Comment_orderBy_relations :: "CommentQuery option \<Rightarrow> nat" where
  "Comment_orderBy_relations query = (case query of None \<Rightarrow> 0 | Some q \<Rightarrow>
     sum_list (map (\<lambda>c. present (co_post c) + present (co_user c)) (clausesOf (cq_orderBy q))))"

definition User_depth :: "UserQuery option \<Rightarrow> nat" where
  "User_depth query = (case query of None \<Rightarrow> 0 | Some q \<Rightarrow> User_select_depth q)"

definition Profile_depth :: "ProfileQuery option \<Rightarrow> nat" where
  "Profile_depth query = (case query of None \<Rightarrow> 0 | Some q \<Rightarrow> Profile_select_depth q)"

definition Post_depth :: "PostQuery option \<Rightarrow> nat" where
  "Post_depth query = (case query of None \<Rightarrow> 0 | Some q \<Rightarrow> Post_select_depth q)"

definition Comment_depth :: "CommentQuery option \<Rightarrow> nat" where
  "Comment_depth query = (case query of None \<Rightarrow> 0 | Some q \<Rightarrow> Comment_select_depth q)"

lemma find_Some_relations:
  assumes "find P xs = Some c"
  shows "(f c :: nat) \<le> sum_list (map f xs)" and "P c"
proof -
  from assms have "c \<in> set xs" and "P c"
    by (auto simp: find_Some_iff)
  then show "f c \<le> sum_list (map f xs)" and "P c"
    by (simp_all add: member_le_sum_list)
qed

lemma User_select_profile_depth:
  "attachArgs (Option.bind (Option.bind query uq_select) us_profile) = Some q
    \<Longrightarrow> Profile_depth (Some q) < User_depth query"
  by (cases query; cases "the query"; cases "the (uq_select (the query))")
     (auto simp: attachArgs_def Profile_depth_def User_depth_def split: option.splits Attach.splits)

lemma User_include_profile_depth:
  "attachArgs (Option.bind (Option.bind query uq_include) us_profile) = Some q
    \<Longrightarrow> Profile_depth (Some q) < User_depth query"
  by (cases query; cases "the query"; cases "the (uq_include (the query))")
     (auto simp: attachArgs_def Profile_depth_def User_depth_def split: option.splits Attach.splits)

lemma User_orderBy_profile_hop:
  assumes "Option.bind query uq_orderBy = Some orderBy"
    and "find (\<lambda>clause. uo_profile clause \<noteq> None) orderBy = Some c"
  shows "Profile_depth (Some (ProfileQuery None (Some [User_as_ProfileOrderBy c]) None None)) \<le> User_depth query"
    and "Profile_orderBy_relations (Some (ProfileQuery None (Some [User_as_ProfileOrderBy c]) None None))
          < User_orderBy_relations query"
proof -
  obtain q where q: "query = Some q" "uq_orderBy q = Some orderBy"
    using assms(1) by (cases query) auto
  show "Profile_depth (Some (ProfileQuery None (Some [User_as_ProfileOrderBy c]) None None)) \<le> User_depth query"
    using q by (cases q) (simp add: Profile_depth_def User_depth_def)
  have le: "present (uo_profile c) + present (uo_posts c) + present (uo_comments c)
      \<le> sum_list (map (\<lambda>c. present (uo_profile c) + present (uo_posts c) + present (uo_comments c)) orderBy)"
    by (rule find_Some_relations(1) [OF assms(2)])
  have "uo_profile c \<noteq> None"
    using find_Some_relations(2) [OF assms(2)] .
  then show "Profile_orderBy_relations (Some (ProfileQuery None (Some [User_as_ProfileOrderBy c]) None None))
          < User_orderBy_relations query"
    using le q
    by (auto simp: Profile_orderBy_relations_def User_orderBy_relations_def clausesOf_def present_def
        User_as_ProfileOrderBy_def split: option.splits)
qed

lemma User_select_posts_depth:
  "attachArgs (Option.bind (Option.bind query uq_select) us_posts) = Some q
    \<Longrightarrow> Post_depth (Some q) < User_depth query"
  by (cases query; cases "the query"; cases "the (uq_select (the query))")
     (auto simp: attachArgs_def Post_depth_def User_depth_def split: option.splits Attach.splits)

lemma User_include_posts_depth:
  "attachArgs (Option.bind (Option.bind query uq_include) us_posts) = Some q
    \<Longrightarrow> Post_depth (Some q) < User_depth query"
  by (cases query; cases "the query"; cases "the (uq_include (the query))")
     (auto simp: attachArgs_def Post_depth_def User_depth_def split: option.splits Attach.splits)

lemma User_orderBy_posts_hop:
  assumes "Option.bind query uq_orderBy = Some orderBy"
    and "find (\<lambda>clause. uo_posts clause \<noteq> None) orderBy = Some c"
  shows "Post_depth (Some (PostQuery None (Some [User_as_PostOrderBy c]) None None)) \<le> User_depth query"
    and "Post_orderBy_relations (Some (PostQuery None (Some [User_as_PostOrderBy c]) None None))
          < User_orderBy_relations query"
proof -
  obtain q where q: "query = Some q" "uq_orderBy q = Some orderBy"
    using assms(1) by (cases query) auto
  show "Post_depth (Some (PostQuery None (Some [User_as_PostOrderBy c]) None None)) \<le> User_depth query"
    using q by (cases q) (simp add: Post_depth_def User_depth_def)
  have le: "present (uo_profile c) + present (uo_posts c) + present (uo_comments c)
      \<le> sum_list (map (\<lambda>c. present (uo_profile c) + present (uo_posts c) + present (uo_comments c)) orderBy)"
    by (rule find_Some_relations(1) [OF assms(2)])
  have "uo_posts c \<noteq> None"
    using find_Some_relations(2) [OF assms(2)] .
  then show "Post_orderBy_relations (Some (PostQuery None (Some [User_as_PostOrderBy c]) None None))
          < User_orderBy_relations query"
    using le q
    by (auto simp: Post_orderBy_relations_def User_orderBy_relations_def clausesOf_def present_def
        User_as_PostOrderBy_def split: option.splits)
qed

lemma User_select_comments_depth:
  "attachArgs (Option.bind (Option.bind query uq_select) us_comments) = Some q
    \<Longrightarrow> Comment_depth (Some q) < User_depth query"
  by (cases query; cases "the query"; cases "the (uq_select (the query))")
     (auto simp: attachArgs_def Comment_depth_def User_depth_def split: option.splits Attach.splits)

lemma User_include_comments_depth:
  "attachArgs (Option.bind (Option.bind query uq_include) us_comments) = Some q
    \<Longrightarrow> Comment_depth (Some q) < User_depth query"
  by (cases query; cases "the query"; cases "the (uq_include (the query))")
     (auto simp: attachArgs_def Comment_depth_def User_depth_def split: option.splits Attach.splits)

lemma User_orderBy_comments_hop:
  assumes "Option.bind query uq_orderBy = Some orderBy"
    and "find (\<lambda>clause. uo_comments clause \<noteq> None) orderBy = Some c"
  shows "Comment_depth (Some (CommentQuery None (Some [User_as_CommentOrderBy c]) None None)) \<le> User_depth query"
    and "Comment_orderBy_relations (Some (CommentQuery None (Some [User_as_CommentOrderBy c]) None None))
          < User_orderBy_relations query"
proof -
  obtain q where q: "query = Some q" "uq_orderBy q = Some orderBy"
    using assms(1) by (cases query) auto
  show "Comment_depth (Some (CommentQuery None (Some [User_as_CommentOrderBy c]) None None)) \<le> User_depth query"
    using q by (cases q) (simp add: Comment_depth_def User_depth_def)
  have le: "present (uo_profile c) + present (uo_posts c) + present (uo_comments c)
      \<le> sum_list (map (\<lambda>c. present (uo_profile c) + present (uo_posts c) + present (uo_comments c)) orderBy)"
    by (rule find_Some_relations(1) [OF assms(2)])
  have "uo_comments c \<noteq> None"
    using find_Some_relations(2) [OF assms(2)] .
  then show "Comment_orderBy_relations (Some (CommentQuery None (Some [User_as_CommentOrderBy c]) None None))
          < User_orderBy_relations query"
    using le q
    by (auto simp: Comment_orderBy_relations_def User_orderBy_relations_def clausesOf_def present_def
        User_as_CommentOrderBy_def split: option.splits)
qed

lemma Profile_select_user_depth:
  "attachArgs (Option.bind (Option.bind query pq_select) ps_user) = Some q
    \<Longrightarrow> User_depth (Some q) < Profile_depth query"
  by (cases query; cases "the query"; cases "the (pq_select (the query))")
     (auto simp: attachArgs_def User_depth_def Profile_depth_def split: option.splits Attach.splits)

lemma Profile_include_user_depth:
  "attachArgs (Option.bind (Option.bind query pq_include) ps_user) = Some q
    \<Longrightarrow> User_depth (Some q) < Profile_depth query"
  by (cases query; cases "the query"; cases "the (pq_include (the query))")
     (auto simp: attachArgs_def User_depth_def Profile_depth_def split: option.splits Attach.splits)

lemma Profile_orderBy_user_hop:
  assumes "Option.bind query pq_orderBy = Some orderBy"
    and "find (\<lambda>clause. pro_user clause \<noteq> None) orderBy = Some c"
  shows "User_depth (Some (UserQuery None (Some [Profile_as_UserOrderBy c]) None None)) \<le> Profile_depth query"
    and "User_orderBy_relations (Some (UserQuery None (Some [Profile_as_UserOrderBy c]) None None))
          < Profile_orderBy_relations query"
proof -
  obtain q where q: "query = Some q" "pq_orderBy q = Some orderBy"
    using assms(1) by (cases query) auto
  show "User_depth (Some (UserQuery None (Some [Profile_as_UserOrderBy c]) None None)) \<le> Profile_depth query"
    using q by (cases q) (simp add: User_depth_def Profile_depth_def)
  have le: "present (pro_user c)
      \<le> sum_list (map (\<lambda>c. present (pro_user c)) orderBy)"
    by (rule find_Some_relations(1) [OF assms(2)])
  have "pro_user c \<noteq> None"
    using find_Some_relations(2) [OF assms(2)] .
  then show "User_orderBy_relations (Some (UserQuery None (Some [Profile_as_UserOrderBy c]) None None))
          < Profile_orderBy_relations query"
    using le q
    by (auto simp: User_orderBy_relations_def Profile_orderBy_relations_def clausesOf_def present_def
        Profile_as_UserOrderBy_def split: option.splits)
qed

lemma Post_select_author_depth:
  "attachArgs (Option.bind (Option.bind query poq_select) pos_author) = Some q
    \<Longrightarrow> User_depth (Some q) < Post_depth query"
  by (cases query; cases "the query"; cases "the (poq_select (the query))")
     (auto simp: attachArgs_def User_depth_def Post_depth_def split: option.splits Attach.splits)

lemma Post_include_author_depth:
  "attachArgs (Option.bind (Option.bind query poq_include) pos_author) = Some q
    \<Longrightarrow> User_depth (Some q) < Post_depth query"
  by (cases query; cases "the query"; cases "the (poq_include (the query))")
     (auto simp: attachArgs_def User_depth_def Post_depth_def split: option.splits Attach.splits)

lemma Post_orderBy_author_hop:
  assumes "Option.bind query poq_orderBy = Some orderBy"
    and "find (\<lambda>clause. poo_author clause \<noteq> None) orderBy = Some c"
  shows "User_depth (Some (UserQuery None (Some [Post_as_UserOrderBy c]) None None)) \<le> Post_depth query"
    and "User_orderBy_relations (Some (UserQuery None (Some [Post_as_UserOrderBy c]) None None))
          < Post_orderBy_relations query"
proof -
  obtain q where q: "query = Some q" "poq_orderBy q = Some orderBy"
    using assms(1) by (cases query) auto
  show "User_depth (Some (UserQuery None (Some [Post_as_UserOrderBy c]) None None)) \<le> Post_depth query"
    using q by (cases q) (simp add: User_depth_def Post_depth_def)
  have le: "present (poo_author c) + present (poo_comments c)
      \<le> sum_list (map (\<lambda>c. present (poo_author c) + present (poo_comments c)) orderBy)"
    by (rule find_Some_relations(1) [OF assms(2)])
  have "poo_author c \<noteq> None"
    using find_Some_relations(2) [OF assms(2)] .
  then show "User_orderBy_relations (Some (UserQuery None (Some [Post_as_UserOrderBy c]) None None))
          < Post_orderBy_relations query"
    using le q
    by (auto simp: User_orderBy_relations_def Post_orderBy_relations_def clausesOf_def present_def
        Post_as_UserOrderBy_def split: option.splits)
qed

lemma Post_select_comments_depth:
  "attachArgs (Option.bind (Option.bind query poq_select) pos_comments) = Some q
    \<Longrightarrow> Comment_depth (Some q) < Post_depth query"
  by (cases query; cases "the query"; cases "the (poq_select (the query))")
     (auto simp: attachArgs_def Comment_depth_def Post_depth_def split: option.splits Attach.splits)

lemma Post_include_comments_depth:
  "attachArgs (Option.bind (Option.bind query poq_include) pos_comments) = Some q
    \<Longrightarrow> Comment_depth (Some q) < Post_depth query"
  by (cases query; cases "the query"; cases "the (poq_include (the query))")
     (auto simp: attachArgs_def Comment_depth_def Post_depth_def split: option.splits Attach.splits)

lemma Post_orderBy_comments_hop:
  assumes "Option.bind query poq_orderBy = Some orderBy"
    and "find (\<lambda>clause. poo_comments clause \<noteq> None) orderBy = Some c"
  shows "Comment_depth (Some (CommentQuery None (Some [Post_as_CommentOrderBy c]) None None)) \<le> Post_depth query"
    and "Comment_orderBy_relations (Some (CommentQuery None (Some [Post_as_CommentOrderBy c]) None None))
          < Post_orderBy_relations query"
proof -
  obtain q where q: "query = Some q" "poq_orderBy q = Some orderBy"
    using assms(1) by (cases query) auto
  show "Comment_depth (Some (CommentQuery None (Some [Post_as_CommentOrderBy c]) None None)) \<le> Post_depth query"
    using q by (cases q) (simp add: Comment_depth_def Post_depth_def)
  have le: "present (poo_author c) + present (poo_comments c)
      \<le> sum_list (map (\<lambda>c. present (poo_author c) + present (poo_comments c)) orderBy)"
    by (rule find_Some_relations(1) [OF assms(2)])
  have "poo_comments c \<noteq> None"
    using find_Some_relations(2) [OF assms(2)] .
  then show "Comment_orderBy_relations (Some (CommentQuery None (Some [Post_as_CommentOrderBy c]) None None))
          < Post_orderBy_relations query"
    using le q
    by (auto simp: Comment_orderBy_relations_def Post_orderBy_relations_def clausesOf_def present_def
        Post_as_CommentOrderBy_def split: option.splits)
qed

lemma Comment_select_post_depth:
  "attachArgs (Option.bind (Option.bind query cq_select) cs_post) = Some q
    \<Longrightarrow> Post_depth (Some q) < Comment_depth query"
  by (cases query; cases "the query"; cases "the (cq_select (the query))")
     (auto simp: attachArgs_def Post_depth_def Comment_depth_def split: option.splits Attach.splits)

lemma Comment_include_post_depth:
  "attachArgs (Option.bind (Option.bind query cq_include) cs_post) = Some q
    \<Longrightarrow> Post_depth (Some q) < Comment_depth query"
  by (cases query; cases "the query"; cases "the (cq_include (the query))")
     (auto simp: attachArgs_def Post_depth_def Comment_depth_def split: option.splits Attach.splits)

lemma Comment_orderBy_post_hop:
  assumes "Option.bind query cq_orderBy = Some orderBy"
    and "find (\<lambda>clause. co_post clause \<noteq> None) orderBy = Some c"
  shows "Post_depth (Some (PostQuery None (Some [Comment_as_PostOrderBy c]) None None)) \<le> Comment_depth query"
    and "Post_orderBy_relations (Some (PostQuery None (Some [Comment_as_PostOrderBy c]) None None))
          < Comment_orderBy_relations query"
proof -
  obtain q where q: "query = Some q" "cq_orderBy q = Some orderBy"
    using assms(1) by (cases query) auto
  show "Post_depth (Some (PostQuery None (Some [Comment_as_PostOrderBy c]) None None)) \<le> Comment_depth query"
    using q by (cases q) (simp add: Post_depth_def Comment_depth_def)
  have le: "present (co_post c) + present (co_user c)
      \<le> sum_list (map (\<lambda>c. present (co_post c) + present (co_user c)) orderBy)"
    by (rule find_Some_relations(1) [OF assms(2)])
  have "co_post c \<noteq> None"
    using find_Some_relations(2) [OF assms(2)] .
  then show "Post_orderBy_relations (Some (PostQuery None (Some [Comment_as_PostOrderBy c]) None None))
          < Comment_orderBy_relations query"
    using le q
    by (auto simp: Post_orderBy_relations_def Comment_orderBy_relations_def clausesOf_def present_def
        Comment_as_PostOrderBy_def split: option.splits)
qed

lemma Comment_select_user_depth:
  "attachArgs (Option.bind (Option.bind query cq_select) cs_user) = Some q
    \<Longrightarrow> User_depth (Some q) < Comment_depth query"
  by (cases query; cases "the query"; cases "the (cq_select (the query))")
     (auto simp: attachArgs_def User_depth_def Comment_depth_def split: option.splits Attach.splits)

lemma Comment_include_user_depth:
  "attachArgs (Option.bind (Option.bind query cq_include) cs_user) = Some q
    \<Longrightarrow> User_depth (Some q) < Comment_depth query"
  by (cases query; cases "the query"; cases "the (cq_include (the query))")
     (auto simp: attachArgs_def User_depth_def Comment_depth_def split: option.splits Attach.splits)

lemma Comment_orderBy_user_hop:
  assumes "Option.bind query cq_orderBy = Some orderBy"
    and "find (\<lambda>clause. co_user clause \<noteq> None) orderBy = Some c"
  shows "User_depth (Some (UserQuery None (Some [Comment_as_UserOrderBy c]) None None)) \<le> Comment_depth query"
    and "User_orderBy_relations (Some (UserQuery None (Some [Comment_as_UserOrderBy c]) None None))
          < Comment_orderBy_relations query"
proof -
  obtain q where q: "query = Some q" "cq_orderBy q = Some orderBy"
    using assms(1) by (cases query) auto
  show "User_depth (Some (UserQuery None (Some [Comment_as_UserOrderBy c]) None None)) \<le> Comment_depth query"
    using q by (cases q) (simp add: User_depth_def Comment_depth_def)
  have le: "present (co_post c) + present (co_user c)
      \<le> sum_list (map (\<lambda>c. present (co_post c) + present (co_user c)) orderBy)"
    by (rule find_Some_relations(1) [OF assms(2)])
  have "co_user c \<noteq> None"
    using find_Some_relations(2) [OF assms(2)] .
  then show "User_orderBy_relations (Some (UserQuery None (Some [Comment_as_UserOrderBy c]) None None))
          < Comment_orderBy_relations query"
    using le q
    by (auto simp: User_orderBy_relations_def Comment_orderBy_relations_def clausesOf_def present_def
        Comment_as_UserOrderBy_def split: option.splits)
qed

function User_getNeededStoresForFind :: "UserQuery option \<Rightarrow> StoreName set"
and Profile_getNeededStoresForFind :: "ProfileQuery option \<Rightarrow> StoreName set"
and Post_getNeededStoresForFind :: "PostQuery option \<Rightarrow> StoreName set"
and Comment_getNeededStoresForFind :: "CommentQuery option \<Rightarrow> StoreName set"
where
  "User_getNeededStoresForFind query =
     {User}
     \<union> User_getNeededStoresForWhere (Option.bind query uq_where)
     \<union> (case Option.bind query uq_orderBy of
          None \<Rightarrow> {}
        | Some orderBy \<Rightarrow>
            (case find (\<lambda>clause. uo_profile clause \<noteq> None) orderBy of
               None \<Rightarrow> {}
             | Some orderBy_profile \<Rightarrow>
                 Profile_getNeededStoresForFind
                   (Some (ProfileQuery None (Some [User_as_ProfileOrderBy orderBy_profile]) None None)))
            \<union>
            (case find (\<lambda>clause. uo_posts clause \<noteq> None) orderBy of
               None \<Rightarrow> {}
             | Some orderBy_posts \<Rightarrow>
                 Post_getNeededStoresForFind
                   (Some (PostQuery None (Some [User_as_PostOrderBy orderBy_posts]) None None)))
            \<union>
            (case find (\<lambda>clause. uo_comments clause \<noteq> None) orderBy of
               None \<Rightarrow> {}
             | Some orderBy_comments \<Rightarrow>
                 Comment_getNeededStoresForFind
                   (Some (CommentQuery None (Some [User_as_CommentOrderBy orderBy_comments]) None None))))
     \<union> (if attached (Option.bind (Option.bind query uq_select) us_profile)
            \<or> attached (Option.bind (Option.bind query uq_include) us_profile)
         then {Profile}
           \<union> (case attachArgs (Option.bind (Option.bind query uq_select) us_profile) of
                None \<Rightarrow> {}
              | Some q \<Rightarrow> Profile_getNeededStoresForFind (Some q))
           \<union> (case attachArgs (Option.bind (Option.bind query uq_include) us_profile) of
                None \<Rightarrow> {}
              | Some q \<Rightarrow> Profile_getNeededStoresForFind (Some q))
         else {})
     \<union> (if attached (Option.bind (Option.bind query uq_select) us_posts)
            \<or> attached (Option.bind (Option.bind query uq_include) us_posts)
         then {Post}
           \<union> (case attachArgs (Option.bind (Option.bind query uq_select) us_posts) of
                None \<Rightarrow> {}
              | Some q \<Rightarrow> Post_getNeededStoresForFind (Some q))
           \<union> (case attachArgs (Option.bind (Option.bind query uq_include) us_posts) of
                None \<Rightarrow> {}
              | Some q \<Rightarrow> Post_getNeededStoresForFind (Some q))
         else {})
     \<union> (if attached (Option.bind (Option.bind query uq_select) us_comments)
            \<or> attached (Option.bind (Option.bind query uq_include) us_comments)
         then {Comment}
           \<union> (case attachArgs (Option.bind (Option.bind query uq_select) us_comments) of
                None \<Rightarrow> {}
              | Some q \<Rightarrow> Comment_getNeededStoresForFind (Some q))
           \<union> (case attachArgs (Option.bind (Option.bind query uq_include) us_comments) of
                None \<Rightarrow> {}
              | Some q \<Rightarrow> Comment_getNeededStoresForFind (Some q))
         else {})"
| "Profile_getNeededStoresForFind query =
     {Profile}
     \<union> Profile_getNeededStoresForWhere (Option.bind query pq_where)
     \<union> (case Option.bind query pq_orderBy of
          None \<Rightarrow> {}
        | Some orderBy \<Rightarrow>
            (case find (\<lambda>clause. pro_user clause \<noteq> None) orderBy of
               None \<Rightarrow> {}
             | Some orderBy_user \<Rightarrow>
                 User_getNeededStoresForFind
                   (Some (UserQuery None (Some [Profile_as_UserOrderBy orderBy_user]) None None))))
     \<union> (if attached (Option.bind (Option.bind query pq_select) ps_user)
            \<or> attached (Option.bind (Option.bind query pq_include) ps_user)
         then {User}
           \<union> (case attachArgs (Option.bind (Option.bind query pq_select) ps_user) of
                None \<Rightarrow> {}
              | Some q \<Rightarrow> User_getNeededStoresForFind (Some q))
           \<union> (case attachArgs (Option.bind (Option.bind query pq_include) ps_user) of
                None \<Rightarrow> {}
              | Some q \<Rightarrow> User_getNeededStoresForFind (Some q))
         else {})"
| "Post_getNeededStoresForFind query =
     {Post}
     \<union> Post_getNeededStoresForWhere (Option.bind query poq_where)
     \<union> (case Option.bind query poq_orderBy of
          None \<Rightarrow> {}
        | Some orderBy \<Rightarrow>
            (case find (\<lambda>clause. poo_author clause \<noteq> None) orderBy of
               None \<Rightarrow> {}
             | Some orderBy_author \<Rightarrow>
                 User_getNeededStoresForFind
                   (Some (UserQuery None (Some [Post_as_UserOrderBy orderBy_author]) None None)))
            \<union>
            (case find (\<lambda>clause. poo_comments clause \<noteq> None) orderBy of
               None \<Rightarrow> {}
             | Some orderBy_comments \<Rightarrow>
                 Comment_getNeededStoresForFind
                   (Some (CommentQuery None (Some [Post_as_CommentOrderBy orderBy_comments]) None None))))
     \<union> (if attached (Option.bind (Option.bind query poq_select) pos_author)
            \<or> attached (Option.bind (Option.bind query poq_include) pos_author)
         then {User}
           \<union> (case attachArgs (Option.bind (Option.bind query poq_select) pos_author) of
                None \<Rightarrow> {}
              | Some q \<Rightarrow> User_getNeededStoresForFind (Some q))
           \<union> (case attachArgs (Option.bind (Option.bind query poq_include) pos_author) of
                None \<Rightarrow> {}
              | Some q \<Rightarrow> User_getNeededStoresForFind (Some q))
         else {})
     \<union> (if attached (Option.bind (Option.bind query poq_select) pos_comments)
            \<or> attached (Option.bind (Option.bind query poq_include) pos_comments)
         then {Comment}
           \<union> (case attachArgs (Option.bind (Option.bind query poq_select) pos_comments) of
                None \<Rightarrow> {}
              | Some q \<Rightarrow> Comment_getNeededStoresForFind (Some q))
           \<union> (case attachArgs (Option.bind (Option.bind query poq_include) pos_comments) of
                None \<Rightarrow> {}
              | Some q \<Rightarrow> Comment_getNeededStoresForFind (Some q))
         else {})"
| "Comment_getNeededStoresForFind query =
     {Comment}
     \<union> Comment_getNeededStoresForWhere (Option.bind query cq_where)
     \<union> (case Option.bind query cq_orderBy of
          None \<Rightarrow> {}
        | Some orderBy \<Rightarrow>
            (case find (\<lambda>clause. co_post clause \<noteq> None) orderBy of
               None \<Rightarrow> {}
             | Some orderBy_post \<Rightarrow>
                 Post_getNeededStoresForFind
                   (Some (PostQuery None (Some [Comment_as_PostOrderBy orderBy_post]) None None)))
            \<union>
            (case find (\<lambda>clause. co_user clause \<noteq> None) orderBy of
               None \<Rightarrow> {}
             | Some orderBy_user \<Rightarrow>
                 User_getNeededStoresForFind
                   (Some (UserQuery None (Some [Comment_as_UserOrderBy orderBy_user]) None None))))
     \<union> (if attached (Option.bind (Option.bind query cq_select) cs_post)
            \<or> attached (Option.bind (Option.bind query cq_include) cs_post)
         then {Post}
           \<union> (case attachArgs (Option.bind (Option.bind query cq_select) cs_post) of
                None \<Rightarrow> {}
              | Some q \<Rightarrow> Post_getNeededStoresForFind (Some q))
           \<union> (case attachArgs (Option.bind (Option.bind query cq_include) cs_post) of
                None \<Rightarrow> {}
              | Some q \<Rightarrow> Post_getNeededStoresForFind (Some q))
         else {})
     \<union> (if attached (Option.bind (Option.bind query cq_select) cs_user)
            \<or> attached (Option.bind (Option.bind query cq_include) cs_user)
         then {User}
           \<union> (case attachArgs (Option.bind (Option.bind query cq_select) cs_user) of
                None \<Rightarrow> {}
              | Some q \<Rightarrow> User_getNeededStoresForFind (Some q))
           \<union> (case attachArgs (Option.bind (Option.bind query cq_include) cs_user) of
                None \<Rightarrow> {}
              | Some q \<Rightarrow> User_getNeededStoresForFind (Some q))
         else {})"
  by pat_completeness auto

termination
  apply (relation "inv_image (less_than <*lex*> less_than)
      (case_sum
        (case_sum (\<lambda>q. (User_depth q, User_orderBy_relations q))
                  (\<lambda>q. (Profile_depth q, Profile_orderBy_relations q)))
        (case_sum (\<lambda>q. (Post_depth q, Post_orderBy_relations q))
                  (\<lambda>q. (Comment_depth q, Comment_orderBy_relations q))))")
  apply (intro wf_inv_image wf_lex_prod wf_less_than)
  apply (simp_all add: User_select_profile_depth User_include_profile_depth User_select_posts_depth User_include_posts_depth User_select_comments_depth User_include_comments_depth Profile_select_user_depth Profile_include_user_depth Post_select_author_depth Post_include_author_depth Post_select_comments_depth Post_include_comments_depth Comment_select_post_depth Comment_include_post_depth Comment_select_user_depth Comment_include_user_depth)
  apply (auto dest: User_orderBy_profile_hop(1) User_orderBy_posts_hop(1) User_orderBy_comments_hop(1) Profile_orderBy_user_hop(1) Post_orderBy_author_hop(1) Post_orderBy_comments_hop(1) Comment_orderBy_post_hop(1) Comment_orderBy_user_hop(1) intro: User_orderBy_profile_hop(2) User_orderBy_posts_hop(2) User_orderBy_comments_hop(2) Profile_orderBy_user_hop(2) Post_orderBy_author_hop(2) Post_orderBy_comments_hop(2) Comment_orderBy_post_hop(2) Comment_orderBy_user_hop(2))
  done

declare User_getNeededStoresForFind.simps [simp del] Profile_getNeededStoresForFind.simps [simp del]
  Post_getNeededStoresForFind.simps [simp del] Comment_getNeededStoresForFind.simps [simp del]



section \<open>Predicate evaluator\<close>

text \<open>
  Modelled from the spec: \<^verbatim>\<open>whereNumberFilter\<close> is in \<^verbatim>\<open>idb-utils.ts\<close>, which is not
  under src. The spec (4.1) lists the number filters: equals, lt, lte, gt, gte, in, notIn
  and negation; a bare value is an equality test and an absent filter accepts every row.
  The first argument is the row's value of the column (\<open>None\<close> for \<^verbatim>\<open>null\<close>).
\<close>

fun whereNumberFilter :: "int option \<Rightarrow> NumberFilter option \<Rightarrow> bool" where
  "whereNumberFilter v None = True"
| "whereNumberFilter v (Some (NumberValue x)) = (v = x)"
| "whereNumberFilter v (Some (NumberOps eq ins notIn lt lte gt gte nt)) =
     ((case eq of Undefined \<Rightarrow> True | Null \<Rightarrow> v = None | Val x \<Rightarrow> v = Some x)
      \<and> (case ins of None \<Rightarrow> True | Some xs \<Rightarrow> (case v of None \<Rightarrow> False | Some y \<Rightarrow> y \<in> set xs))
      \<and> (case notIn of None \<Rightarrow> True | Some xs \<Rightarrow> (case v of None \<Rightarrow> False | Some y \<Rightarrow> y \<notin> set xs))
      \<and> (case lt of None \<Rightarrow> True | Some b \<Rightarrow> (case v of None \<Rightarrow> False | Some y \<Rightarrow> y < b))
      \<and> (case lte of None \<Rightarrow> True | Some b \<Rightarrow> (case v of None \<Rightarrow> False | Some y \<Rightarrow> y \<le> b))
      \<and> (case gt of None \<Rightarrow> True | Some b \<Rightarrow> (case v of None \<Rightarrow> False | Some y \<Rightarrow> y > b))
      \<and> (case gte of None \<Rightarrow> True | Some b \<Rightarrow> (case v of None \<Rightarrow> False | Some y \<Rightarrow> y \<ge> b))
      \<and> (case nt of None \<Rightarrow> True | Some f \<Rightarrow> \<not> whereNumberFilter v (Some f)))"

text \<open>
  Modelled from the spec: \<^verbatim>\<open>whereStringFilter\<close> is in \<^verbatim>\<open>idb-utils.ts\<close>, which is not
  under src. The spec (4.1) lists the string filters: equals, contains, startsWith, endsWith,
  in, notIn and negation.
\<close>

fun whereStringFilter :: "string option \<Rightarrow> StringFilter option \<Rightarrow> bool" where
  "whereStringFilter v None = True"
| "whereStringFilter v (Some (StringValue x)) = (v = x)"
| "whereStringFilter v (Some (StringOps eq ins notIn cont starts ends nt)) =
     ((case eq of Undefined \<Rightarrow> True | Null \<Rightarrow> v = None | Val x \<Rightarrow> v = Some x)
      \<and> (case ins of None \<Rightarrow> True | Some xs \<Rightarrow> (case v of None \<Rightarrow> False | Some y \<Rightarrow> y \<in> set xs))
      \<and> (case notIn of None \<Rightarrow> True | Some xs \<Rightarrow> (case v of None \<Rightarrow> False | Some y \<Rightarrow> y \<notin> set xs))
      \<and> (case cont of None \<Rightarrow> True | Some x \<Rightarrow> (case v of None \<Rightarrow> False | Some y \<Rightarrow> sublist x y))
      \<and> (case starts of None \<Rightarrow> True | Some x \<Rightarrow> (case v of None \<Rightarrow> False | Some y \<Rightarrow> prefix x y))
      \<and> (case ends of None \<Rightarrow> True | Some x \<Rightarrow> (case v of None \<Rightarrow> False | Some y \<Rightarrow> suffix x y))
      \<and> (case nt of None \<Rightarrow> True | Some f \<Rightarrow> \<not> whereStringFilter v (Some f)))"

text \<open>
  Modelled from the spec: \<^verbatim>\<open>whereStringListFilter\<close> and \<^verbatim>\<open>whereNumberListFilter\<close> are in
  \<^verbatim>\<open>idb-utils.ts\<close>, which is not under src. The spec (4.1) lists the list filters: has,
  hasEvery, hasSome, isEmpty and set-equality. A row stored without the column counts as
  holding the empty list.
\<close>

definition whereListFilter :: "'a list option \<Rightarrow> 'a ListFilter option \<Rightarrow> bool" where
  "whereListFilter v f = (case f of None \<Rightarrow> True | Some (ListFilter eq has hasEvery hasSome isEmpty) \<Rightarrow>
     (let xs = (case v of None \<Rightarrow> [] | Some l \<Rightarrow> l) in
       (case eq of None \<Rightarrow> True | Some ys \<Rightarrow> set xs = set ys)
       \<and> (case has of None \<Rightarrow> True | Some y \<Rightarrow> y \<in> set xs)
       \<and> (case hasEvery of None \<Rightarrow> True | Some ys \<Rightarrow> set ys \<subseteq> set xs)
       \<and> (case hasSome of None \<Rightarrow> True | Some ys \<Rightarrow> set ys \<inter> set xs \<noteq> {})
       \<and> (case isEmpty of None \<Rightarrow> True | Some b \<Rightarrow> (xs = []) = b)))"

definition whereStringListFilter :: "string list option \<Rightarrow> string ListFilter option \<Rightarrow> bool" where
  "whereStringListFilter = whereListFilter"

definition whereNumberListFilter :: "int list option \<Rightarrow> int ListFilter option \<Rightarrow> bool" where
  "whereNumberListFilter = whereListFilter"

text \<open>
  Modelled from the spec: \<^verbatim>\<open>applyLogicalFilters\<close> is in \<^verbatim>\<open>idb-utils.ts\<close>, which is not
  under src. The spec (4.1): the evaluator is order-preserving; AND is the intersection of all
  sub-clause matches, OR the union, NOT the complement (the rows that satisfy no sub-clause),
  rows being identified by their key. The engine passes its key path and its own
  \<^verbatim>\<open>_applyWhereClause\<close>; the members \<^verbatim>\<open>AND\<close>, \<^verbatim>\<open>OR\<close> and \<^verbatim>\<open>NOT\<close> of the clause are passed
  one by one here, the clause types being different per model.
\<close>

definition applyLogicalFilters ::
  "('r \<Rightarrow> 'k) \<Rightarrow> ('r list \<Rightarrow> 'w \<Rightarrow> 'r list) \<Rightarrow> 'r list
    \<Rightarrow> 'w list option \<Rightarrow> 'w list option \<Rightarrow> 'w list option \<Rightarrow> 'r list" where
  "applyLogicalFilters keyPath applyWhereFunction records ands ors nots =
     (let records1 = (case ands of None \<Rightarrow> records | Some cs \<Rightarrow>
            filter (\<lambda>r. \<forall>c \<in> set cs. keyPath r \<in> keyPath ` set (applyWhereFunction records c)) records);
          records2 = (case ors of None \<Rightarrow> records1 | Some cs \<Rightarrow>
            filter (\<lambda>r. \<exists>c \<in> set cs. keyPath r \<in> keyPath ` set (applyWhereFunction records1 c)) records1);
          records3 = (case nots of None \<Rightarrow> records2 | Some cs \<Rightarrow>
            filter (\<lambda>r. \<not> (\<exists>c \<in> set cs. keyPath r \<in> keyPath ` set (applyWhereFunction records2 c))) records2)
      in records3)"

lemma applyLogicalFilters_cong [fundef_cong]:
  assumes "records = records'" "ands = ands'" "ors = ors'" "nots = nots'"
    and "\<And>rs c. c \<in> set (clausesOf ands') \<union> set (clausesOf ors') \<union> set (clausesOf nots')
          \<Longrightarrow> f rs c = g rs c"
  shows "applyLogicalFilters keyPath f records ands ors nots
       = applyLogicalFilters keyPath g records' ands' ors' nots'"
  using assms
  by (cases ands'; cases ors'; cases nots')
     (simp_all add: applyLogicalFilters_def clausesOf_def Let_def cong: filter_cong)

lemma applyLogicalFilters_subset:
  "set (applyLogicalFilters keyPath f records ands ors nots) \<subseteq> set records"
  by (auto simp: applyLogicalFilters_def Let_def split: option.splits)

text \<open>The first row of a result, as \<^verbatim>\<open>findFirst\<close> takes it: \<^verbatim>\<open>(await this.findMany(...))[0] ?? null\<close>.\<close>

definition first :: "'r list \<Rightarrow> 'r option" where
  "first rs = (case rs of [] \<Rightarrow> None | r # _ \<Rightarrow> Some r)"

text \<open>The object spreads that scope a sub-query: \<^verbatim>\<open>{ ...clause, userId: record.id }\<close>.\<close>

definition UserWhere_empty :: UserWhere where
  "UserWhere_empty = UserWhere None None None None None Undefined None None"

definition ProfileWhere_empty :: ProfileWhere where
  "ProfileWhere_empty = ProfileWhere None None None None None None None"

definition PostWhere_empty :: PostWhere where
  "PostWhere_empty = PostWhere None None None None None None None None Undefined None"

definition CommentWhere_empty :: CommentWhere where
  "CommentWhere_empty = CommentWhere None None None None None None None None None"

fun UserWhere_id_update :: "NumberFilter option \<Rightarrow> UserWhere \<Rightarrow> UserWhere" where
  "UserWhere_id_update v (UserWhere ands ors nots i nm p ps cs) = UserWhere ands ors nots v nm p ps cs"

fun ProfileWhere_userId_update :: "NumberFilter option \<Rightarrow> ProfileWhere \<Rightarrow> ProfileWhere" where
  "ProfileWhere_userId_update v (ProfileWhere ands ors nots i b ui u) = ProfileWhere ands ors nots i b v u"

fun PostWhere_id_update :: "NumberFilter option \<Rightarrow> PostWhere \<Rightarrow> PostWhere" where
  "PostWhere_id_update v (PostWhere ands ors nots i t ai tg na au cs) = PostWhere ands ors nots v t ai tg na au cs"

fun PostWhere_authorId_update :: "NumberFilter option \<Rightarrow> PostWhere \<Rightarrow> PostWhere" where
  "PostWhere_authorId_update v (PostWhere ands ors nots i t ai tg na au cs) = PostWhere ands ors nots i t v tg na au cs"

fun CommentWhere_postId_update :: "NumberFilter option \<Rightarrow> CommentWhere \<Rightarrow> CommentWhere" where
  "CommentWhere_postId_update v (CommentWhere ands ors nots i t pi ui po u) = CommentWhere ands ors nots i t v ui po u"

fun CommentWhere_userId_update :: "NumberFilter option \<Rightarrow> CommentWhere \<Rightarrow> CommentWhere" where
  "CommentWhere_userId_update v (CommentWhere ands ors nots i t pi ui po u) = CommentWhere ands ors nots i t pi v po u"

text \<open>A column value as the filter of a scoped sub-query; an \<^verbatim>\<open>undefined\<close> value is no filter.\<close>

definition equalTo :: "int option \<Rightarrow> NumberFilter option" where
  "equalTo v = (case v of None \<Rightarrow> None | Some n \<Rightarrow> Some (NumberValue (Some n)))"

text \<open>The weight of a where clause: the clauses nested in it.\<close>

fun UserWhere_weight :: "UserWhere \<Rightarrow> nat"
and ProfileWhere_weight :: "ProfileWhere \<Rightarrow> nat"
and PostWhere_weight :: "PostWhere \<Rightarrow> nat"
and CommentWhere_weight :: "CommentWhere \<Rightarrow> nat"
and UserRelation_weight :: "UserRelation \<Rightarrow> nat"
and ProfileRelation_weight :: "ProfileRelation \<Rightarrow> nat"
and PostRelation_weight :: "PostRelation \<Rightarrow> nat"
and PostListRelation_weight :: "PostListRelation \<Rightarrow> nat"
and CommentListRelation_weight :: "CommentListRelation \<Rightarrow> nat"
where
  "UserWhere_weight (UserWhere ands ors nots i nm p ps cs) =
     Suc (sum_list (map UserWhere_weight (case ands of None \<Rightarrow> [] | Some l \<Rightarrow> l))
        + sum_list (map UserWhere_weight (case ors of None \<Rightarrow> [] | Some l \<Rightarrow> l))
        + sum_list (map UserWhere_weight (case nots of None \<Rightarrow> [] | Some l \<Rightarrow> l))
        + (case p of Val r \<Rightarrow> ProfileRelation_weight r | Null \<Rightarrow> 1 | Undefined \<Rightarrow> 0)
        + (case ps of Some r \<Rightarrow> PostListRelation_weight r | None \<Rightarrow> 0)
        + (case cs of Some r \<Rightarrow> CommentListRelation_weight r | None \<Rightarrow> 0))"
| "ProfileWhere_weight (ProfileWhere ands ors nots i b ui u) =
     Suc (sum_list (map ProfileWhere_weight (case ands of None \<Rightarrow> [] | Some l \<Rightarrow> l))
        + sum_list (map ProfileWhere_weight (case ors of None \<Rightarrow> [] | Some l \<Rightarrow> l))
        + sum_list (map ProfileWhere_weight (case nots of None \<Rightarrow> [] | Some l \<Rightarrow> l))
        + (case u of Some r \<Rightarrow> UserRelation_weight r | None \<Rightarrow> 0))"
| "PostWhere_weight (PostWhere ands ors nots i t ai tg na au cs) =
     Suc (sum_list (map PostWhere_weight (case ands of None \<Rightarrow> [] | Some l \<Rightarrow> l))
        + sum_list (map PostWhere_weight (case ors of None \<Rightarrow> [] | Some l \<Rightarrow> l))
        + sum_list (map PostWhere_weight (case nots of None \<Rightarrow> [] | Some l \<Rightarrow> l))
        + (case au of Val r \<Rightarrow> UserRelation_weight r | Null \<Rightarrow> 1 | Undefined \<Rightarrow> 0)
        + (case cs of Some r \<Rightarrow> CommentListRelation_weight r | None \<Rightarrow> 0))"
| "CommentWhere_weight (CommentWhere ands ors nots i t pi ui po u) =
     Suc (sum_list (map CommentWhere_weight (case ands of None \<Rightarrow> [] | Some l \<Rightarrow> l))
        + sum_list (map CommentWhere_weight (case ors of None \<Rightarrow> [] | Some l \<Rightarrow> l))
        + sum_list (map CommentWhere_weight (case nots of None \<Rightarrow> [] | Some l \<Rightarrow> l))
        + (case po of Some r \<Rightarrow> PostRelation_weight r | None \<Rightarrow> 0)
        + (case u of Some r \<Rightarrow> UserRelation_weight r | None \<Rightarrow> 0))"
| "UserRelation_weight (UserRelation isw isNotw rest) =
     Suc ((case isw of Val w \<Rightarrow> UserWhere_weight w | _ \<Rightarrow> 0)
        + (case isNotw of Val w \<Rightarrow> UserWhere_weight w | _ \<Rightarrow> 0) + UserWhere_weight rest)"
| "ProfileRelation_weight (ProfileRelation isw isNotw rest) =
     Suc ((case isw of Val w \<Rightarrow> ProfileWhere_weight w | _ \<Rightarrow> 0)
        + (case isNotw of Val w \<Rightarrow> ProfileWhere_weight w | _ \<Rightarrow> 0) + ProfileWhere_weight rest)"
| "PostRelation_weight (PostRelation isw isNotw rest) =
     Suc ((case isw of Val w \<Rightarrow> PostWhere_weight w | _ \<Rightarrow> 0)
        + (case isNotw of Val w \<Rightarrow> PostWhere_weight w | _ \<Rightarrow> 0) + PostWhere_weight rest)"
| "PostListRelation_weight (PostListRelation ev sm nn) =
     Suc (Suc ((case ev of Some w \<Rightarrow> PostWhere_weight w | None \<Rightarrow> 0)
        + (case sm of Some w \<Rightarrow> PostWhere_weight w | None \<Rightarrow> 0)
        + (case nn of Some w \<Rightarrow> PostWhere_weight w | None \<Rightarrow> 0)))"
| "CommentListRelation_weight (CommentListRelation ev sm nn) =
     Suc (Suc ((case ev of Some w \<Rightarrow> CommentWhere_weight w | None \<Rightarrow> 0)
        + (case sm of Some w \<Rightarrow> CommentWhere_weight w | None \<Rightarrow> 0)
        + (case nn of Some w \<Rightarrow> CommentWhere_weight w | None \<Rightarrow> 0)))"


text \<open>The clause \<^verbatim>\<open>{ NOT: { ...every } }\<close> that the \<^verbatim>\<open>every\<close> quantifier builds.\<close>

definition PostWhere_NOT :: "PostWhere \<Rightarrow> PostWhere" where
  "PostWhere_NOT w = PostWhere None None (Some [w]) None None None None None Undefined None"

definition CommentWhere_NOT :: "CommentWhere \<Rightarrow> CommentWhere" where
  "CommentWhere_NOT w = CommentWhere None None (Some [w]) None None None None None None"

definition UserWhere_measure :: "UserWhere option \<Rightarrow> nat" where
  "UserWhere_measure w = (case w of None \<Rightarrow> 0 | Some c \<Rightarrow> UserWhere_weight c)"

definition ProfileWhere_measure :: "ProfileWhere option \<Rightarrow> nat" where
  "ProfileWhere_measure w = (case w of None \<Rightarrow> 0 | Some c \<Rightarrow> ProfileWhere_weight c)"

definition PostWhere_measure :: "PostWhere option \<Rightarrow> nat" where
  "PostWhere_measure w = (case w of None \<Rightarrow> 0 | Some c \<Rightarrow> PostWhere_weight c)"

definition CommentWhere_measure :: "CommentWhere option \<Rightarrow> nat" where
  "CommentWhere_measure w = (case w of None \<Rightarrow> 0 | Some c \<Rightarrow> CommentWhere_weight c)"

lemma sum_list_map_member: "c \<in> set xs \<Longrightarrow> (f c :: nat) \<le> sum_list (map f xs)"
  by (simp add: member_le_sum_list)

lemma UserWhere_clause_weight:
  "c \<in> set (clausesOf (uw_AND w)) \<union> set (clausesOf (uw_OR w)) \<union> set (clausesOf (uw_NOT w))
    \<Longrightarrow> UserWhere_weight c < UserWhere_weight w"
  by (cases w) (auto simp: clausesOf_def less_Suc_eq_le split: option.splits
      dest: sum_list_map_member [where f = UserWhere_weight])

lemma UserWhere_weight_pos: "0 < UserWhere_weight w"
  by (cases w) simp

lemma ProfileWhere_clause_weight:
  "c \<in> set (clausesOf (pw_AND w)) \<union> set (clausesOf (pw_OR w)) \<union> set (clausesOf (pw_NOT w))
    \<Longrightarrow> ProfileWhere_weight c < ProfileWhere_weight w"
  by (cases w) (auto simp: clausesOf_def less_Suc_eq_le split: option.splits
      dest: sum_list_map_member [where f = ProfileWhere_weight])

lemma ProfileWhere_weight_pos: "0 < ProfileWhere_weight w"
  by (cases w) simp

lemma PostWhere_clause_weight:
  "c \<in> set (clausesOf (pow_AND w)) \<union> set (clausesOf (pow_OR w)) \<union> set (clausesOf (pow_NOT w))
    \<Longrightarrow> PostWhere_weight c < PostWhere_weight w"
  by (cases w) (auto simp: clausesOf_def less_Suc_eq_le split: option.splits
      dest: sum_list_map_member [where f = PostWhere_weight])

lemma PostWhere_weight_pos: "0 < PostWhere_weight w"
  by (cases w) simp

lemma CommentWhere_clause_weight:
  "c \<in> set (clausesOf (cw_AND w)) \<union> set (clausesOf (cw_OR w)) \<union> set (clausesOf (cw_NOT w))
    \<Longrightarrow> CommentWhere_weight c < CommentWhere_weight w"
  by (cases w) (auto simp: clausesOf_def less_Suc_eq_le split: option.splits
      dest: sum_list_map_member [where f = CommentWhere_weight])

lemma CommentWhere_weight_pos: "0 < CommentWhere_weight w"
  by (cases w) simp

lemma UserWhere_id_update_weight: "UserWhere_weight (UserWhere_id_update v w) = UserWhere_weight w"
  by (cases w) simp

lemma ProfileWhere_userId_update_weight: "ProfileWhere_weight (ProfileWhere_userId_update v w) = ProfileWhere_weight w"
  by (cases w) simp

lemma PostWhere_id_update_weight: "PostWhere_weight (PostWhere_id_update v w) = PostWhere_weight w"
  by (cases w) simp

lemma PostWhere_authorId_update_weight: "PostWhere_weight (PostWhere_authorId_update v w) = PostWhere_weight w"
  by (cases w) simp

lemma CommentWhere_postId_update_weight: "CommentWhere_weight (CommentWhere_postId_update v w) = CommentWhere_weight w"
  by (cases w) simp

lemma CommentWhere_userId_update_weight: "CommentWhere_weight (CommentWhere_userId_update v w) = CommentWhere_weight w"
  by (cases w) simp

lemma PostWhere_NOT_weight: "PostWhere_weight (PostWhere_NOT w) = Suc (PostWhere_weight w)"
  by (simp add: PostWhere_NOT_def)

lemma CommentWhere_NOT_weight: "CommentWhere_weight (CommentWhere_NOT w) = Suc (CommentWhere_weight w)"
  by (simp add: CommentWhere_NOT_def)

lemma UserWhere_empty_weight: "UserWhere_weight UserWhere_empty = Suc 0"
  by (simp add: UserWhere_empty_def)

lemma ProfileWhere_empty_weight: "ProfileWhere_weight ProfileWhere_empty = Suc 0"
  by (simp add: ProfileWhere_empty_def)

lemma PostWhere_empty_weight: "PostWhere_weight PostWhere_empty = Suc 0"
  by (simp add: PostWhere_empty_def)

lemma CommentWhere_empty_weight: "CommentWhere_weight CommentWhere_empty = Suc 0"
  by (simp add: CommentWhere_empty_def)

lemma uw_profile_weight: "uw_profile w = Val r \<Longrightarrow> ProfileRelation_weight r < UserWhere_weight w"
  by (cases w) simp

lemma uw_profile_Null_weight: "uw_profile w = Null \<Longrightarrow> Suc 0 < UserWhere_weight w"
  by (cases w) simp

lemma uw_posts_weight: "uw_posts w = Some r \<Longrightarrow> PostListRelation_weight r < UserWhere_weight w"
  by (cases w) simp

lemma uw_comments_weight: "uw_comments w = Some r \<Longrightarrow> CommentListRelation_weight r < UserWhere_weight w"
  by (cases w) simp

lemma pw_user_weight: "pw_user w = Some r \<Longrightarrow> UserRelation_weight r < ProfileWhere_weight w"
  by (cases w) simp

lemma pow_author_weight: "pow_author w = Val r \<Longrightarrow> UserRelation_weight r < PostWhere_weight w"
  by (cases w) simp

lemma pow_author_Null_weight: "pow_author w = Null \<Longrightarrow> Suc 0 < PostWhere_weight w"
  by (cases w) simp

lemma pow_comments_weight: "pow_comments w = Some r \<Longrightarrow> CommentListRelation_weight r < PostWhere_weight w"
  by (cases w) simp

lemma cw_post_weight: "cw_post w = Some r \<Longrightarrow> PostRelation_weight r < CommentWhere_weight w"
  by (cases w) simp

lemma cw_user_weight: "cw_user w = Some r \<Longrightarrow> UserRelation_weight r < CommentWhere_weight w"
  by (cases w) simp

lemma ur_is_weight: "ur_is r = Val w \<Longrightarrow> UserWhere_weight w < UserRelation_weight r"
  by (cases r) simp

lemma ur_isNot_weight: "ur_isNot r = Val w \<Longrightarrow> UserWhere_weight w < UserRelation_weight r"
  by (cases r) simp

lemma ur_rest_weight: "UserWhere_weight (ur_rest r) < UserRelation_weight r"
  by (cases r) simp

lemma prr_is_weight: "prr_is r = Val w \<Longrightarrow> ProfileWhere_weight w < ProfileRelation_weight r"
  by (cases r) simp

lemma prr_isNot_weight: "prr_isNot r = Val w \<Longrightarrow> ProfileWhere_weight w < ProfileRelation_weight r"
  by (cases r) simp

lemma prr_rest_weight: "ProfileWhere_weight (prr_rest r) < ProfileRelation_weight r"
  by (cases r) simp

lemma por_is_weight: "por_is r = Val w \<Longrightarrow> PostWhere_weight w < PostRelation_weight r"
  by (cases r) simp

lemma por_isNot_weight: "por_isNot r = Val w \<Longrightarrow> PostWhere_weight w < PostRelation_weight r"
  by (cases r) simp

lemma por_rest_weight: "PostWhere_weight (por_rest r) < PostRelation_weight r"
  by (cases r) simp

lemma pol_every_weight: "pol_every r = Some w \<Longrightarrow> Suc (PostWhere_weight w) < PostListRelation_weight r"
  by (cases r) simp

lemma pol_some_weight: "pol_some r = Some w \<Longrightarrow> Suc (PostWhere_weight w) < PostListRelation_weight r"
  by (cases r) simp

lemma pol_none_weight: "pol_none r = Some w \<Longrightarrow> Suc (PostWhere_weight w) < PostListRelation_weight r"
  by (cases r) simp

lemma col_every_weight: "col_every r = Some w \<Longrightarrow> Suc (CommentWhere_weight w) < CommentListRelation_weight r"
  by (cases r) simp

lemma col_some_weight: "col_some r = Some w \<Longrightarrow> Suc (CommentWhere_weight w) < CommentListRelation_weight r"
  by (cases r) simp

lemma col_none_weight: "col_none r = Some w \<Longrightarrow> Suc (CommentWhere_weight w) < CommentListRelation_weight r"
  by (cases r) simp

lemma uw_profile_is_path:
  "uw_profile w = Val r \<Longrightarrow> prr_is r = Val x \<Longrightarrow> ProfileWhere_weight x < UserWhere_weight w"
  by (cases w; cases r) simp

lemma uw_profile_isNot_path:
  "uw_profile w = Val r \<Longrightarrow> prr_isNot r = Val x \<Longrightarrow> ProfileWhere_weight x < UserWhere_weight w"
  by (cases w; cases r) simp

lemma uw_profile_rest_path:
  "uw_profile w = Val r \<Longrightarrow> ProfileWhere_weight (prr_rest r) < UserWhere_weight w"
  by (cases w; cases r) simp

lemma uw_profile_any_path:
  "uw_profile w = Val r \<Longrightarrow> Suc 0 < UserWhere_weight w"
  by (cases w; cases r) (simp add: ProfileWhere_weight_pos)

lemma pw_user_is_path:
  "pw_user w = Some r \<Longrightarrow> ur_is r = Val x \<Longrightarrow> UserWhere_weight x < ProfileWhere_weight w"
  by (cases w; cases r) simp

lemma pw_user_isNot_path:
  "pw_user w = Some r \<Longrightarrow> ur_isNot r = Val x \<Longrightarrow> UserWhere_weight x < ProfileWhere_weight w"
  by (cases w; cases r) simp

lemma pw_user_rest_path:
  "pw_user w = Some r \<Longrightarrow> UserWhere_weight (ur_rest r) < ProfileWhere_weight w"
  by (cases w; cases r) simp

lemma pw_user_any_path:
  "pw_user w = Some r \<Longrightarrow> Suc 0 < ProfileWhere_weight w"
  by (cases w; cases r) (simp add: UserWhere_weight_pos)

lemma pow_author_is_path:
  "pow_author w = Val r \<Longrightarrow> ur_is r = Val x \<Longrightarrow> UserWhere_weight x < PostWhere_weight w"
  by (cases w; cases r) simp

lemma pow_author_isNot_path:
  "pow_author w = Val r \<Longrightarrow> ur_isNot r = Val x \<Longrightarrow> UserWhere_weight x < PostWhere_weight w"
  by (cases w; cases r) simp

lemma pow_author_rest_path:
  "pow_author w = Val r \<Longrightarrow> UserWhere_weight (ur_rest r) < PostWhere_weight w"
  by (cases w; cases r) simp

lemma pow_author_any_path:
  "pow_author w = Val r \<Longrightarrow> Suc 0 < PostWhere_weight w"
  by (cases w; cases r) (simp add: UserWhere_weight_pos)

lemma cw_post_is_path:
  "cw_post w = Some r \<Longrightarrow> por_is r = Val x \<Longrightarrow> PostWhere_weight x < CommentWhere_weight w"
  by (cases w; cases r) simp

lemma cw_post_isNot_path:
  "cw_post w = Some r \<Longrightarrow> por_isNot r = Val x \<Longrightarrow> PostWhere_weight x < CommentWhere_weight w"
  by (cases w; cases r) simp

lemma cw_post_rest_path:
  "cw_post w = Some r \<Longrightarrow> PostWhere_weight (por_rest r) < CommentWhere_weight w"
  by (cases w; cases r) simp

lemma cw_post_any_path:
  "cw_post w = Some r \<Longrightarrow> Suc 0 < CommentWhere_weight w"
  by (cases w; cases r) (simp add: PostWhere_weight_pos)

lemma cw_user_is_path:
  "cw_user w = Some r \<Longrightarrow> ur_is r = Val x \<Longrightarrow> UserWhere_weight x < CommentWhere_weight w"
  by (cases w; cases r) simp

lemma cw_user_isNot_path:
  "cw_user w = Some r \<Longrightarrow> ur_isNot r = Val x \<Longrightarrow> UserWhere_weight x < CommentWhere_weight w"
  by (cases w; cases r) simp

lemma cw_user_rest_path:
  "cw_user w = Some r \<Longrightarrow> UserWhere_weight (ur_rest r) < CommentWhere_weight w"
  by (cases w; cases r) simp

lemma cw_user_any_path:
  "cw_user w = Some r \<Longrightarrow> Suc 0 < CommentWhere_weight w"
  by (cases w; cases r) (simp add: UserWhere_weight_pos)

lemma uw_posts_every_path:
  "uw_posts w = Some r \<Longrightarrow> pol_every r = Some x \<Longrightarrow> Suc (PostWhere_weight x) < UserWhere_weight w"
  by (cases w; cases r) simp

lemma uw_posts_some_path:
  "uw_posts w = Some r \<Longrightarrow> pol_some r = Some x \<Longrightarrow> Suc (PostWhere_weight x) < UserWhere_weight w"
  by (cases w; cases r) simp

lemma uw_posts_none_path:
  "uw_posts w = Some r \<Longrightarrow> pol_none r = Some x \<Longrightarrow> Suc (PostWhere_weight x) < UserWhere_weight w"
  by (cases w; cases r) simp

lemma uw_comments_every_path:
  "uw_comments w = Some r \<Longrightarrow> col_every r = Some x \<Longrightarrow> Suc (CommentWhere_weight x) < UserWhere_weight w"
  by (cases w; cases r) simp

lemma uw_comments_some_path:
  "uw_comments w = Some r \<Longrightarrow> col_some r = Some x \<Longrightarrow> Suc (CommentWhere_weight x) < UserWhere_weight w"
  by (cases w; cases r) simp

lemma uw_comments_none_path:
  "uw_comments w = Some r \<Longrightarrow> col_none r = Some x \<Longrightarrow> Suc (CommentWhere_weight x) < UserWhere_weight w"
  by (cases w; cases r) simp

lemma pow_comments_every_path:
  "pow_comments w = Some r \<Longrightarrow> col_every r = Some x \<Longrightarrow> Suc (CommentWhere_weight x) < PostWhere_weight w"
  by (cases w; cases r) simp

lemma pow_comments_some_path:
  "pow_comments w = Some r \<Longrightarrow> col_some r = Some x \<Longrightarrow> Suc (CommentWhere_weight x) < PostWhere_weight w"
  by (cases w; cases r) simp

lemma pow_comments_none_path:
  "pow_comments w = Some r \<Longrightarrow> col_none r = Some x \<Longrightarrow> Suc (CommentWhere_weight x) < PostWhere_weight w"
  by (cases w; cases r) simp

text \<open>
  \<^verbatim>\<open>_applyWhereClause(records, whereClause, tx)\<close> of the four engines with relations. A relation
  filter asks the related engine: \<^verbatim>\<open>findFirst({ where })\<close> is the first row of
  \<^verbatim>\<open>findMany({ where })\<close>, and \<^verbatim>\<open>findMany\<close> with nothing but a where clause is the related
  engine's \<^verbatim>\<open>_applyWhereClause\<close> over \<^verbatim>\<open>getAll()\<close>; the two are written out here, the four
  functions being mutually recursive. The sub-queries read the stores \<open>db\<close> that the calling
  query reads (the \<^verbatim>\<open>every\<close> and \<^verbatim>\<open>none\<close> sub-queries, which pass \<^verbatim>\<open>tx\<close> inside the query
  object and so open a transaction of their own, included).
\<close>

function User_applyWhereClause :: "DB \<Rightarrow> UserRec list \<Rightarrow> UserWhere option \<Rightarrow> UserRec list"
and Profile_applyWhereClause :: "DB \<Rightarrow> ProfileRec list \<Rightarrow> ProfileWhere option \<Rightarrow> ProfileRec list"
and Post_applyWhereClause :: "DB \<Rightarrow> PostRec list \<Rightarrow> PostWhere option \<Rightarrow> PostRec list"
and Comment_applyWhereClause :: "DB \<Rightarrow> CommentRec list \<Rightarrow> CommentWhere option \<Rightarrow> CommentRec list"
where
  "User_applyWhereClause db records whereClause =
     (case whereClause of
        None \<Rightarrow> records
      | Some w \<Rightarrow>
          filter (\<lambda>record.
            whereStringFilter (Some (u_name record)) (uw_name w)
            \<and> whereNumberFilter (Some (u_id record)) (uw_id w)
            \<and> (case uw_profile w of
              Null \<Rightarrow> first (Profile_applyWhereClause db (store_getAll (db_Profile db))
                        (Some (ProfileWhere_userId_update (equalTo (Some (u_id record))) ProfileWhere_empty))) = None
            | Val relation \<Rightarrow>
                (prr_is relation = Null \<longrightarrow>
                   first (Profile_applyWhereClause db (store_getAll (db_Profile db))
                     (Some (ProfileWhere_userId_update (equalTo (Some (u_id record))) ProfileWhere_empty))) = None)
                \<and> (case prr_is relation of
                     Val isw \<Rightarrow> first (Profile_applyWhereClause db (store_getAll (db_Profile db)) (Some (ProfileWhere_userId_update (equalTo (Some (u_id record))) (isw)))) \<noteq> None
                   | _ \<Rightarrow> True)
                \<and> (prr_isNot relation = Null \<longrightarrow>
                   first (Profile_applyWhereClause db (store_getAll (db_Profile db))
                     (Some (ProfileWhere_userId_update (equalTo (Some (u_id record))) ProfileWhere_empty))) \<noteq> None)
                \<and> (case prr_isNot relation of
                     Val isNotw \<Rightarrow> first (Profile_applyWhereClause db (store_getAll (db_Profile db)) (Some (ProfileWhere_userId_update (equalTo (Some (u_id record))) (isNotw)))) = None
                   | _ \<Rightarrow> True)
                \<and> (prr_rest relation \<noteq> ProfileWhere_empty \<longrightarrow>
                   first (Profile_applyWhereClause db (store_getAll (db_Profile db)) (Some (ProfileWhere_userId_update (equalTo (Some (u_id record))) (prr_rest relation)))) \<noteq> None)
            | Undefined \<Rightarrow> True)
            \<and> (case uw_posts w of
              None \<Rightarrow> True
            | Some relation \<Rightarrow>
                (case pol_every relation of
                     Some ev \<Rightarrow> first (Post_applyWhereClause db (store_getAll (db_Post db)) (Some (PostWhere_authorId_update (equalTo (Some (u_id record))) (PostWhere_NOT ev)))) = None
                   | None \<Rightarrow> True)
                \<and> (case pol_some relation of
                     Some sm \<Rightarrow> Post_applyWhereClause db (store_getAll (db_Post db)) (Some (PostWhere_authorId_update (equalTo (Some (u_id record))) (sm))) \<noteq> []
                   | None \<Rightarrow> True)
                \<and> (case pol_none relation of
                     Some nn \<Rightarrow> first (Post_applyWhereClause db (store_getAll (db_Post db)) (Some (PostWhere_authorId_update (equalTo (Some (u_id record))) (nn)))) = None
                   | None \<Rightarrow> True))
            \<and> (case uw_comments w of
              None \<Rightarrow> True
            | Some relation \<Rightarrow>
                (case col_every relation of
                     Some ev \<Rightarrow> first (Comment_applyWhereClause db (store_getAll (db_Comment db)) (Some (CommentWhere_userId_update (equalTo (Some (u_id record))) (CommentWhere_NOT ev)))) = None
                   | None \<Rightarrow> True)
                \<and> (case col_some relation of
                     Some sm \<Rightarrow> Comment_applyWhereClause db (store_getAll (db_Comment db)) (Some (CommentWhere_userId_update (equalTo (Some (u_id record))) (sm))) \<noteq> []
                   | None \<Rightarrow> True)
                \<and> (case col_none relation of
                     Some nn \<Rightarrow> first (Comment_applyWhereClause db (store_getAll (db_Comment db)) (Some (CommentWhere_userId_update (equalTo (Some (u_id record))) (nn)))) = None
                   | None \<Rightarrow> True)))
            (applyLogicalFilters u_id (\<lambda>rs c. User_applyWhereClause db rs (Some c)) records
               (uw_AND w) (uw_OR w) (uw_NOT w)))"
| "Profile_applyWhereClause db records whereClause =
     (case whereClause of
        None \<Rightarrow> records
      | Some w \<Rightarrow>
          filter (\<lambda>record.
            whereStringFilter (pr_bio record) (pw_bio w)
            \<and> whereNumberFilter (Some (pr_id record)) (pw_id w)
            \<and> whereNumberFilter (pr_userId record) (pw_userId w)
            \<and> (case pw_user w of
              None \<Rightarrow> True
            | Some relation \<Rightarrow>
                (case ur_is relation of
                     Val isw \<Rightarrow> first (User_applyWhereClause db (store_getAll (db_User db)) (Some (UserWhere_id_update (equalTo (pr_userId record)) (isw)))) \<noteq> None
                   | _ \<Rightarrow> True)
                \<and> (case ur_isNot relation of
                     Val isNotw \<Rightarrow> first (User_applyWhereClause db (store_getAll (db_User db)) (Some (UserWhere_id_update (equalTo (pr_userId record)) (isNotw)))) = None
                   | _ \<Rightarrow> True)
                \<and> (ur_rest relation \<noteq> UserWhere_empty \<longrightarrow>
                   first (User_applyWhereClause db (store_getAll (db_User db)) (Some (UserWhere_id_update (equalTo (pr_userId record)) (ur_rest relation)))) \<noteq> None)))
            (applyLogicalFilters pr_id (\<lambda>rs c. Profile_applyWhereClause db rs (Some c)) records
               (pw_AND w) (pw_OR w) (pw_NOT w)))"
| "Post_applyWhereClause db records whereClause =
     (case whereClause of
        None \<Rightarrow> records
      | Some w \<Rightarrow>
          filter (\<lambda>record.
            whereStringFilter (Some (po_title record)) (pow_title w)
            \<and> whereStringListFilter (po_tags record) (pow_tags w)
            \<and> whereNumberFilter (Some (po_id record)) (pow_id w)
            \<and> whereNumberFilter (po_authorId record) (pow_authorId w)
            \<and> whereNumberListFilter (po_numberArr record) (pow_numberArr w)
            \<and> (case pow_author w of
              Null \<Rightarrow> po_authorId record = None
            | Val relation \<Rightarrow>
                (ur_is relation = Null \<longrightarrow> po_authorId record = None)
                \<and> (case ur_is relation of
                     Val isw \<Rightarrow> po_authorId record \<noteq> None
                       \<and> first (User_applyWhereClause db (store_getAll (db_User db)) (Some (UserWhere_id_update (equalTo (po_authorId record)) (isw)))) \<noteq> None
                   | _ \<Rightarrow> True)
                \<and> (ur_isNot relation = Null \<longrightarrow> po_authorId record \<noteq> None)
                \<and> (case ur_isNot relation of
                     Val isNotw \<Rightarrow> po_authorId record \<noteq> None
                       \<and> first (User_applyWhereClause db (store_getAll (db_User db)) (Some (UserWhere_id_update (equalTo (po_authorId record)) (isNotw)))) = None
                   | _ \<Rightarrow> True)
                \<and> (ur_rest relation \<noteq> UserWhere_empty \<longrightarrow>
                   po_authorId record \<noteq> None
                   \<and> first (User_applyWhereClause db (store_getAll (db_User db)) (Some (UserWhere_id_update (equalTo (po_authorId record)) (ur_rest relation)))) \<noteq> None)
            | Undefined \<Rightarrow> True)
            \<and> (case pow_comments w of
              None \<Rightarrow> True
            | Some relation \<Rightarrow>
                (case col_every relation of
                     Some ev \<Rightarrow> first (Comment_applyWhereClause db (store_getAll (db_Comment db)) (Some (CommentWhere_postId_update (equalTo (Some (po_id record))) (CommentWhere_NOT ev)))) = None
                   | None \<Rightarrow> True)
                \<and> (case col_some relation of
                     Some sm \<Rightarrow> Comment_applyWhereClause db (store_getAll (db_Comment db)) (Some (CommentWhere_postId_update (equalTo (Some (po_id record))) (sm))) \<noteq> []
                   | None \<Rightarrow> True)
                \<and> (case col_none relation of
                     Some nn \<Rightarrow> first (Comment_applyWhereClause db (store_getAll (db_Comment db)) (Some (CommentWhere_postId_update (equalTo (Some (po_id record))) (nn)))) = None
                   | None \<Rightarrow> True)))
            (applyLogicalFilters po_id (\<lambda>rs c. Post_applyWhereClause db rs (Some c)) records
               (pow_AND w) (pow_OR w) (pow_NOT w)))"
| "Comment_applyWhereClause db records whereClause =
     (case whereClause of
        None \<Rightarrow> records
      | Some w \<Rightarrow>
          filter (\<lambda>record.
            whereStringFilter (Some (c_id record)) (cw_id w)
            \<and> whereStringFilter (Some (c_text record)) (cw_text w)
            \<and> whereNumberFilter (c_postId record) (cw_postId w)
            \<and> whereNumberFilter (c_userId record) (cw_userId w)
            \<and> (case cw_post w of
              None \<Rightarrow> True
            | Some relation \<Rightarrow>
                (case por_is relation of
                     Val isw \<Rightarrow> first (Post_applyWhereClause db (store_getAll (db_Post db)) (Some (PostWhere_id_update (equalTo (c_postId record)) (isw)))) \<noteq> None
                   | _ \<Rightarrow> True)
                \<and> (case por_isNot relation of
                     Val isNotw \<Rightarrow> first (Post_applyWhereClause db (store_getAll (db_Post db)) (Some (PostWhere_id_update (equalTo (c_postId record)) (isNotw)))) = None
                   | _ \<Rightarrow> True)
                \<and> (por_rest relation \<noteq> PostWhere_empty \<longrightarrow>
                   first (Post_applyWhereClause db (store_getAll (db_Post db)) (Some (PostWhere_id_update (equalTo (c_postId record)) (por_rest relation)))) \<noteq> None))
            \<and> (case cw_user w of
              None \<Rightarrow> True
            | Some relation \<Rightarrow>
                (case ur_is relation of
                     Val isw \<Rightarrow> first (User_applyWhereClause db (store_getAll (db_User db)) (Some (UserWhere_id_update (equalTo (c_userId record)) (isw)))) \<noteq> None
                   | _ \<Rightarrow> True)
                \<and> (case ur_isNot relation of
                     Val isNotw \<Rightarrow> first (User_applyWhereClause db (store_getAll (db_User db)) (Some (UserWhere_id_update (equalTo (c_userId record)) (isNotw)))) = None
                   | _ \<Rightarrow> True)
                \<and> (ur_rest relation \<noteq> UserWhere_empty \<longrightarrow>
                   first (User_applyWhereClause db (store_getAll (db_User db)) (Some (UserWhere_id_update (equalTo (c_userId record)) (ur_rest relation)))) \<noteq> None)))
            (applyLogicalFilters c_id (\<lambda>rs c. Comment_applyWhereClause db rs (Some c)) records
               (cw_AND w) (cw_OR w) (cw_NOT w)))"
  by pat_completeness auto

termination
  apply (relation "measure (case_sum
        (case_sum (\<lambda>(db, rs, w). UserWhere_measure w) (\<lambda>(db, rs, w). ProfileWhere_measure w))
        (case_sum (\<lambda>(db, rs, w). PostWhere_measure w) (\<lambda>(db, rs, w). CommentWhere_measure w)))")
  apply simp
  apply (simp_all add: UserWhere_measure_def ProfileWhere_measure_def PostWhere_measure_def
      CommentWhere_measure_def UserWhere_clause_weight ProfileWhere_clause_weight PostWhere_clause_weight CommentWhere_clause_weight UserWhere_id_update_weight ProfileWhere_userId_update_weight PostWhere_id_update_weight PostWhere_authorId_update_weight CommentWhere_postId_update_weight CommentWhere_userId_update_weight PostWhere_NOT_weight CommentWhere_NOT_weight UserWhere_empty_weight ProfileWhere_empty_weight PostWhere_empty_weight CommentWhere_empty_weight)
  apply (auto dest: uw_profile_is_path uw_profile_isNot_path uw_profile_rest_path uw_profile_any_path pw_user_is_path pw_user_isNot_path pw_user_rest_path pw_user_any_path pow_author_is_path pow_author_isNot_path pow_author_rest_path pow_author_any_path cw_post_is_path cw_post_isNot_path cw_post_rest_path cw_post_any_path cw_user_is_path cw_user_isNot_path cw_user_rest_path cw_user_any_path uw_posts_every_path uw_posts_some_path uw_posts_none_path uw_comments_every_path uw_comments_some_path uw_comments_none_path pow_comments_every_path pow_comments_some_path pow_comments_none_path uw_profile_Null_weight pow_author_Null_weight simp: Suc_lessD)
  done

declare User_applyWhereClause.simps [simp del] Profile_applyWhereClause.simps [simp del]
  Post_applyWhereClause.simps [simp del] Comment_applyWhereClause.simps [simp del]



section \<open>Calls inside a transaction\<close>

text \<open>
  The errors the engines raise, and those of the store and the runtime that the modelled
  paths can reach. \<open>NotFound\<close> is \<^verbatim>\<open>Error("Record not found")\<close>, \<open>UnsupportedOperation\<close> is
  \<^verbatim>\<open>Error("connectOrCreate not yet implemented")\<close>, \<open>NoOrderByField\<close> is
  \<^verbatim>\<open>Error("No field in orderBy clause")\<close>. \<open>ConstraintError\<close> is the store's rejection of an
  \<^verbatim>\<open>add\<close> under an existing key or of a write that breaks a unique index; \<open>TypeError\<close> stands
  for the exception raised when \<^verbatim>\<open>undefined\<close> is used as a row.
\<close>

datatype error = NotFound | UnsupportedOperation | NoOrderByField | ConstraintError | TypeError

text \<open>
  An \<^verbatim>\<open>async\<close> method that takes the transaction handle: it returns a value or throws, and
  leaves the handle as its writes and aborts made it. \<open>await\<close> sequences two such calls; an
  exception skips what follows.
\<close>

type_synonym 'a call = "Tx \<Rightarrow> (error + 'a) \<times> Tx"

definition return :: "'a \<Rightarrow> 'a call" where
  "return x tx = (Inr x, tx)"

definition throw :: "error \<Rightarrow> 'a call" where
  "throw e tx = (Inl e, tx)"

definition await :: "'a call \<Rightarrow> ('a \<Rightarrow> 'b call) \<Rightarrow> 'b call" where
  "await m f tx = (case m tx of (Inl e, tx') \<Rightarrow> (Inl e, tx') | (Inr x, tx') \<Rightarrow> f x tx')"

lemma await_cong [fundef_cong]:
  assumes "m tx = m' tx'" and "\<And>x tx''. f x tx'' = f' x tx''" and "tx = tx'"
  shows "await m f tx = await m' f' tx'"
  using assms by (simp add: await_def split: prod.splits sum.splits)

text \<open>\<^verbatim>\<open>for (const x of xs) { await f(x) }\<close>; \<^verbatim>\<open>await Promise.all(xs.map(f))\<close> is run the same
  way, one element after the other in list order.\<close>

fun forEach :: "'a list \<Rightarrow> ('a \<Rightarrow> 'b call) \<Rightarrow> unit call" where
  "forEach [] f tx = (Inr (), tx)"
| "forEach (x # xs) f tx =
     (case f x tx of (Inl e, tx') \<Rightarrow> (Inl e, tx') | (Inr y, tx') \<Rightarrow> forEach xs f tx')"

lemma forEach_cong [fundef_cong]:
  assumes "xs = ys" and "\<And>x tx''. x \<in> set ys \<Longrightarrow> f x tx'' = g x tx''" and "tx = tx'"
  shows "forEach xs f tx = forEach ys g tx'"
  using assms(2) unfolding assms(1) assms(3)
  by (induction ys arbitrary: tx') (auto split: prod.splits sum.splits)

text \<open>\<^verbatim>\<open>tx.abort(); throw new Error("Record not found")\<close>.\<close>

definition abort_and_throw :: "error \<Rightarrow> 'a call" where
  "abort_and_throw e tx = (Inl e, abort tx)"

subsection \<open>Object store requests\<close>

text \<open>
  A store of the handle is reached through its field of \<open>DB\<close>. \<^verbatim>\<open>add\<close> fails when the key is
  taken and \<^verbatim>\<open>put\<close> overwrites; both return the key. A failed request aborts its transaction,
  as IndexedDB does when nobody handles the error event.
\<close>

definition objectStore_get :: "(DB \<Rightarrow> ('k, 'v) objectStore) \<Rightarrow> 'k \<Rightarrow> 'v option call" where
  "objectStore_get store k tx = (Inr (store_get (store (tx_db tx)) k), tx)"

definition objectStore_getAll :: "(DB \<Rightarrow> ('k, 'v) objectStore) \<Rightarrow> 'v list call" where
  "objectStore_getAll store tx = (Inr (store_getAll (store (tx_db tx))), tx)"

definition objectStore_add ::
  "(DB \<Rightarrow> ('k::linorder, 'v) objectStore)
    \<Rightarrow> ((('k, 'v) objectStore \<Rightarrow> ('k, 'v) objectStore) \<Rightarrow> DB \<Rightarrow> DB) \<Rightarrow> 'k \<Rightarrow> 'v \<Rightarrow> 'k call" where
  "objectStore_add store store_update k v tx =
     (if k \<in> set (store_keys (store (tx_db tx))) then (Inl ConstraintError, abort tx)
      else (Inr k, tx\<lparr>tx_db := store_update (\<lambda>s. store_put s k v) (tx_db tx)\<rparr>))"

definition objectStore_put ::
  "(DB \<Rightarrow> ('k::linorder, 'v) objectStore)
    \<Rightarrow> ((('k, 'v) objectStore \<Rightarrow> ('k, 'v) objectStore) \<Rightarrow> DB \<Rightarrow> DB) \<Rightarrow> 'k \<Rightarrow> 'v \<Rightarrow> 'k call" where
  "objectStore_put store store_update k v tx =
     (Inr k, tx\<lparr>tx_db := store_update (\<lambda>s. store_put s k v) (tx_db tx)\<rparr>)"

definition objectStore_delete ::
  "((('k, 'v) objectStore \<Rightarrow> ('k, 'v) objectStore) \<Rightarrow> DB \<Rightarrow> DB) \<Rightarrow> 'k \<Rightarrow> unit call" where
  "objectStore_delete store_update k tx =
     (Inr (), tx\<lparr>tx_db := store_update (\<lambda>s. store_delete s k) (tx_db tx)\<rparr>)"

definition objectStore_openCursor_prev :: "(DB \<Rightarrow> ('k, 'v) objectStore) \<Rightarrow> 'k option call" where
  "objectStore_openCursor_prev store tx = (Inr (store_openCursor_prev (store (tx_db tx))), tx)"

text \<open>
  The Profile store has the unique index \<^verbatim>\<open>userIdIndex\<close> on \<^verbatim>\<open>["userId"]\<close>: a lookup by it,
  and the check the store makes before it writes a row (a row without \<^verbatim>\<open>userId\<close> is not
  indexed).
\<close>

definition userIdIndex_get :: "int \<Rightarrow> ProfileRec option call" where
  "userIdIndex_get userId tx =
     (Inr (find (\<lambda>r. pr_userId r = Some userId) (store_getAll (db_Profile (tx_db tx)))), tx)"

definition userIdIndex_taken :: "ProfileRec \<Rightarrow> Tx \<Rightarrow> bool" where
  "userIdIndex_taken record tx =
     (pr_userId record \<noteq> None
      \<and> (\<exists>r \<in> set (store_getAll (db_Profile (tx_db tx))).
            pr_id r \<noteq> pr_id record \<and> pr_userId r = pr_userId record))"

definition Profile_store_add :: "ProfileRec \<Rightarrow> int call" where
  "Profile_store_add record tx =
     (if userIdIndex_taken record tx then (Inl ConstraintError, abort tx)
      else objectStore_add db_Profile db_Profile_update (pr_id record) record tx)"

definition Profile_store_put :: "ProfileRec \<Rightarrow> int call" where
  "Profile_store_put record tx =
     (if userIdIndex_taken record tx then (Inl ConstraintError, abort tx)
      else objectStore_put db_Profile db_Profile_update (pr_id record) record tx)"


section \<open>Order resolver\<close>

text \<open>A resolved sort key: a column value, a count, or \<^verbatim>\<open>null\<close>/\<^verbatim>\<open>undefined\<close>.\<close>

datatype Key = KUndefined | KNull | KNum int | KStr string | KStrList "string list" | KNumList "int list"

definition numKey :: "int option \<Rightarrow> Key" where
  "numKey v = (case v of None \<Rightarrow> KNull | Some n \<Rightarrow> KNum n)"

definition strKey :: "string option \<Rightarrow> Key" where
  "strKey v = (case v of None \<Rightarrow> KNull | Some x \<Rightarrow> KStr x)"

definition fkKey :: "int option \<Rightarrow> Key" where
  "fkKey v = (case v of None \<Rightarrow> KUndefined | Some n \<Rightarrow> KNum n)"

text \<open>
  Modelled from the spec: \<^verbatim>\<open>genericComparator\<close> is in \<^verbatim>\<open>idb-utils.ts\<close>, which is not
  under src. The spec (4.3) has the resolver compare clause by clause in each clause's declared
  direction and perform a total sort: two keys are compared by value (numbers by size, strings
  and lists lexicographically, an absent key before a present one), and the descending
  direction negates the comparison.
\<close>

definition Key_position :: "Key \<Rightarrow> nat \<times> int \<times> string \<times> string list \<times> int list" where
  "Key_position k = (case k of
       KUndefined \<Rightarrow> (0, 0, [], [], [])
     | KNull \<Rightarrow> (1, 0, [], [], [])
     | KNum n \<Rightarrow> (2, n, [], [], [])
     | KStr x \<Rightarrow> (3, 0, x, [], [])
     | KStrList xs \<Rightarrow> (4, 0, [], xs, [])
     | KNumList ns \<Rightarrow> (5, 0, [], [], ns))"

definition compareKeys :: "Key \<Rightarrow> Key \<Rightarrow> int" where
  "compareKeys a b =
     (if Key_position a < Key_position b then - 1
      else if Key_position a = Key_position b then 0 else 1)"

definition genericComparator :: "Key \<Rightarrow> Key \<Rightarrow> SortOrder \<Rightarrow> int" where
  "genericComparator a b sortOrder =
     (case sortOrder of asc \<Rightarrow> compareKeys a b | desc \<Rightarrow> - compareKeys a b)"

text \<open>\<^verbatim>\<open>_resolveSortOrder\<close>: the direction a clause declares, found through its to-one relations.\<close>

fun User_resolveSortOrder :: "UserOrderBy \<Rightarrow> error + SortOrder"
and Profile_resolveSortOrder :: "ProfileOrderBy \<Rightarrow> error + SortOrder"
and Post_resolveSortOrder :: "PostOrderBy \<Rightarrow> error + SortOrder"
and Comment_resolveSortOrder :: "CommentOrderBy \<Rightarrow> error + SortOrder"
where
  "User_resolveSortOrder (UserOrderBy i nm p ps cs) =
     (case i of Some d \<Rightarrow> Inr d | None \<Rightarrow>
      case nm of Some d \<Rightarrow> Inr d | None \<Rightarrow>
      case p of Some c \<Rightarrow> Profile_resolveSortOrder c | None \<Rightarrow>
      case Option.bind ps ob_count of Some d \<Rightarrow> Inr d | None \<Rightarrow>
      case Option.bind cs ob_count of Some d \<Rightarrow> Inr d | None \<Rightarrow>
      Inl NoOrderByField)"
| "Profile_resolveSortOrder (ProfileOrderBy i b ui u) =
     (case i of Some d \<Rightarrow> Inr d | None \<Rightarrow>
      case b of Some d \<Rightarrow> Inr d | None \<Rightarrow>
      case ui of Some d \<Rightarrow> Inr d | None \<Rightarrow>
      case u of Some c \<Rightarrow> User_resolveSortOrder c | None \<Rightarrow>
      Inl NoOrderByField)"
| "Post_resolveSortOrder (PostOrderBy i t ai tg na au cs) =
     (case i of Some d \<Rightarrow> Inr d | None \<Rightarrow>
      case t of Some d \<Rightarrow> Inr d | None \<Rightarrow>
      case ai of Some d \<Rightarrow> Inr d | None \<Rightarrow>
      case tg of Some d \<Rightarrow> Inr d | None \<Rightarrow>
      case na of Some d \<Rightarrow> Inr d | None \<Rightarrow>
      case au of Some c \<Rightarrow> User_resolveSortOrder c | None \<Rightarrow>
      case Option.bind cs ob_count of Some d \<Rightarrow> Inr d | None \<Rightarrow>
      Inl NoOrderByField)"
| "Comment_resolveSortOrder (CommentOrderBy i pi ui t po u) =
     (case i of Some d \<Rightarrow> Inr d | None \<Rightarrow>
      case pi of Some d \<Rightarrow> Inr d | None \<Rightarrow>
      case ui of Some d \<Rightarrow> Inr d | None \<Rightarrow>
      case t of Some d \<Rightarrow> Inr d | None \<Rightarrow>
      case po of Some c \<Rightarrow> Post_resolveSortOrder c | None \<Rightarrow>
      case u of Some c \<Rightarrow> User_resolveSortOrder c | None \<Rightarrow>
      Inl NoOrderByField)"

text \<open>\<^verbatim>\<open>_preprocessListFields\<close> of the Post engine: \<^verbatim>\<open>record.tags = record.tags ?? []\<close>, and the
  same for \<^verbatim>\<open>numberArr\<close>. The other engines with relations have no list columns.\<close>

definition Post_preprocessListFields :: "PostRec \<Rightarrow> PostRec" where
  "Post_preprocessListFields record =
     record\<lparr>po_tags := Some (case po_tags record of None \<Rightarrow> [] | Some l \<Rightarrow> l),
            po_numberArr := Some (case po_numberArr record of None \<Rightarrow> [] | Some l \<Rightarrow> l)\<rparr>"


text \<open>
  \<^verbatim>\<open>_resolveOrderByKey(record, orderByInput, tx)\<close>. A to-one relation member resolves the key on
  the related row, fetched with \<^verbatim>\<open>findFirstOrThrow({ where })\<close>, which is called without the
  handle and so throws \<open>NotFound\<close> without aborting the caller's transaction; a to-many
  member resolves to \<^verbatim>\<open>count({ where })\<close>. As in the predicate evaluator the sub-queries are
  written out as the related engine's \<^verbatim>\<open>_applyWhereClause\<close> over \<^verbatim>\<open>getAll()\<close>; a Post row
  fetched this way has been through \<^verbatim>\<open>_preprocessListFields\<close>.
\<close>

fun User_resolveOrderByKey :: "DB \<Rightarrow> UserRec \<Rightarrow> UserOrderBy \<Rightarrow> error + Key"
and Profile_resolveOrderByKey :: "DB \<Rightarrow> ProfileRec \<Rightarrow> ProfileOrderBy \<Rightarrow> error + Key"
and Post_resolveOrderByKey :: "DB \<Rightarrow> PostRec \<Rightarrow> PostOrderBy \<Rightarrow> error + Key"
and Comment_resolveOrderByKey :: "DB \<Rightarrow> CommentRec \<Rightarrow> CommentOrderBy \<Rightarrow> error + Key"
where
  "User_resolveOrderByKey db record (UserOrderBy i nm p ps cs) =
     (if i \<noteq> None then Inr (KNum (u_id record))
      else if nm \<noteq> None then Inr (KStr (u_name record))
      else case p of
        Some c \<Rightarrow>
          (case first (Profile_applyWhereClause db (store_getAll (db_Profile db))
                  (Some (ProfileWhere_userId_update (equalTo (Some (u_id record))) ProfileWhere_empty))) of
             None \<Rightarrow> Inl NotFound
           | Some related \<Rightarrow> Profile_resolveOrderByKey db related c)
      | None \<Rightarrow>
          if ps \<noteq> None then
            Inr (KNum (int (length (Post_applyWhereClause db (store_getAll (db_Post db))
              (Some (PostWhere_authorId_update (equalTo (Some (u_id record))) PostWhere_empty))))))
          else if cs \<noteq> None then
            Inr (KNum (int (length (Comment_applyWhereClause db (store_getAll (db_Comment db))
              (Some (CommentWhere_userId_update (equalTo (Some (u_id record))) CommentWhere_empty))))))
          else Inr KUndefined)"
| "Profile_resolveOrderByKey db record (ProfileOrderBy i b ui u) =
     (if i \<noteq> None then Inr (KNum (pr_id record))
      else if b \<noteq> None then Inr (strKey (pr_bio record))
      else if ui \<noteq> None then Inr (fkKey (pr_userId record))
      else case u of
        Some c \<Rightarrow>
          (case first (User_applyWhereClause db (store_getAll (db_User db))
                  (Some (UserWhere_id_update (equalTo (pr_userId record)) UserWhere_empty))) of
             None \<Rightarrow> Inl NotFound
           | Some related \<Rightarrow> User_resolveOrderByKey db related c)
      | None \<Rightarrow> Inr KUndefined)"
| "Post_resolveOrderByKey db record (PostOrderBy i t ai tg na au cs) =
     (if i \<noteq> None then Inr (KNum (po_id record))
      else if t \<noteq> None then Inr (KStr (po_title record))
      else if ai \<noteq> None then Inr (numKey (po_authorId record))
      else if tg \<noteq> None then Inr (case po_tags record of None \<Rightarrow> KUndefined | Some l \<Rightarrow> KStrList l)
      else if na \<noteq> None then Inr (case po_numberArr record of None \<Rightarrow> KUndefined | Some l \<Rightarrow> KNumList l)
      else case au of
        Some c \<Rightarrow>
          (if po_authorId record = None then Inr KNull
           else case first (User_applyWhereClause db (store_getAll (db_User db))
                  (Some (UserWhere_id_update (equalTo (po_authorId record)) UserWhere_empty))) of
             None \<Rightarrow> Inl NotFound
           | Some related \<Rightarrow> User_resolveOrderByKey db related c)
      | None \<Rightarrow>
          if cs \<noteq> None then
            Inr (KNum (int (length (Comment_applyWhereClause db (store_getAll (db_Comment db))
              (Some (CommentWhere_postId_update (equalTo (Some (po_id record))) CommentWhere_empty))))))
          else Inr KUndefined)"
| "Comment_resolveOrderByKey db record (CommentOrderBy i pi ui t po u) =
     (if i \<noteq> None then Inr (KStr (c_id record))
      else if pi \<noteq> None then Inr (fkKey (c_postId record))
      else if ui \<noteq> None then Inr (fkKey (c_userId record))
      else if t \<noteq> None then Inr (KStr (c_text record))
      else case po of
        Some c \<Rightarrow>
          (case first (Post_applyWhereClause db (store_getAll (db_Post db))
                  (Some (PostWhere_id_update (equalTo (c_postId record)) PostWhere_empty))) of
             None \<Rightarrow> Inl NotFound
           | Some related \<Rightarrow> Post_resolveOrderByKey db (Post_preprocessListFields related) c)
      | None \<Rightarrow>
          (case u of
             Some c \<Rightarrow>
               (case first (User_applyWhereClause db (store_getAll (db_User db))
                       (Some (UserWhere_id_update (equalTo (c_userId record)) UserWhere_empty))) of
                  None \<Rightarrow> Inl NotFound
                | Some related \<Rightarrow> User_resolveOrderByKey db related c)
           | None \<Rightarrow> Inr KUndefined))"


text \<open>
  The comparator \<^verbatim>\<open>_applyOrderByClause\<close> hands to \<^verbatim>\<open>Array.prototype.sort\<close>: clause by clause,
  the first comparison that is not zero decides. \<^verbatim>\<open>a.keys[i]\<close> past the end of the array is
  \<^verbatim>\<open>undefined\<close>.
\<close>

definition keyAt :: "Key list \<Rightarrow> Key" where
  "keyAt ks = (case ks of [] \<Rightarrow> KUndefined | k # _ \<Rightarrow> k)"

fun compareByClauses ::
  "('c \<Rightarrow> error + SortOrder) \<Rightarrow> 'c list \<Rightarrow> Key list \<Rightarrow> Key list \<Rightarrow> error + int" where
  "compareByClauses resolveSortOrder [] a_keys b_keys = Inr 0"
| "compareByClauses resolveSortOrder (clause # clauses) a_keys b_keys =
     (case resolveSortOrder clause of
        Inl e \<Rightarrow> Inl e
      | Inr sortOrder \<Rightarrow>
          (let comparison = genericComparator (keyAt a_keys) (keyAt b_keys) sortOrder in
           if comparison \<noteq> 0 then Inr comparison
           else compareByClauses resolveSortOrder clauses (tl a_keys) (tl b_keys)))"

text \<open>
  \<^verbatim>\<open>Array.prototype.sort\<close> is stable; which pairs it hands to the comparator is left to the
  implementation. The model is the stable insertion sort: an element is placed before the
  first later element it does not compare greater than. An exception of the comparator ends
  the sort.
\<close>

fun sort_insert :: "('a \<Rightarrow> 'a \<Rightarrow> error + int) \<Rightarrow> 'a \<Rightarrow> 'a list \<Rightarrow> error + 'a list" where
  "sort_insert compareFn x [] = Inr [x]"
| "sort_insert compareFn x (y # ys) =
     (case compareFn x y of
        Inl e \<Rightarrow> Inl e
      | Inr c \<Rightarrow>
          if c \<le> 0 then Inr (x # y # ys)
          else (case sort_insert compareFn x ys of Inl e \<Rightarrow> Inl e | Inr zs \<Rightarrow> Inr (y # zs)))"

fun array_sort :: "('a \<Rightarrow> 'a \<Rightarrow> error + int) \<Rightarrow> 'a list \<Rightarrow> error + 'a list" where
  "array_sort compareFn [] = Inr []"
| "array_sort compareFn (x # xs) =
     (case array_sort compareFn xs of Inl e \<Rightarrow> Inl e | Inr ys \<Rightarrow> sort_insert compareFn x ys)"

fun mapE :: "('a \<Rightarrow> error + 'b) \<Rightarrow> 'a list \<Rightarrow> error + 'b list" where
  "mapE f [] = Inr []"
| "mapE f (x # xs) =
     (case f x of
        Inl e \<Rightarrow> Inl e
      | Inr y \<Rightarrow> (case mapE f xs of Inl e \<Rightarrow> Inl e | Inr ys \<Rightarrow> Inr (y # ys)))"

text \<open>
  \<^verbatim>\<open>_applyOrderByClause(records, orderByClause, tx)\<close>, the same text in every engine but for
  the two methods of \<^verbatim>\<open>this\<close> it calls, which are parameters here. The source reorders
  \<^verbatim>\<open>records\<close> in place; the model returns the reordered list.
\<close>

definition applyOrderByClause ::
  "('r \<Rightarrow> 'c \<Rightarrow> error + Key) \<Rightarrow> ('c \<Rightarrow> error + SortOrder) \<Rightarrow> 'r list \<Rightarrow> 'c list option
    \<Rightarrow> error + 'r list" where
  "applyOrderByClause resolveOrderByKey resolveSortOrder records orderByClause =
     (case orderByClause of
        None \<Rightarrow> Inr records
      | Some orderByClauses \<Rightarrow>
          (case mapE (\<lambda>record.
                  case mapE (\<lambda>clause. resolveOrderByKey record clause) orderByClauses of
                    Inl e \<Rightarrow> Inl e
                  | Inr keys \<Rightarrow> Inr (keys, record)) records of
             Inl e \<Rightarrow> Inl e
           | Inr indexedKeys \<Rightarrow>
               (case array_sort (\<lambda>a b. compareByClauses resolveSortOrder orderByClauses (fst a) (fst b))
                       indexedKeys of
                  Inl e \<Rightarrow> Inl e
                | Inr sortedKeys \<Rightarrow> Inr (map snd sortedKeys))))"

definition User_applyOrderByClause :: "DB \<Rightarrow> UserRec list \<Rightarrow> UserOrderBy list option \<Rightarrow> error + UserRec list" where
  "User_applyOrderByClause db = applyOrderByClause (User_resolveOrderByKey db) User_resolveSortOrder"

definition Profile_applyOrderByClause :: "DB \<Rightarrow> ProfileRec list \<Rightarrow> ProfileOrderBy list option \<Rightarrow> error + ProfileRec list" where
  "Profile_applyOrderByClause db = applyOrderByClause (Profile_resolveOrderByKey db) Profile_resolveSortOrder"

definition Post_applyOrderByClause :: "DB \<Rightarrow> PostRec list \<Rightarrow> PostOrderBy list option \<Rightarrow> error + PostRec list" where
  "Post_applyOrderByClause db = applyOrderByClause (Post_resolveOrderByKey db) Post_resolveSortOrder"

definition Comment_applyOrderByClause :: "DB \<Rightarrow> CommentRec list \<Rightarrow> CommentOrderBy list option \<Rightarrow> error + CommentRec list" where
  "Comment_applyOrderByClause db = applyOrderByClause (Comment_resolveOrderByKey db) Comment_resolveSortOrder"


section \<open>The read operations\<close>

text \<open>
  The engines' public read operations, each taking the transaction handle. Relation attachment
  and the \<^verbatim>\<open>select\<close> projection decorate the rows an operation returns and are not modelled:
  the operations take the \<^verbatim>\<open>where\<close> and \<^verbatim>\<open>orderBy\<close> members of their query and return rows
  as stored (a Post row after \<^verbatim>\<open>_preprocessListFields\<close>).
\<close>

definition User_findMany :: "UserWhere option \<Rightarrow> UserOrderBy list option \<Rightarrow> UserRec list call" where
  "User_findMany whereClause orderBy tx =
     (let records = User_applyWhereClause (tx_db tx) (store_getAll (db_User (tx_db tx))) whereClause in
      case User_applyOrderByClause (tx_db tx) records orderBy of
        Inl e \<Rightarrow> (Inl e, tx)
      | Inr sortedRecords \<Rightarrow> (Inr (sortedRecords), tx))"

definition User_findFirst :: "UserWhere option \<Rightarrow> UserOrderBy list option \<Rightarrow> UserRec option call" where
  "User_findFirst whereClause orderBy =
     await (User_findMany whereClause orderBy) (\<lambda>records. return (first records))"

definition User_findFirstOrThrow :: "UserWhere option \<Rightarrow> UserOrderBy list option \<Rightarrow> UserRec call" where
  "User_findFirstOrThrow whereClause orderBy =
     await (User_findFirst whereClause orderBy) (\<lambda>record.
       case record of None \<Rightarrow> abort_and_throw NotFound | Some r \<Rightarrow> return r)"

definition Profile_findMany :: "ProfileWhere option \<Rightarrow> ProfileOrderBy list option \<Rightarrow> ProfileRec list call" where
  "Profile_findMany whereClause orderBy tx =
     (let records = Profile_applyWhereClause (tx_db tx) (store_getAll (db_Profile (tx_db tx))) whereClause in
      case Profile_applyOrderByClause (tx_db tx) records orderBy of
        Inl e \<Rightarrow> (Inl e, tx)
      | Inr sortedRecords \<Rightarrow> (Inr (sortedRecords), tx))"

definition Profile_findFirst :: "ProfileWhere option \<Rightarrow> ProfileOrderBy list option \<Rightarrow> ProfileRec option call" where
  "Profile_findFirst whereClause orderBy =
     await (Profile_findMany whereClause orderBy) (\<lambda>records. return (first records))"

definition Profile_findFirstOrThrow :: "ProfileWhere option \<Rightarrow> ProfileOrderBy list option \<Rightarrow> ProfileRec call" where
  "Profile_findFirstOrThrow whereClause orderBy =
     await (Profile_findFirst whereClause orderBy) (\<lambda>record.
       case record of None \<Rightarrow> abort_and_throw NotFound | Some r \<Rightarrow> return r)"

definition Post_findMany :: "PostWhere option \<Rightarrow> PostOrderBy list option \<Rightarrow> PostRec list call" where
  "Post_findMany whereClause orderBy tx =
     (let records = Post_applyWhereClause (tx_db tx) (store_getAll (db_Post (tx_db tx))) whereClause in
      case Post_applyOrderByClause (tx_db tx) records orderBy of
        Inl e \<Rightarrow> (Inl e, tx)
      | Inr sortedRecords \<Rightarrow> (Inr (map Post_preprocessListFields sortedRecords), tx))"

definition Post_findFirst :: "PostWhere option \<Rightarrow> PostOrderBy list option \<Rightarrow> PostRec option call" where
  "Post_findFirst whereClause orderBy =
     await (Post_findMany whereClause orderBy) (\<lambda>records. return (first records))"

definition Post_findFirstOrThrow :: "PostWhere option \<Rightarrow> PostOrderBy list option \<Rightarrow> PostRec call" where
  "Post_findFirstOrThrow whereClause orderBy =
     await (Post_findFirst whereClause orderBy) (\<lambda>record.
       case record of None \<Rightarrow> abort_and_throw NotFound | Some r \<Rightarrow> return r)"

definition Comment_findMany :: "CommentWhere option \<Rightarrow> CommentOrderBy list option \<Rightarrow> CommentRec list call" where
  "Comment_findMany whereClause orderBy tx =
     (let records = Comment_applyWhereClause (tx_db tx) (store_getAll (db_Comment (tx_db tx))) whereClause in
      case Comment_applyOrderByClause (tx_db tx) records orderBy of
        Inl e \<Rightarrow> (Inl e, tx)
      | Inr sortedRecords \<Rightarrow> (Inr (sortedRecords), tx))"

definition Comment_findFirst :: "CommentWhere option \<Rightarrow> CommentOrderBy list option \<Rightarrow> CommentRec option call" where
  "Comment_findFirst whereClause orderBy =
     await (Comment_findMany whereClause orderBy) (\<lambda>records. return (first records))"

definition Comment_findFirstOrThrow :: "CommentWhere option \<Rightarrow> CommentOrderBy list option \<Rightarrow> CommentRec call" where
  "Comment_findFirstOrThrow whereClause orderBy =
     await (Comment_findFirst whereClause orderBy) (\<lambda>record.
       case record of None \<Rightarrow> abort_and_throw NotFound | Some r \<Rightarrow> return r)"

text \<open>
  \<^verbatim>\<open>findUnique\<close> reads the row under \<^verbatim>\<open>query.where.id\<close> when that member is truthy (so not
  under the key \<^verbatim>\<open>0\<close> or \<^verbatim>\<open>""\<close>), Profile also through \<^verbatim>\<open>userIdIndex\<close>, and answers
  \<^verbatim>\<open>null\<close> without a row. A row that the rest of the where clause rejects leaves the first
  element of an empty array, \<^verbatim>\<open>undefined\<close>, on which the Post engine's
  \<^verbatim>\<open>_preprocessListFields\<close> throws. A unique selector holds plain values for the key columns.
\<close>

definition whereKey :: "NumberFilter option \<Rightarrow> int option" where
  "whereKey f = (case f of Some (NumberValue (Some n)) \<Rightarrow> (if n \<noteq> 0 then Some n else None) | _ \<Rightarrow> None)"

definition whereStringKey :: "StringFilter option \<Rightarrow> string option" where
  "whereStringKey f = (case f of Some (StringValue (Some x)) \<Rightarrow> (if x \<noteq> [] then Some x else None) | _ \<Rightarrow> None)"

definition firstOrUndefined :: "'r list \<Rightarrow> 'r js" where
  "firstOrUndefined rs = (case rs of [] \<Rightarrow> Undefined | r # _ \<Rightarrow> Val r)"

definition User_findUnique :: "UserWhere \<Rightarrow> UserRec js call" where
  "User_findUnique whereClause =
     await (case whereKey (uw_id whereClause) of
              Some k \<Rightarrow> objectStore_get db_User k
            | None \<Rightarrow> return None) (\<lambda>record.
       case record of
         None \<Rightarrow> return Null
       | Some r \<Rightarrow> (\<lambda>tx. (Inr (firstOrUndefined (User_applyWhereClause (tx_db tx) [r] (Some whereClause))), tx)))"

definition Profile_findUnique :: "ProfileWhere \<Rightarrow> ProfileRec js call" where
  "Profile_findUnique whereClause =
     await (case whereKey (pw_id whereClause) of
              Some k \<Rightarrow> objectStore_get db_Profile k
            | None \<Rightarrow>
                (case whereKey (pw_userId whereClause) of
                   Some u \<Rightarrow> userIdIndex_get u
                 | None \<Rightarrow> return None)) (\<lambda>record.
       case record of
         None \<Rightarrow> return Null
       | Some r \<Rightarrow> (\<lambda>tx. (Inr (firstOrUndefined (Profile_applyWhereClause (tx_db tx) [r] (Some whereClause))), tx)))"

definition Post_findUnique :: "PostWhere \<Rightarrow> PostRec js call" where
  "Post_findUnique whereClause =
     await (case whereKey (pow_id whereClause) of
              Some k \<Rightarrow> objectStore_get db_Post k
            | None \<Rightarrow> return None) (\<lambda>record.
       case record of
         None \<Rightarrow> return Null
       | Some r \<Rightarrow> (\<lambda>tx.
           case Post_applyWhereClause (tx_db tx) [r] (Some whereClause) of
             [] \<Rightarrow> (Inl TypeError, tx)
           | r' # _ \<Rightarrow> (Inr (Val (Post_preprocessListFields r')), tx)))"

definition Comment_findUnique :: "CommentWhere \<Rightarrow> CommentRec js call" where
  "Comment_findUnique whereClause =
     await (case whereStringKey (cw_id whereClause) of
              Some k \<Rightarrow> objectStore_get db_Comment k
            | None \<Rightarrow> return None) (\<lambda>record.
       case record of
         None \<Rightarrow> return Null
       | Some r \<Rightarrow> (\<lambda>tx. (Inr (firstOrUndefined (Comment_applyWhereClause (tx_db tx) [r] (Some whereClause))), tx)))"

definition User_findUniqueOrThrow :: "UserWhere \<Rightarrow> UserRec call" where
  "User_findUniqueOrThrow whereClause =
     await (User_findUnique whereClause) (\<lambda>record.
       case record of Val r \<Rightarrow> return r | _ \<Rightarrow> abort_and_throw NotFound)"

definition Profile_findUniqueOrThrow :: "ProfileWhere \<Rightarrow> ProfileRec call" where
  "Profile_findUniqueOrThrow whereClause =
     await (Profile_findUnique whereClause) (\<lambda>record.
       case record of Val r \<Rightarrow> return r | _ \<Rightarrow> abort_and_throw NotFound)"

definition Post_findUniqueOrThrow :: "PostWhere \<Rightarrow> PostRec call" where
  "Post_findUniqueOrThrow whereClause =
     await (Post_findUnique whereClause) (\<lambda>record.
       case record of Val r \<Rightarrow> return r | _ \<Rightarrow> abort_and_throw NotFound)"

definition Comment_findUniqueOrThrow :: "CommentWhere \<Rightarrow> CommentRec call" where
  "Comment_findUniqueOrThrow whereClause =
     await (Comment_findUnique whereClause) (\<lambda>record.
       case record of Val r \<Rightarrow> return r | _ \<Rightarrow> abort_and_throw NotFound)"


text \<open>
  \<^verbatim>\<open>count\<close>: a plain number when \<^verbatim>\<open>select\<close> is absent or \<^verbatim>\<open>true\<close>, else one number per key
  of \<^verbatim>\<open>select\<close> (\<^verbatim>\<open>Object.keys\<close>, whatever the key's value). The key \<^verbatim>\<open>_all\<close> counts
  \<^verbatim>\<open>findMany({ where: query.where })\<close>; any other key counts
  \<^verbatim>\<open>findMany({ where: { [key]: { not: null } } })\<close>.
\<close>

datatype 'f CountKey = CountAll | CountField 'f

datatype 'f CountSelect = CountTrue | CountFields "('f CountKey \<times> bool) list"

datatype 'f CountResult = CountNumber nat | CountPerField "('f CountKey \<times> nat) list"

datatype UserScalarField = User_id | User_name

datatype ProfileScalarField = Profile_id | Profile_bio | Profile_userId

datatype PostScalarField = Post_id | Post_title | Post_authorId | Post_tags | Post_numberArr

datatype CommentScalarField = Comment_id | Comment_postId | Comment_userId | Comment_text

definition numberNotNull :: NumberFilter where
  "numberNotNull = NumberOps Undefined None None None None None None (Some (NumberValue None))"

definition stringNotNull :: StringFilter where
  "stringNotNull = StringOps Undefined None None None None None (Some (StringValue None))"

text \<open>A list filter has no member \<^verbatim>\<open>not\<close>: of \<^verbatim>\<open>{ not: null }\<close> it reads nothing.\<close>

definition listNotNull :: "'a ListFilter" where
  "listNotNull = ListFilter None None None None None"

fun User_whereNotNull :: "UserScalarField \<Rightarrow> UserWhere" where
  "User_whereNotNull User_id = UserWhere None None None (Some numberNotNull) None Undefined None None"
| "User_whereNotNull User_name = UserWhere None None None None (Some stringNotNull) Undefined None None"

fun Profile_whereNotNull :: "ProfileScalarField \<Rightarrow> ProfileWhere" where
  "Profile_whereNotNull Profile_id = ProfileWhere None None None (Some numberNotNull) None None None"
| "Profile_whereNotNull Profile_bio = ProfileWhere None None None None (Some stringNotNull) None None"
| "Profile_whereNotNull Profile_userId = ProfileWhere None None None None None (Some numberNotNull) None"

fun Post_whereNotNull :: "PostScalarField \<Rightarrow> PostWhere" where
  "Post_whereNotNull Post_id = PostWhere None None None (Some numberNotNull) None None None None Undefined None"
| "Post_whereNotNull Post_title = PostWhere None None None None (Some stringNotNull) None None None Undefined None"
| "Post_whereNotNull Post_authorId = PostWhere None None None None None (Some numberNotNull) None None Undefined None"
| "Post_whereNotNull Post_tags = PostWhere None None None None None None (Some listNotNull) None Undefined None"
| "Post_whereNotNull Post_numberArr = PostWhere None None None None None None None (Some listNotNull) Undefined None"

fun Comment_whereNotNull :: "CommentScalarField \<Rightarrow> CommentWhere" where
  "Comment_whereNotNull Comment_id = CommentWhere None None None (Some stringNotNull) None None None None None"
| "Comment_whereNotNull Comment_text = CommentWhere None None None None (Some stringNotNull) None None None None"
| "Comment_whereNotNull Comment_postId = CommentWhere None None None None None (Some numberNotNull) None None None"
| "Comment_whereNotNull Comment_userId = CommentWhere None None None None None None (Some numberNotNull) None None"

fun mapCall :: "'a list \<Rightarrow> ('a \<Rightarrow> 'b call) \<Rightarrow> 'b list call" where
  "mapCall [] f tx = (Inr [], tx)"
| "mapCall (x # xs) f tx =
     (case f x tx of
        (Inl e, tx') \<Rightarrow> (Inl e, tx')
      | (Inr y, tx') \<Rightarrow>
          (case mapCall xs f tx' of (Inl e, tx'') \<Rightarrow> (Inl e, tx'') | (Inr ys, tx'') \<Rightarrow> (Inr (y # ys), tx'')))"

definition User_count :: "UserWhere option \<Rightarrow> UserScalarField CountSelect option \<Rightarrow> UserScalarField CountResult call" where
  "User_count whereClause select =
     (case select of
        Some (CountFields keys) \<Rightarrow>
          await (mapCall keys (\<lambda>(key, flag).
                   case key of
                     CountAll \<Rightarrow>
                       await (User_findMany whereClause None) (\<lambda>records. return (key, length records))
                   | CountField field \<Rightarrow>
                       await (User_findMany (Some (User_whereNotNull field)) None) (\<lambda>records.
                         return (key, length records))))
            (\<lambda>result. return (CountPerField result))
      | _ \<Rightarrow> await (User_findMany whereClause None) (\<lambda>records. return (CountNumber (length records))))"

definition Profile_count :: "ProfileWhere option \<Rightarrow> ProfileScalarField CountSelect option \<Rightarrow> ProfileScalarField CountResult call" where
  "Profile_count whereClause select =
     (case select of
        Some (CountFields keys) \<Rightarrow>
          await (mapCall keys (\<lambda>(key, flag).
                   case key of
                     CountAll \<Rightarrow>
                       await (Profile_findMany whereClause None) (\<lambda>records. return (key, length records))
                   | CountField field \<Rightarrow>
                       await (Profile_findMany (Some (Profile_whereNotNull field)) None) (\<lambda>records.
                         return (key, length records))))
            (\<lambda>result. return (CountPerField result))
      | _ \<Rightarrow> await (Profile_findMany whereClause None) (\<lambda>records. return (CountNumber (length records))))"

definition Post_count :: "PostWhere option \<Rightarrow> PostScalarField CountSelect option \<Rightarrow> PostScalarField CountResult call" where
  "Post_count whereClause select =
     (case select of
        Some (CountFields keys) \<Rightarrow>
          await (mapCall keys (\<lambda>(key, flag).
                   case key of
                     CountAll \<Rightarrow>
                       await (Post_findMany whereClause None) (\<lambda>records. return (key, length records))
                   | CountField field \<Rightarrow>
                       await (Post_findMany (Some (Post_whereNotNull field)) None) (\<lambda>records.
                         return (key, length records))))
            (\<lambda>result. return (CountPerField result))
      | _ \<Rightarrow> await (Post_findMany whereClause None) (\<lambda>records. return (CountNumber (length records))))"

definition Comment_count :: "CommentWhere option \<Rightarrow> CommentScalarField CountSelect option \<Rightarrow> CommentScalarField CountResult call" where
  "Comment_count whereClause select =
     (case select of
        Some (CountFields keys) \<Rightarrow>
          await (mapCall keys (\<lambda>(key, flag).
                   case key of
                     CountAll \<Rightarrow>
                       await (Comment_findMany whereClause None) (\<lambda>records. return (key, length records))
                   | CountField field \<Rightarrow>
                       await (Comment_findMany (Some (Comment_whereNotNull field)) None) (\<lambda>records.
                         return (key, length records))))
            (\<lambda>result. return (CountPerField result))
      | _ \<Rightarrow> await (Comment_findMany whereClause None) (\<lambda>records. return (CountNumber (length records))))"

subsection \<open>Reversed directions, and the resolver without exceptions\<close>

text \<open>The other direction.\<close>

definition flipOrder :: "SortOrder \<Rightarrow> SortOrder" where
  "flipOrder d = (case d of asc \<Rightarrow> desc | desc \<Rightarrow> asc)"

text \<open>Every direction of a clause reversed.\<close>

definition OrderByCount_reverse :: "OrderByCount \<Rightarrow> OrderByCount" where
  "OrderByCount_reverse c = OrderByCount (map_option flipOrder (ob_count c))"

fun User_reverseOrderBy :: "UserOrderBy \<Rightarrow> UserOrderBy"
and Profile_reverseOrderBy :: "ProfileOrderBy \<Rightarrow> ProfileOrderBy"
and Post_reverseOrderBy :: "PostOrderBy \<Rightarrow> PostOrderBy"
and Comment_reverseOrderBy :: "CommentOrderBy \<Rightarrow> CommentOrderBy"
where
  "User_reverseOrderBy (UserOrderBy i nm p ps cs) =
     UserOrderBy (map_option flipOrder i) (map_option flipOrder nm)
       (case p of None \<Rightarrow> None | Some c \<Rightarrow> Some (Profile_reverseOrderBy c))
       (map_option OrderByCount_reverse ps) (map_option OrderByCount_reverse cs)"
| "Profile_reverseOrderBy (ProfileOrderBy i b ui u) =
     ProfileOrderBy (map_option flipOrder i) (map_option flipOrder b) (map_option flipOrder ui)
       (case u of None \<Rightarrow> None | Some c \<Rightarrow> Some (User_reverseOrderBy c))"
| "Post_reverseOrderBy (PostOrderBy i t ai tg na au cs) =
     PostOrderBy (map_option flipOrder i) (map_option flipOrder t) (map_option flipOrder ai)
       (map_option flipOrder tg) (map_option flipOrder na)
       (case au of None \<Rightarrow> None | Some c \<Rightarrow> Some (User_reverseOrderBy c))
       (map_option OrderByCount_reverse cs)"
| "Comment_reverseOrderBy (CommentOrderBy i pi ui t po u) =
     CommentOrderBy (map_option flipOrder i) (map_option flipOrder pi) (map_option flipOrder ui)
       (map_option flipOrder t)
       (case po of None \<Rightarrow> None | Some c \<Rightarrow> Some (Post_reverseOrderBy c))
       (case u of None \<Rightarrow> None | Some c \<Rightarrow> Some (User_reverseOrderBy c))"

text \<open>\<open>compareByClauses\<close> once every clause has resolved its direction.\<close>

fun compareKeyLists :: "SortOrder list \<Rightarrow> Key list \<Rightarrow> Key list \<Rightarrow> int" where
  "compareKeyLists [] a b = 0"
| "compareKeyLists (d # ds) a b =
     (if genericComparator (keyAt a) (keyAt b) d \<noteq> 0 then genericComparator (keyAt a) (keyAt b) d
      else compareKeyLists ds (tl a) (tl b))"

text \<open>The stable insertion sort with a comparator that does not throw.\<close>

fun insert_by :: "('a \<Rightarrow> 'a \<Rightarrow> int) \<Rightarrow> 'a \<Rightarrow> 'a list \<Rightarrow> 'a list" where
  "insert_by f x [] = [x]"
| "insert_by f x (y # ys) = (if f x y \<le> 0 then x # y # ys else y # insert_by f x ys)"

fun sort_by :: "('a \<Rightarrow> 'a \<Rightarrow> int) \<Rightarrow> 'a list \<Rightarrow> 'a list" where
  "sort_by f [] = []"
| "sort_by f (x # xs) = insert_by f x (sort_by f xs)"

text \<open>A where clause that is one to-many relation member.\<close>

definition User_where_posts :: "PostListRelation \<Rightarrow> UserWhere" where
  "User_where_posts r = UserWhere None None None None None Undefined (Some r) None"

definition User_where_comments :: "CommentListRelation \<Rightarrow> UserWhere" where
  "User_where_comments r = UserWhere None None None None None Undefined None (Some r)"

definition Post_where_comments :: "CommentListRelation \<Rightarrow> PostWhere" where
  "Post_where_comments r = PostWhere None None None None None None None None Undefined (Some r)"


text \<open>
  Whether a row holds a value in a column. The columns of User are all required; of Profile,
  \<^verbatim>\<open>bio\<close> is nullable and \<^verbatim>\<open>userId\<close> may be missing (see the rows above).
\<close>

fun User_fieldNotNull :: "UserScalarField \<Rightarrow> UserRec \<Rightarrow> bool" where
  "User_fieldNotNull f r = True"

fun Profile_fieldNotNull :: "ProfileScalarField \<Rightarrow> ProfileRec \<Rightarrow> bool" where
  "Profile_fieldNotNull Profile_id r = True"
| "Profile_fieldNotNull Profile_bio r = (pr_bio r \<noteq> None)"
| "Profile_fieldNotNull Profile_userId r = (pr_userId r \<noteq> None)"


text \<open>What \<^verbatim>\<open>count\<close> is to return under one key of \<^verbatim>\<open>select\<close>: the rows the where clause
  accepts under \<^verbatim>\<open>_all\<close>, the rows of the whole table that hold the column otherwise.\<close>

definition User_countKey :: "DB \<Rightarrow> UserWhere option \<Rightarrow> UserScalarField CountKey \<Rightarrow> nat" where
  "User_countKey db w key = (case key of
      CountAll \<Rightarrow> length (User_applyWhereClause db (store_getAll (db_User db)) w)
    | CountField f \<Rightarrow> length (filter (User_fieldNotNull f) (store_getAll (db_User db))))"

definition Profile_countKey :: "DB \<Rightarrow> ProfileWhere option \<Rightarrow> ProfileScalarField CountKey \<Rightarrow> nat" where
  "Profile_countKey db w key = (case key of
      CountAll \<Rightarrow> length (Profile_applyWhereClause db (store_getAll (db_Profile db)) w)
    | CountField f \<Rightarrow> length (filter (Profile_fieldNotNull f) (store_getAll (db_Profile db))))"

text \<open>Rows and clauses for the examples.\<close>

definition byName :: "SortOrder \<Rightarrow> UserOrderBy" where
  "byName d = UserOrderBy None (Some d) None None None"

definition byId :: "SortOrder \<Rightarrow> UserOrderBy" where
  "byId d = UserOrderBy (Some d) None None None None"

definition ann1 :: UserRec where "ann1 = \<lparr>u_id = 1, u_name = ''Ann''\<rparr>"
definition ann2 :: UserRec where "ann2 = \<lparr>u_id = 2, u_name = ''Ann''\<rparr>"
definition bob3 :: UserRec where "bob3 = \<lparr>u_id = 3, u_name = ''Bob''\<rparr>"

lemmas eval_order = User_applyOrderByClause_def applyOrderByClause_def byName_def byId_def
  ann1_def ann2_def bob3_def genericComparator_def compareKeys_def Key_position_def keyAt_def
  less_prod_def less_eq_prod_def User_reverseOrderBy.simps flipOrder_def

definition alice :: UserRec where
  "alice = \<lparr>u_id = 1, u_name = ''Alice''\<rparr>"

definition lonely_post :: PostRec where
  "lonely_post = \<lparr>po_id = 1, po_title = ''p1'', po_authorId = None, po_tags = None, po_numberArr = None\<rparr>"

definition title_is_p1 :: PostWhere where
  "title_is_p1 = PostWhere None None None None (Some (StringValue (Some ''p1''))) None None None Undefined None"

definition text_is_hi :: CommentWhere where
  "text_is_hi = CommentWhere None None None None (Some (StringValue (Some ''hi''))) None None None None"


definition no_bio :: ProfileRec where
  "no_bio = \<lparr>pr_id = 1, pr_bio = None, pr_userId = Some 1\<rparr>"

definition with_bio :: ProfileRec where
  "with_bio = \<lparr>pr_id = 2, pr_bio = Some ''X'', pr_userId = Some 2\<rparr>"

definition bio_is_Y :: ProfileWhere where
  "bio_is_Y = ProfileWhere None None None None (Some (StringValue (Some ''Y''))) None None"

definition orderBy_post_author_name :: CommentOrderBy where
  "orderBy_post_author_name =
     CommentOrderBy None None None None
       (Some (PostOrderBy None None None None None
          (Some (UserOrderBy None (Some asc) None None None)) None))
       None"

text \<open>Clauses on the number of posts, on the profile's bio, and a clause that names no field.\<close>

definition byPosts :: "SortOrder \<Rightarrow> UserOrderBy" where
  "byPosts d = UserOrderBy None None None (Some (OrderByCount (Some d))) None"

definition byProfileBio :: "SortOrder \<Rightarrow> UserOrderBy" where
  "byProfileBio d = UserOrderBy None None (Some (ProfileOrderBy None (Some d) None None)) None None"

definition noField :: UserOrderBy where
  "noField = UserOrderBy None None None None None"


section \<open>Write payloads\<close>

text \<open>
  The \<^verbatim>\<open>data\<close> of \<^verbatim>\<open>create\<close> (\<^verbatim>\<open>Prisma.UserCreateInput\<close> and its siblings, checked and
  unchecked forms together): the scalar members and, for each relation, the nested-write
  object with \<^verbatim>\<open>create\<close>, \<^verbatim>\<open>connect\<close>, \<^verbatim>\<open>connectOrCreate\<close> and, on a to-many relation,
  \<^verbatim>\<open>createMany\<close>. A list column is given as an array or as \<^verbatim>\<open>{ set: [...] }\<close>.
\<close>

datatype 'a ListInput = ListArray "'a list" | ListSet "'a list"

datatype UserCreate =
  UserCreate (uc_id: "int option") (uc_name: string)
    (uc_profile: "ProfileCreateNestedOne option") (uc_posts: "PostCreateNestedMany option")
    (uc_comments: "CommentCreateNestedMany option")
and ProfileCreate =
  ProfileCreate (pc_id: "int option") (pc_bio: "string js")
    (pc_user: "UserCreateNestedOne option") (pc_userId: "int option")
and PostCreate =
  PostCreate (poc_id: "int option") (poc_title: string)
    (poc_author: "UserCreateNestedOne option") (poc_authorId: "int js")
    (poc_comments: "CommentCreateNestedMany option")
    (poc_tags: "string ListInput option") (poc_numberArr: "int ListInput option")
and CommentCreate =
  CommentCreate (cc_id: "string option") (cc_text: string)
    (cc_post: "PostCreateNestedOne option") (cc_postId: "int option")
    (cc_user: "UserCreateNestedOne option") (cc_userId: "int option")
and UserCreateNestedOne =
  UserCreateNestedOne (uno_create: "UserCreate option") (uno_connect: "UserWhere option")
    (uno_connectOrCreate: "(UserWhere \<times> UserCreate) option")
and ProfileCreateNestedOne =
  ProfileCreateNestedOne (pno_create: "ProfileCreate option") (pno_connect: "ProfileWhere option")
    (pno_connectOrCreate: "(ProfileWhere \<times> ProfileCreate) option")
and PostCreateNestedOne =
  PostCreateNestedOne (pono_create: "PostCreate option") (pono_connect: "PostWhere option")
    (pono_connectOrCreate: "(PostWhere \<times> PostCreate) option")
and PostCreateNestedMany =
  PostCreateNestedMany (ponm_create: "PostCreate list option") (ponm_connect: "PostWhere list option")
    (ponm_connectOrCreate: "(PostWhere \<times> PostCreate) list option")
    (ponm_createMany: "PostCreate list option")
and CommentCreateNestedMany =
  CommentCreateNestedMany (cnm_create: "CommentCreate list option")
    (cnm_connect: "CommentWhere list option")
    (cnm_connectOrCreate: "(CommentWhere \<times> CommentCreate) list option")
    (cnm_createMany: "CommentCreate list option")


text \<open>
  The \<^verbatim>\<open>data\<close> of \<^verbatim>\<open>update\<close>, of which the engines read the scalar members: a value, or the
  operations object of the column's kind.
\<close>

datatype IntFieldUpdate =
    IntValue "int option"
  | IntOperations (iu_set: "int js") (iu_increment: "int option") (iu_decrement: "int option")
      (iu_multiply: "int option") (iu_divide: "int option")

datatype StringFieldUpdate =
    StringAssign "string option"
  | StringOperations (su_set: "string js")

datatype 'a ListFieldUpdate =
    ListAssign "'a list"
  | ListOperations (lu_set: "'a list option") (lu_push: "'a list option") (lu_unset: "bool option")

record UserUpdate =
  uu_id :: "IntFieldUpdate option"
  uu_name :: "StringFieldUpdate option"

record ProfileUpdate =
  pu_id :: "IntFieldUpdate option"
  pu_bio :: "StringFieldUpdate option"
  pu_userId :: "IntFieldUpdate option"

record PostUpdate =
  pou_id :: "IntFieldUpdate option"
  pou_title :: "StringFieldUpdate option"
  pou_authorId :: "IntFieldUpdate option"
  pou_tags :: "string ListFieldUpdate option"
  pou_numberArr :: "int ListFieldUpdate option"

record CommentUpdate =
  cu_id :: "StringFieldUpdate option"
  cu_text :: "StringFieldUpdate option"
  cu_postId :: "IntFieldUpdate option"
  cu_userId :: "IntFieldUpdate option"

section \<open>Default filler\<close>

text \<open>The object spreads and assignments on a create payload: \<^verbatim>\<open>{ ...data, userId: key }\<close>.\<close>

fun UserCreate_id_update :: "int option \<Rightarrow> UserCreate \<Rightarrow> UserCreate" where
  "UserCreate_id_update v (UserCreate i nm p ps cs) = UserCreate v nm p ps cs"

fun ProfileCreate_id_update :: "int option \<Rightarrow> ProfileCreate \<Rightarrow> ProfileCreate" where
  "ProfileCreate_id_update v (ProfileCreate i b u ui) = ProfileCreate v b u ui"

fun ProfileCreate_bio_update :: "string js \<Rightarrow> ProfileCreate \<Rightarrow> ProfileCreate" where
  "ProfileCreate_bio_update v (ProfileCreate i b u ui) = ProfileCreate i v u ui"

fun ProfileCreate_user_update :: "UserCreateNestedOne option \<Rightarrow> ProfileCreate \<Rightarrow> ProfileCreate" where
  "ProfileCreate_user_update v (ProfileCreate i b u ui) = ProfileCreate i b v ui"

fun ProfileCreate_userId_update :: "int option \<Rightarrow> ProfileCreate \<Rightarrow> ProfileCreate" where
  "ProfileCreate_userId_update v (ProfileCreate i b u ui) = ProfileCreate i b u v"

fun PostCreate_id_update :: "int option \<Rightarrow> PostCreate \<Rightarrow> PostCreate" where
  "PostCreate_id_update v (PostCreate i t au ai cs tg na) = PostCreate v t au ai cs tg na"

fun PostCreate_author_update :: "UserCreateNestedOne option \<Rightarrow> PostCreate \<Rightarrow> PostCreate" where
  "PostCreate_author_update v (PostCreate i t au ai cs tg na) = PostCreate i t v ai cs tg na"

fun PostCreate_authorId_update :: "int js \<Rightarrow> PostCreate \<Rightarrow> PostCreate" where
  "PostCreate_authorId_update v (PostCreate i t au ai cs tg na) = PostCreate i t au v cs tg na"

fun PostCreate_tags_update :: "string ListInput option \<Rightarrow> PostCreate \<Rightarrow> PostCreate" where
  "PostCreate_tags_update v (PostCreate i t au ai cs tg na) = PostCreate i t au ai cs v na"

fun PostCreate_numberArr_update :: "int ListInput option \<Rightarrow> PostCreate \<Rightarrow> PostCreate" where
  "PostCreate_numberArr_update v (PostCreate i t au ai cs tg na) = PostCreate i t au ai cs tg v"

fun CommentCreate_id_update :: "string option \<Rightarrow> CommentCreate \<Rightarrow> CommentCreate" where
  "CommentCreate_id_update v (CommentCreate i t po pi u ui) = CommentCreate v t po pi u ui"

fun CommentCreate_post_update :: "PostCreateNestedOne option \<Rightarrow> CommentCreate \<Rightarrow> CommentCreate" where
  "CommentCreate_post_update v (CommentCreate i t po pi u ui) = CommentCreate i t v pi u ui"

fun CommentCreate_postId_update :: "int option \<Rightarrow> CommentCreate \<Rightarrow> CommentCreate" where
  "CommentCreate_postId_update v (CommentCreate i t po pi u ui) = CommentCreate i t po v u ui"

fun CommentCreate_user_update :: "UserCreateNestedOne option \<Rightarrow> CommentCreate \<Rightarrow> CommentCreate" where
  "CommentCreate_user_update v (CommentCreate i t po pi u ui) = CommentCreate i t po pi v ui"

fun CommentCreate_userId_update :: "int option \<Rightarrow> CommentCreate \<Rightarrow> CommentCreate" where
  "CommentCreate_userId_update v (CommentCreate i t po pi u ui) = CommentCreate i t po pi u v"

text \<open>
  \<^verbatim>\<open>_fillDefaults(data, tx)\<close>. A numeric key that the payload leaves out is one more than the
  key under a cursor opened at the end of the store (\<^verbatim>\<open>Number(cursor.key) + 1\<close>), or \<^verbatim>\<open>1\<close>
  when there is no cursor; the Comment engine takes \<^verbatim>\<open>createId()\<close>. The Profile engine turns
  an absent \<^verbatim>\<open>bio\<close> into \<^verbatim>\<open>null\<close>, the Post engine an absent \<^verbatim>\<open>authorId\<close>, and the Post
  engine unwraps \<^verbatim>\<open>{ set: [...] }\<close>.
\<close>

text \<open>
  The keys are JavaScript numbers, IEEE 754 doubles with 53 bits of significand; the \<^verbatim>\<open>Int\<close>
  columns hold integers among them and are kept as integers here. The sum of two of them is
  the double nearest to the exact sum, the one with the even significand when two are equally
  near: the exact sum is cut to its leading 53 bits, and rounded up when the bits cut off are
  more than half of the last place kept, or exactly half and the significand kept is odd.
\<close>

fun bitLength :: "nat \<Rightarrow> nat" where
  "bitLength n = (if n = 0 then 0 else Suc (bitLength (n div 2)))"

declare bitLength.simps [simp del]

definition roundToDouble :: "int \<Rightarrow> int" where
  "roundToDouble n =
     (let magnitude = nat \<bar>n\<bar>;
          ulp = 2 ^ (bitLength magnitude - 53);
          significand = magnitude div ulp;
          rest = magnitude mod ulp;
          rounded = (if ulp < 2 * rest \<or> (ulp = 2 * rest \<and> odd significand)
                     then significand + 1 else significand)
      in sgn n * int (rounded * ulp))"

definition Number_plus :: "int \<Rightarrow> int \<Rightarrow> int" where
  "Number_plus a b = roundToDouble (a + b)"

definition autoincrement :: "int option \<Rightarrow> int" where
  "autoincrement cursor = (case cursor of Some key \<Rightarrow> Number_plus key 1 | None \<Rightarrow> 1)"

definition User_fillDefaults :: "UserCreate \<Rightarrow> UserCreate call" where
  "User_fillDefaults data =
     (if uc_id data = None then
        await (objectStore_openCursor_prev db_User) (\<lambda>cursor.
          return (UserCreate_id_update (Some (autoincrement cursor)) data))
      else return data)"

definition Profile_fillDefaults :: "ProfileCreate \<Rightarrow> ProfileCreate call" where
  "Profile_fillDefaults data =
     await (if pc_id data = None then
              await (objectStore_openCursor_prev db_Profile) (\<lambda>cursor.
                return (ProfileCreate_id_update (Some (autoincrement cursor)) data))
            else return data) (\<lambda>data.
       return (if pc_bio data = Undefined then ProfileCreate_bio_update Null data else data))"

definition unwrapListInput :: "'a ListInput option \<Rightarrow> 'a ListInput option" where
  "unwrapListInput v = (case v of Some (ListSet xs) \<Rightarrow> Some (ListArray xs) | _ \<Rightarrow> v)"

definition Post_fillDefaults :: "PostCreate \<Rightarrow> PostCreate call" where
  "Post_fillDefaults data =
     await (if poc_id data = None then
              await (objectStore_openCursor_prev db_Post) (\<lambda>cursor.
                return (PostCreate_id_update (Some (autoincrement cursor)) data))
            else return data) (\<lambda>data.
       return (PostCreate_numberArr_update (unwrapListInput (poc_numberArr data))
                (PostCreate_tags_update (unwrapListInput (poc_tags data))
                  (if poc_authorId data = Undefined then PostCreate_authorId_update Null data else data))))"

definition Comment_fillDefaults :: "CommentCreate \<Rightarrow> CommentCreate call" where
  "Comment_fillDefaults data =
     (if cc_id data = None then
        (\<lambda>tx. case createId tx of (newId, tx') \<Rightarrow> (Inr (CommentCreate_id_update (Some newId) data), tx'))
      else return data)"

text \<open>
  \<^verbatim>\<open>_removeNestedCreateData(data)\<close> drops the relation members and the result is used as the
  row. It is applied to what \<^verbatim>\<open>_fillDefaults\<close> returns, which has its key; a row without key
  is refused by the store, which is the error here.
\<close>

definition listColumn :: "'a ListInput option \<Rightarrow> 'a list option" where
  "listColumn v = (case v of None \<Rightarrow> None | Some (ListArray xs) \<Rightarrow> Some xs | Some (ListSet xs) \<Rightarrow> Some xs)"

definition nullable :: "'a js \<Rightarrow> 'a option" where
  "nullable v = (case v of Val x \<Rightarrow> Some x | _ \<Rightarrow> None)"

definition User_removeNestedCreateData :: "UserCreate \<Rightarrow> error + UserRec" where
  "User_removeNestedCreateData data =
     (case uc_id data of
        None \<Rightarrow> Inl TypeError
      | Some i \<Rightarrow> Inr \<lparr>u_id = i, u_name = uc_name data\<rparr>)"

definition Profile_removeNestedCreateData :: "ProfileCreate \<Rightarrow> error + ProfileRec" where
  "Profile_removeNestedCreateData data =
     (case pc_id data of
        None \<Rightarrow> Inl TypeError
      | Some i \<Rightarrow> Inr \<lparr>pr_id = i, pr_bio = nullable (pc_bio data), pr_userId = pc_userId data\<rparr>)"

definition Post_removeNestedCreateData :: "PostCreate \<Rightarrow> error + PostRec" where
  "Post_removeNestedCreateData data =
     (case poc_id data of
        None \<Rightarrow> Inl TypeError
      | Some i \<Rightarrow> Inr \<lparr>po_id = i, po_title = poc_title data, po_authorId = nullable (poc_authorId data),
          po_tags = listColumn (poc_tags data), po_numberArr = listColumn (poc_numberArr data)\<rparr>)"

definition Comment_removeNestedCreateData :: "CommentCreate \<Rightarrow> error + CommentRec" where
  "Comment_removeNestedCreateData data =
     (case cc_id data of
        None \<Rightarrow> Inl TypeError
      | Some i \<Rightarrow> Inr \<lparr>c_id = i, c_postId = cc_postId data, c_userId = cc_userId data,
          c_text = cc_text data\<rparr>)"

section \<open>Write orchestrator\<close>

text \<open>\<^verbatim>\<open>createMany\<close>: every payload filled, stripped and added; nested writes are not run.\<close>

definition orThrow :: "error + 'a \<Rightarrow> 'a call" where
  "orThrow r = (case r of Inl e \<Rightarrow> throw e | Inr x \<Rightarrow> return x)"

definition User_createMany :: "UserCreate list \<Rightarrow> nat call" where
  "User_createMany createManyData =
     await (forEach createManyData (\<lambda>createData.
       await (User_fillDefaults createData) (\<lambda>filled.
       await (orThrow (User_removeNestedCreateData filled)) (\<lambda>record.
         objectStore_add db_User db_User_update (u_id record) record))))
       (\<lambda>done. return (length createManyData))"

definition Profile_createMany :: "ProfileCreate list \<Rightarrow> nat call" where
  "Profile_createMany createManyData =
     await (forEach createManyData (\<lambda>createData.
       await (Profile_fillDefaults createData) (\<lambda>filled.
       await (orThrow (Profile_removeNestedCreateData filled)) (\<lambda>record.
         Profile_store_add record))))
       (\<lambda>done. return (length createManyData))"

definition Post_createMany :: "PostCreate list \<Rightarrow> nat call" where
  "Post_createMany createManyData =
     await (forEach createManyData (\<lambda>createData.
       await (Post_fillDefaults createData) (\<lambda>filled.
       await (orThrow (Post_removeNestedCreateData filled)) (\<lambda>record.
         objectStore_add db_Post db_Post_update (po_id record) record))))
       (\<lambda>done. return (length createManyData))"

definition Comment_createMany :: "CommentCreate list \<Rightarrow> nat call" where
  "Comment_createMany createManyData =
     await (forEach createManyData (\<lambda>createData.
       await (Comment_fillDefaults createData) (\<lambda>filled.
       await (orThrow (Comment_removeNestedCreateData filled)) (\<lambda>record.
         objectStore_add db_Comment db_Comment_update (c_id record) record))))
       (\<lambda>done. return (length createManyData))"


text \<open>
  Modelled from the spec: \<^verbatim>\<open>handleIntUpdateField\<close>, \<^verbatim>\<open>handleStringUpdateField\<close> and
  \<^verbatim>\<open>handleScalarListUpdateField\<close> are in \<^verbatim>\<open>idb-utils.ts\<close>, which is not under src. The spec
  (4.6) has update apply a patch per field by scalar kind: set; for numbers increment,
  decrement, multiply and divide; for lists push, set and unset. An absent member leaves the
  column as it is, a bare value is a set, the arithmetic leaves \<^verbatim>\<open>null\<close> as it is; division is
  integer division here. The functions take the column's value and return the new one.
\<close>

definition handleIntUpdateField :: "int option \<Rightarrow> IntFieldUpdate option \<Rightarrow> int option" where
  "handleIntUpdateField v intUpdate =
     (case intUpdate of
        None \<Rightarrow> v
      | Some (IntValue x) \<Rightarrow> x
      | Some (IntOperations st inc dec mul dv) \<Rightarrow>
          (case st of
             Val x \<Rightarrow> Some x
           | Null \<Rightarrow> None
           | Undefined \<Rightarrow>
               (case v of
                  None \<Rightarrow> None
                | Some n \<Rightarrow>
                    Some (case inc of Some k \<Rightarrow> n + k | None \<Rightarrow>
                          case dec of Some k \<Rightarrow> n - k | None \<Rightarrow>
                          case mul of Some k \<Rightarrow> n * k | None \<Rightarrow>
                          case dv of Some k \<Rightarrow> n div k | None \<Rightarrow> n))))"

definition handleStringUpdateField :: "string option \<Rightarrow> StringFieldUpdate option \<Rightarrow> string option" where
  "handleStringUpdateField v stringUpdate =
     (case stringUpdate of
        None \<Rightarrow> v
      | Some (StringAssign x) \<Rightarrow> x
      | Some (StringOperations st) \<Rightarrow> (case st of Val x \<Rightarrow> Some x | Null \<Rightarrow> None | Undefined \<Rightarrow> v))"

definition handleScalarListUpdateField :: "'a list option \<Rightarrow> 'a ListFieldUpdate option \<Rightarrow> 'a list option" where
  "handleScalarListUpdateField v listUpdate =
     (case listUpdate of
        None \<Rightarrow> v
      | Some (ListAssign xs) \<Rightarrow> Some xs
      | Some (ListOperations st push unset) \<Rightarrow>
          (case st of
             Some xs \<Rightarrow> Some xs
           | None \<Rightarrow>
               (case push of
                  Some xs \<Rightarrow> Some ((case v of None \<Rightarrow> [] | Some l \<Rightarrow> l) @ xs)
                | None \<Rightarrow> if unset = Some True then None else v)))"

text \<open>A required column keeps its value where the patch would leave \<^verbatim>\<open>null\<close> (the types of a
  required column's update have no \<^verbatim>\<open>null\<close>).\<close>

definition required :: "'a \<Rightarrow> 'a option \<Rightarrow> 'a" where
  "required old new = (case new of Some x \<Rightarrow> x | None \<Rightarrow> old)"

text \<open>
  \<^verbatim>\<open>update\<close>: the row is found with \<^verbatim>\<open>findUnique({ where: query.where })\<close>; on \<^verbatim>\<open>null\<close> the
  transaction is aborted and \<open>NotFound\<close> is thrown. The comparison is \<^verbatim>\<open>record === null\<close>, so a
  row that the rest of the selector rejected (\<^verbatim>\<open>undefined\<close>) goes on and makes the runtime or
  the store throw. Every scalar column is patched, the key column included, the row is
  \<^verbatim>\<open>put\<close>, and the result is \<^verbatim>\<open>findUnique\<close> under the key that \<^verbatim>\<open>put\<close> returned.
\<close>

definition User_where_id :: "int \<Rightarrow> UserWhere" where
  "User_where_id k = UserWhere_id_update (Some (NumberValue (Some k))) UserWhere_empty"

definition Profile_where_id :: "int \<Rightarrow> ProfileWhere" where
  "Profile_where_id k = ProfileWhere None None None (Some (NumberValue (Some k))) None None None"

definition Post_where_id :: "int \<Rightarrow> PostWhere" where
  "Post_where_id k = PostWhere_id_update (Some (NumberValue (Some k))) PostWhere_empty"

definition Comment_where_id :: "string \<Rightarrow> CommentWhere" where
  "Comment_where_id k = CommentWhere None None None (Some (StringValue (Some k))) None None None None None"

definition User_update :: "UserWhere \<Rightarrow> UserUpdate \<Rightarrow> UserRec js call" where
  "User_update whereClause data =
     await (User_findUnique whereClause) (\<lambda>found.
       case found of
         Null \<Rightarrow> abort_and_throw NotFound
       | Undefined \<Rightarrow> throw TypeError
       | Val record \<Rightarrow>
           (let record = record\<lparr>u_name := required (u_name record)
                            (handleStringUpdateField (Some (u_name record)) (uu_name data))\<rparr>;
                record = record\<lparr>u_id := required (u_id record)
                            (handleIntUpdateField (Some (u_id record)) (uu_id data))\<rparr>
            in await (objectStore_put db_User db_User_update (u_id record) record) (\<lambda>keyPath.
                 User_findUnique (User_where_id keyPath))))"

definition Profile_update :: "ProfileWhere \<Rightarrow> ProfileUpdate \<Rightarrow> ProfileRec js call" where
  "Profile_update whereClause data =
     await (Profile_findUnique whereClause) (\<lambda>found.
       case found of
         Null \<Rightarrow> abort_and_throw NotFound
       | Undefined \<Rightarrow> throw TypeError
       | Val record \<Rightarrow>
           (let record = record\<lparr>pr_bio := handleStringUpdateField (pr_bio record) (pu_bio data)\<rparr>;
                record = record\<lparr>pr_id := required (pr_id record)
                            (handleIntUpdateField (Some (pr_id record)) (pu_id data))\<rparr>;
                record = record\<lparr>pr_userId := handleIntUpdateField (pr_userId record) (pu_userId data)\<rparr>
            in await (Profile_store_put record) (\<lambda>keyPath.
                 Profile_findUnique (Profile_where_id keyPath))))"

definition Post_update :: "PostWhere \<Rightarrow> PostUpdate \<Rightarrow> PostRec js call" where
  "Post_update whereClause data =
     await (Post_findUnique whereClause) (\<lambda>found.
       case found of
         Null \<Rightarrow> abort_and_throw NotFound
       | Undefined \<Rightarrow> throw TypeError
       | Val record \<Rightarrow>
           (let record = record\<lparr>po_title := required (po_title record)
                            (handleStringUpdateField (Some (po_title record)) (pou_title data))\<rparr>;
                record = record\<lparr>po_id := required (po_id record)
                            (handleIntUpdateField (Some (po_id record)) (pou_id data))\<rparr>;
                record = record\<lparr>po_authorId := handleIntUpdateField (po_authorId record) (pou_authorId data)\<rparr>;
                record = record\<lparr>po_tags := handleScalarListUpdateField (po_tags record) (pou_tags data)\<rparr>;
                record = record\<lparr>po_numberArr :=
                            handleScalarListUpdateField (po_numberArr record) (pou_numberArr data)\<rparr>
            in await (objectStore_put db_Post db_Post_update (po_id record) record) (\<lambda>keyPath.
                 Post_findUnique (Post_where_id keyPath))))"

definition Comment_update :: "CommentWhere \<Rightarrow> CommentUpdate \<Rightarrow> CommentRec js call" where
  "Comment_update whereClause data =
     await (Comment_findUnique whereClause) (\<lambda>found.
       case found of
         Null \<Rightarrow> abort_and_throw NotFound
       | Undefined \<Rightarrow> throw TypeError
       | Val record \<Rightarrow>
           (let record = record\<lparr>c_id := required (c_id record)
                            (handleStringUpdateField (Some (c_id record)) (cu_id data))\<rparr>;
                record = record\<lparr>c_text := required (c_text record)
                            (handleStringUpdateField (Some (c_text record)) (cu_text data))\<rparr>;
                record = record\<lparr>c_postId := handleIntUpdateField (c_postId record) (cu_postId data)\<rparr>;
                record = record\<lparr>c_userId := handleIntUpdateField (c_userId record) (cu_userId data)\<rparr>
            in await (objectStore_put db_Comment db_Comment_update (c_id record) record) (\<lambda>keyPath.
                 Comment_findUnique (Comment_where_id keyPath))))"

text \<open>
  \<^verbatim>\<open>delete\<close>: the row is found with \<^verbatim>\<open>findUnique(query, tx)\<close>, and \<open>NotFound\<close> is thrown when
  it is missing, without a call of \<^verbatim>\<open>abort()\<close>. The User engine first runs \<^verbatim>\<open>deleteMany\<close> on
  the profiles and on the comments whose \<^verbatim>\<open>userId\<close> is the row's key, the Post engine on the
  comments whose \<^verbatim>\<open>postId\<close> is; then the row is deleted. \<^verbatim>\<open>deleteMany\<close> is \<^verbatim>\<open>delete\<close> by key on
  every row that \<^verbatim>\<open>findMany\<close> returns, in that order.
\<close>

definition Comment_delete :: "CommentWhere \<Rightarrow> CommentRec call" where
  "Comment_delete whereClause =
     await (Comment_findUnique whereClause) (\<lambda>found.
       case found of
         Val record \<Rightarrow>
           await (objectStore_delete db_Comment_update (c_id record)) (\<lambda>done. return record)
       | _ \<Rightarrow> throw NotFound)"

definition Comment_deleteMany :: "CommentWhere option \<Rightarrow> nat call" where
  "Comment_deleteMany whereClause =
     await (Comment_findMany whereClause None) (\<lambda>records.
     await (forEach records (\<lambda>record. Comment_delete (Comment_where_id (c_id record)))) (\<lambda>done.
       return (length records)))"

definition Profile_delete :: "ProfileWhere \<Rightarrow> ProfileRec call" where
  "Profile_delete whereClause =
     await (Profile_findUnique whereClause) (\<lambda>found.
       case found of
         Val record \<Rightarrow>
           await (objectStore_delete db_Profile_update (pr_id record)) (\<lambda>done. return record)
       | _ \<Rightarrow> throw NotFound)"

definition Profile_deleteMany :: "ProfileWhere option \<Rightarrow> nat call" where
  "Profile_deleteMany whereClause =
     await (Profile_findMany whereClause None) (\<lambda>records.
     await (forEach records (\<lambda>record. Profile_delete (Profile_where_id (pr_id record)))) (\<lambda>done.
       return (length records)))"

definition Post_delete :: "PostWhere \<Rightarrow> PostRec call" where
  "Post_delete whereClause =
     await (Post_findUnique whereClause) (\<lambda>found.
       case found of
         Val record \<Rightarrow>
           await (Comment_deleteMany
                    (Some (CommentWhere_postId_update (equalTo (Some (po_id record))) CommentWhere_empty)))
             (\<lambda>deleted.
           await (objectStore_delete db_Post_update (po_id record)) (\<lambda>done. return record))
       | _ \<Rightarrow> throw NotFound)"

definition Post_deleteMany :: "PostWhere option \<Rightarrow> nat call" where
  "Post_deleteMany whereClause =
     await (Post_findMany whereClause None) (\<lambda>records.
     await (forEach records (\<lambda>record. Post_delete (Post_where_id (po_id record)))) (\<lambda>done.
       return (length records)))"

definition User_delete :: "UserWhere \<Rightarrow> UserRec call" where
  "User_delete whereClause =
     await (User_findUnique whereClause) (\<lambda>found.
       case found of
         Val record \<Rightarrow>
           await (Profile_deleteMany
                    (Some (ProfileWhere_userId_update (equalTo (Some (u_id record))) ProfileWhere_empty)))
             (\<lambda>deleted.
           await (Comment_deleteMany
                    (Some (CommentWhere_userId_update (equalTo (Some (u_id record))) CommentWhere_empty)))
             (\<lambda>deleted.
           await (objectStore_delete db_User_update (u_id record)) (\<lambda>done. return record)))
       | _ \<Rightarrow> throw NotFound)"

definition User_deleteMany :: "UserWhere option \<Rightarrow> nat call" where
  "User_deleteMany whereClause =
     await (User_findMany whereClause None) (\<lambda>records.
     await (forEach records (\<lambda>record. User_delete (User_where_id (u_id record)))) (\<lambda>done.
       return (length records)))"


text \<open>The measure of \<^verbatim>\<open>create\<close>'s recursion: the payloads under \<^verbatim>\<open>create\<close> members.\<close>

fun UserCreate_weight :: "UserCreate \<Rightarrow> nat"
and ProfileCreate_weight :: "ProfileCreate \<Rightarrow> nat"
and PostCreate_weight :: "PostCreate \<Rightarrow> nat"
and CommentCreate_weight :: "CommentCreate \<Rightarrow> nat"
and UserCreateNestedOne_weight :: "UserCreateNestedOne \<Rightarrow> nat"
and ProfileCreateNestedOne_weight :: "ProfileCreateNestedOne \<Rightarrow> nat"
and PostCreateNestedOne_weight :: "PostCreateNestedOne \<Rightarrow> nat"
and PostCreateNestedMany_weight :: "PostCreateNestedMany \<Rightarrow> nat"
and CommentCreateNestedMany_weight :: "CommentCreateNestedMany \<Rightarrow> nat"
where
  "UserCreate_weight (UserCreate i nm p ps cs) =
     Suc ((case p of None \<Rightarrow> 0 | Some n \<Rightarrow> ProfileCreateNestedOne_weight n)
        + (case ps of None \<Rightarrow> 0 | Some n \<Rightarrow> PostCreateNestedMany_weight n)
        + (case cs of None \<Rightarrow> 0 | Some n \<Rightarrow> CommentCreateNestedMany_weight n))"
| "ProfileCreate_weight (ProfileCreate i b u ui) =
     Suc (case u of None \<Rightarrow> 0 | Some n \<Rightarrow> UserCreateNestedOne_weight n)"
| "PostCreate_weight (PostCreate i t au ai cs tg na) =
     Suc ((case au of None \<Rightarrow> 0 | Some n \<Rightarrow> UserCreateNestedOne_weight n)
        + (case cs of None \<Rightarrow> 0 | Some n \<Rightarrow> CommentCreateNestedMany_weight n))"
| "CommentCreate_weight (CommentCreate i t po pi u ui) =
     Suc ((case po of None \<Rightarrow> 0 | Some n \<Rightarrow> PostCreateNestedOne_weight n)
        + (case u of None \<Rightarrow> 0 | Some n \<Rightarrow> UserCreateNestedOne_weight n))"
| "UserCreateNestedOne_weight (UserCreateNestedOne c w coc) =
     (case c of None \<Rightarrow> 0 | Some d \<Rightarrow> UserCreate_weight d)"
| "ProfileCreateNestedOne_weight (ProfileCreateNestedOne c w coc) =
     (case c of None \<Rightarrow> 0 | Some d \<Rightarrow> ProfileCreate_weight d)"
| "PostCreateNestedOne_weight (PostCreateNestedOne c w coc) =
     (case c of None \<Rightarrow> 0 | Some d \<Rightarrow> PostCreate_weight d)"
| "PostCreateNestedMany_weight (PostCreateNestedMany c w coc cm) =
     sum_list (map PostCreate_weight (case c of None \<Rightarrow> [] | Some l \<Rightarrow> l))"
| "CommentCreateNestedMany_weight (CommentCreateNestedMany c w coc cm) =
     sum_list (map CommentCreate_weight (case c of None \<Rightarrow> [] | Some l \<Rightarrow> l))"

text \<open>The nested-write object \<^verbatim>\<open>{ connect: { id: key } }\<close>.\<close>

definition connect_User :: "int \<Rightarrow> UserCreateNestedOne" where
  "connect_User k = UserCreateNestedOne None (Some (User_where_id k)) None"

definition connect_Post :: "int \<Rightarrow> PostCreateNestedOne" where
  "connect_Post k = PostCreateNestedOne None (Some (Post_where_id k)) None"

text \<open>The row just written, read back: \<^verbatim>\<open>(await tx.objectStore("User").get(keyPath))!\<close>.\<close>

definition readBack :: "(DB \<Rightarrow> ('k, 'v) objectStore) \<Rightarrow> 'k \<Rightarrow> 'v call" where
  "readBack store k =
     await (objectStore_get store k) (\<lambda>row. case row of Some r \<Rightarrow> return r | None \<Rightarrow> throw TypeError)"

definition ignore :: "'a call \<Rightarrow> unit call" where
  "ignore m = await m (\<lambda>result. return ())"

lemma ignore_cong [fundef_cong]:
  "m tx = m' tx' \<Longrightarrow> tx = tx' \<Longrightarrow> ignore m tx = ignore m' tx'"
  by (simp add: ignore_def await_def)

text \<open>\<^verbatim>\<open>if (x) { await f(x) }\<close> for an optional member \<open>x\<close>.\<close>

definition ifPresent :: "'a option \<Rightarrow> ('a \<Rightarrow> 'b call) \<Rightarrow> unit call" where
  "ifPresent x f tx = (case x of None \<Rightarrow> (Inr (), tx) | Some v \<Rightarrow> ignore (f v) tx)"

lemma ifPresent_cong [fundef_cong]:
  assumes "x = y" and "\<And>v tx''. y = Some v \<Longrightarrow> f v tx'' = g v tx''" and "tx = tx'"
  shows "ifPresent x f tx = ifPresent y g tx'"
  using assms by (simp add: ifPresent_def ignore_def await_def split: option.splits)

lemma UserCreate_member_weight:
  "uc_profile d = Some n \<Longrightarrow> pno_create n = Some c \<Longrightarrow> ProfileCreate_weight c < UserCreate_weight d"
  "uc_posts d = Some pn \<Longrightarrow> ponm_create pn = Some pl \<Longrightarrow> pc \<in> set pl
    \<Longrightarrow> PostCreate_weight pc < UserCreate_weight d"
  "uc_comments d = Some cn \<Longrightarrow> cnm_create cn = Some cl \<Longrightarrow> cc \<in> set cl
    \<Longrightarrow> CommentCreate_weight cc < UserCreate_weight d"
  by (cases d; cases n; cases pn; cases cn;
      auto simp: less_Suc_eq_le dest: sum_list_map_member [where f = PostCreate_weight]
        sum_list_map_member [where f = CommentCreate_weight] intro: trans_le_add1 trans_le_add2)+

lemma ProfileCreate_member_weight:
  "pc_user d = Some n \<Longrightarrow> uno_create n = Some c \<Longrightarrow> UserCreate_weight c < ProfileCreate_weight d"
  by (cases d; cases n) auto

lemma PostCreate_member_weight:
  "poc_author d = Some n \<Longrightarrow> uno_create n = Some c \<Longrightarrow> UserCreate_weight c < PostCreate_weight d"
  "poc_comments d = Some cn \<Longrightarrow> cnm_create cn = Some cl \<Longrightarrow> cc \<in> set cl
    \<Longrightarrow> CommentCreate_weight cc < PostCreate_weight d"
  by (cases d; cases n; cases cn;
      auto simp: less_Suc_eq_le dest: sum_list_map_member [where f = CommentCreate_weight]
        intro: trans_le_add1 trans_le_add2)+

lemma CommentCreate_member_weight:
  "cc_post d = Some pn \<Longrightarrow> pono_create pn = Some pc \<Longrightarrow> PostCreate_weight pc < CommentCreate_weight d"
  "cc_user d = Some n \<Longrightarrow> uno_create n = Some c \<Longrightarrow> UserCreate_weight c < CommentCreate_weight d"
  by (cases d; cases pn; cases n; auto)+

lemma create_update_weight:
  "ProfileCreate_weight (ProfileCreate_userId_update v pd) = ProfileCreate_weight pd"
  "PostCreate_weight (PostCreate_author_update (Some (connect_User k)) pod) \<le> PostCreate_weight pod"
  "CommentCreate_weight (CommentCreate_user_update (Some (connect_User k)) cd) \<le> CommentCreate_weight cd"
  "CommentCreate_weight (CommentCreate_userId_update v cd) = CommentCreate_weight cd"
  "CommentCreate_weight (CommentCreate_post_update (Some (connect_Post k)) cd) \<le> CommentCreate_weight cd"
  "CommentCreate_weight (CommentCreate_postId_update v cd) = CommentCreate_weight cd"
  by (cases pd; cases pod; cases cd; simp add: connect_User_def connect_Post_def)+


text \<open>
  \<^verbatim>\<open>create\<close>. A relation whose foreign key the row holds is resolved before the row is
  written: \<^verbatim>\<open>create\<close> makes the related row, \<^verbatim>\<open>connect\<close> looks it up with
  \<^verbatim>\<open>findUniqueOrThrow\<close>, \<^verbatim>\<open>connectOrCreate\<close> throws, and a foreign key given as a value is
  checked with \<^verbatim>\<open>findUniqueOrThrow\<close>. Then the payload is filled, stripped and added. Then the
  relations held by other rows are written with the new key, in the order of the source;
  \<^verbatim>\<open>connect\<close> there is an \<^verbatim>\<open>update\<close> of the related row, and \<^verbatim>\<open>connectOrCreate\<close> throws. The
  result is the row read back. In \<^verbatim>\<open>Comment.create\<close> the block of \<^verbatim>\<open>post\<close> changes only the members
  \<^verbatim>\<open>post\<close> and \<^verbatim>\<open>postId\<close> of the payload, so the block of \<^verbatim>\<open>user\<close> reads its members from
  the payload as given.
\<close>

function User_create :: "UserCreate \<Rightarrow> UserRec call"
and Profile_create :: "ProfileCreate \<Rightarrow> ProfileRec call"
and Post_create :: "PostCreate \<Rightarrow> PostRec call"
and Comment_create :: "CommentCreate \<Rightarrow> CommentRec call"
where
  "User_create data tx =
     (await (User_fillDefaults data) (\<lambda>filled.
      await (orThrow (User_removeNestedCreateData filled)) (\<lambda>record.
      await (objectStore_add db_User db_User_update (u_id record) record) (\<lambda>keyPath.
      await (ifPresent (Option.bind (uc_profile data) pno_create) (\<lambda>createData.
               Profile_create (ProfileCreate_userId_update (Some keyPath) createData))) (\<lambda>done.
      await (ifPresent (Option.bind (uc_profile data) pno_connect) (\<lambda>connectWhere.
               Profile_update connectWhere
                   \<lparr>pu_id = None, pu_bio = None, pu_userId = Some (IntValue (Some keyPath))\<rparr>)) (\<lambda>done.
      await (if Option.bind (uc_profile data) pno_connectOrCreate \<noteq> None
             then throw UnsupportedOperation else return ()) (\<lambda>done.
      await (ifPresent (Option.bind (uc_posts data) ponm_create) (\<lambda>creates.
               forEach creates (\<lambda>createData.
                   Post_create (PostCreate_author_update (Some (connect_User keyPath)) createData)))) (\<lambda>done.
      await (ifPresent (Option.bind (uc_posts data) ponm_connect) (\<lambda>connects.
               forEach connects (\<lambda>connectWhere.
                   Post_update connectWhere
                     \<lparr>pou_id = None, pou_title = None, pou_authorId = Some (IntValue (Some keyPath)),
                      pou_tags = None, pou_numberArr = None\<rparr>))) (\<lambda>done.
      await (if Option.bind (uc_posts data) ponm_connectOrCreate \<noteq> None
             then throw UnsupportedOperation else return ()) (\<lambda>done.
      await (ifPresent (Option.bind (uc_posts data) ponm_createMany) (\<lambda>createManyData.
               Post_createMany (map (PostCreate_authorId_update (Val keyPath)) createManyData))) (\<lambda>done.
      await (ifPresent (Option.bind (uc_comments data) cnm_create) (\<lambda>creates.
               forEach creates (\<lambda>elem.
                   if cc_post elem \<noteq> None \<and> cc_postId elem = None then
                     ignore (Comment_create (CommentCreate_user_update (Some (connect_User keyPath)) elem))
                   else if cc_postId elem \<noteq> None then
                     ignore (Comment_create (CommentCreate_userId_update (Some keyPath) elem))
                   else return ()))) (\<lambda>done.
      await (ifPresent (Option.bind (uc_comments data) cnm_connect) (\<lambda>connects.
               forEach connects (\<lambda>connectWhere.
                   Comment_update connectWhere
                     \<lparr>cu_id = None, cu_text = None, cu_postId = None,
                      cu_userId = Some (IntValue (Some keyPath))\<rparr>))) (\<lambda>done.
      await (if Option.bind (uc_comments data) cnm_connectOrCreate \<noteq> None
             then throw UnsupportedOperation else return ()) (\<lambda>done.
      await (ifPresent (Option.bind (uc_comments data) cnm_createMany) (\<lambda>createManyData.
               Comment_createMany (map (CommentCreate_userId_update (Some keyPath)) createManyData))) (\<lambda>done.
      readBack db_User keyPath))))))))))))))) tx"
| "Profile_create data tx =
     (await (case pc_user data of
          Some relation \<Rightarrow>
            await (case uno_create relation of
                     Some createData \<Rightarrow> await (User_create createData) (\<lambda>created. return (Some (u_id created)))
                   | None \<Rightarrow> return None) (\<lambda>fk.
            await (case uno_connect relation of
                     Some connectWhere \<Rightarrow>
                       await (User_findUniqueOrThrow connectWhere) (\<lambda>record. return (Some (u_id record)))
                   | None \<Rightarrow> return fk) (\<lambda>fk.
            if uno_connectOrCreate relation \<noteq> None then throw UnsupportedOperation
            else return (ProfileCreate_user_update None (ProfileCreate_userId_update fk data))))
        | None \<Rightarrow>
            (case pc_userId data of
               Some userId \<Rightarrow> await (User_findUniqueOrThrow (User_where_id userId)) (\<lambda>record. return data)
             | None \<Rightarrow> return data)) (\<lambda>resolved.
      await (Profile_fillDefaults resolved) (\<lambda>filled.
      await (orThrow (Profile_removeNestedCreateData filled)) (\<lambda>record.
      await (Profile_store_add record) (\<lambda>keyPath.
      readBack db_Profile keyPath))))) tx"
| "Post_create data tx =
     (await (case poc_author data of
          Some relation \<Rightarrow>
            await (case uno_create relation of
                     Some createData \<Rightarrow> await (User_create createData) (\<lambda>created. return (Some (u_id created)))
                   | None \<Rightarrow> return None) (\<lambda>fk.
            await (case uno_connect relation of
                     Some connectWhere \<Rightarrow>
                       await (User_findUniqueOrThrow connectWhere) (\<lambda>record. return (Some (u_id record)))
                   | None \<Rightarrow> return fk) (\<lambda>fk.
            if uno_connectOrCreate relation \<noteq> None then throw UnsupportedOperation
            else return (PostCreate_author_update None (PostCreate_authorId_update (case fk of None \<Rightarrow> Undefined | Some k \<Rightarrow> Val k) data))))
        | None \<Rightarrow>
            (case poc_authorId data of
               Val authorId \<Rightarrow> await (User_findUniqueOrThrow (User_where_id authorId)) (\<lambda>record. return data)
             | _ \<Rightarrow> return data)) (\<lambda>resolved.
      await (Post_fillDefaults resolved) (\<lambda>filled.
      await (orThrow (Post_removeNestedCreateData filled)) (\<lambda>record.
      await (objectStore_add db_Post db_Post_update (po_id record) record) (\<lambda>keyPath.
      await (ifPresent (Option.bind (poc_comments data) cnm_create) (\<lambda>creates.
               forEach creates (\<lambda>elem.
                   if cc_user elem \<noteq> None \<and> cc_userId elem = None then
                     ignore (Comment_create (CommentCreate_post_update (Some (connect_Post keyPath)) elem))
                   else if cc_userId elem \<noteq> None then
                     ignore (Comment_create (CommentCreate_postId_update (Some keyPath) elem))
                   else return ()))) (\<lambda>done.
      await (ifPresent (Option.bind (poc_comments data) cnm_connect) (\<lambda>connects.
               forEach connects (\<lambda>connectWhere.
                   Comment_update connectWhere
                     \<lparr>cu_id = None, cu_text = None, cu_postId = Some (IntValue (Some keyPath)),
                      cu_userId = None\<rparr>))) (\<lambda>done.
      await (if Option.bind (poc_comments data) cnm_connectOrCreate \<noteq> None
             then throw UnsupportedOperation else return ()) (\<lambda>done.
      await (ifPresent (Option.bind (poc_comments data) cnm_createMany) (\<lambda>createManyData.
               Comment_createMany (map (CommentCreate_postId_update (Some keyPath)) createManyData))) (\<lambda>done.
      await (readBack db_Post keyPath) (\<lambda>row. return (Post_preprocessListFields row))))))))))) tx"
| "Comment_create data tx =
     (await (case cc_post data of
          Some relation \<Rightarrow>
            await (case pono_create relation of
                     Some createData \<Rightarrow> await (Post_create createData) (\<lambda>created. return (Some (po_id created)))
                   | None \<Rightarrow> return None) (\<lambda>fk.
            await (case pono_connect relation of
                     Some connectWhere \<Rightarrow>
                       await (Post_findUniqueOrThrow connectWhere) (\<lambda>record. return (Some (po_id record)))
                   | None \<Rightarrow> return fk) (\<lambda>fk.
            if pono_connectOrCreate relation \<noteq> None then throw UnsupportedOperation
            else return (CommentCreate_post_update None (CommentCreate_postId_update fk data))))
        | None \<Rightarrow>
            (case cc_postId data of
               Some postId \<Rightarrow> await (Post_findUniqueOrThrow (Post_where_id postId)) (\<lambda>record. return data)
             | None \<Rightarrow> return data)) (\<lambda>withPost.
      await (case cc_user data of
          Some relation \<Rightarrow>
            await (case uno_create relation of
                     Some createData \<Rightarrow> await (User_create createData) (\<lambda>created. return (Some (u_id created)))
                   | None \<Rightarrow> return None) (\<lambda>fk.
            await (case uno_connect relation of
                     Some connectWhere \<Rightarrow>
                       await (User_findUniqueOrThrow connectWhere) (\<lambda>record. return (Some (u_id record)))
                   | None \<Rightarrow> return fk) (\<lambda>fk.
            if uno_connectOrCreate relation \<noteq> None then throw UnsupportedOperation
            else return (CommentCreate_user_update None (CommentCreate_userId_update fk withPost))))
        | None \<Rightarrow>
            (case cc_userId data of
               Some userId \<Rightarrow> await (User_findUniqueOrThrow (User_where_id userId)) (\<lambda>record. return withPost)
             | None \<Rightarrow> return withPost)) (\<lambda>resolved.
      await (Comment_fillDefaults resolved) (\<lambda>filled.
      await (orThrow (Comment_removeNestedCreateData filled)) (\<lambda>record.
      await (objectStore_add db_Comment db_Comment_update (c_id record) record) (\<lambda>keyPath.
      readBack db_Comment keyPath)))))) tx"
  by pat_completeness auto
termination
  apply (relation "measure (case_sum (case_sum (\<lambda>(d, tx). UserCreate_weight d) (\<lambda>(d, tx). ProfileCreate_weight d))
            (case_sum (\<lambda>(d, tx). PostCreate_weight d) (\<lambda>(d, tx). CommentCreate_weight d)))")
  apply simp
  apply (simp_all add: create_update_weight bind_eq_Some_conv)
  apply (auto intro: UserCreate_member_weight ProfileCreate_member_weight PostCreate_member_weight
      CommentCreate_member_weight
      le_less_trans [OF create_update_weight(2) UserCreate_member_weight(2)]
      le_less_trans [OF create_update_weight(3) UserCreate_member_weight(3)]
      le_less_trans [OF create_update_weight(5) PostCreate_member_weight(2)])
  done


declare User_create.simps [simp del] Profile_create.simps [simp del]
  Post_create.simps [simp del] Comment_create.simps [simp del]

subsection \<open>Notification interface\<close>

text \<open>
  \<^verbatim>\<open>BaseIDBModelClass\<close> keeps an \<^verbatim>\<open>EventTarget\<close>. A listener is an event kind with a callback;
  \<^verbatim>\<open>addEventListener\<close> keeps one entry for the same kind and callback, \<^verbatim>\<open>removeEventListener\<close>
  drops it, and \<^verbatim>\<open>dispatchEvent\<close> runs the callbacks listening for the kind in the order they
  were added. Callbacks are \<^verbatim>\<open>() => void\<close>; a callback is known here by a value of type \<open>'cb\<close>,
  and the engine records the callbacks that were run.
\<close>

datatype EventKind = CreateEvent | UpdateEvent | DeleteEvent

datatype EventArg = OneEvent EventKind | EventArray "EventKind list"

type_synonym 'cb EventTarget = "(EventKind \<times> 'cb) list"

definition addEventListener :: "EventKind \<Rightarrow> 'cb \<Rightarrow> 'cb EventTarget \<Rightarrow> 'cb EventTarget" where
  "addEventListener event callback target =
     (if (event, callback) \<in> set target then target else target @ [(event, callback)])"

definition removeEventListener :: "EventKind \<Rightarrow> 'cb \<Rightarrow> 'cb EventTarget \<Rightarrow> 'cb EventTarget" where
  "removeEventListener event callback target = filter (\<lambda>listener. listener \<noteq> (event, callback)) target"

definition dispatchEvent :: "'cb EventTarget \<Rightarrow> EventKind \<Rightarrow> 'cb list" where
  "dispatchEvent target event = map snd (filter (\<lambda>listener. fst listener = event) target)"

record 'cb BaseIDBModelClass =
  eventEmitter :: "'cb EventTarget"
  called :: "'cb list"

definition new_BaseIDBModelClass :: "'cb BaseIDBModelClass" where
  "new_BaseIDBModelClass = \<lparr>eventEmitter = [], called = []\<rparr>"

definition subscribe :: "EventArg \<Rightarrow> 'cb \<Rightarrow> 'cb BaseIDBModelClass \<Rightarrow> 'cb BaseIDBModelClass" where
  "subscribe event callback this =
     (case event of
        EventArray events \<Rightarrow>
          this\<lparr>eventEmitter := fold (\<lambda>event. addEventListener event callback) events (eventEmitter this)\<rparr>
      | OneEvent event \<Rightarrow>
          this\<lparr>eventEmitter := addEventListener event callback (eventEmitter this)\<rparr>)"

definition unsubscribe :: "EventArg \<Rightarrow> 'cb \<Rightarrow> 'cb BaseIDBModelClass \<Rightarrow> 'cb BaseIDBModelClass" where
  "unsubscribe event callback this =
     (case event of
        EventArray events \<Rightarrow>
          this\<lparr>eventEmitter := fold (\<lambda>event. removeEventListener event callback) events (eventEmitter this)\<rparr>
      | OneEvent event \<Rightarrow>
          this\<lparr>eventEmitter := removeEventListener event callback (eventEmitter this)\<rparr>)"

definition emit :: "EventKind \<Rightarrow> 'cb BaseIDBModelClass \<Rightarrow> 'cb BaseIDBModelClass" where
  "emit event this = this\<lparr>called := called this @ dispatchEvent (eventEmitter this) event\<rparr>"

text \<open>
  The operations of an engine are methods of a class that extends \<^verbatim>\<open>BaseIDBModelClass\<close>. The
  bodies of \<^verbatim>\<open>create\<close>, \<^verbatim>\<open>update\<close> and \<^verbatim>\<open>delete\<close> are the functions above: no engine refers to
  \<^verbatim>\<open>eventEmitter\<close> or calls \<^verbatim>\<open>emit\<close> in them, so each returns the engine as it was.
\<close>

definition asMethod :: "'a call \<Rightarrow> 'cb BaseIDBModelClass \<Rightarrow> Tx \<Rightarrow> ((error + 'a) \<times> Tx) \<times> 'cb BaseIDBModelClass" where
  "asMethod body this tx = (body tx, this)"

definition UserIDBClass_create ::
  "UserCreate \<Rightarrow> 'cb BaseIDBModelClass \<Rightarrow> Tx \<Rightarrow> ((error + UserRec) \<times> Tx) \<times> 'cb BaseIDBModelClass" where
  "UserIDBClass_create data = asMethod (User_create data)"

definition UserIDBClass_update ::
  "UserWhere \<Rightarrow> UserUpdate \<Rightarrow> 'cb BaseIDBModelClass \<Rightarrow> Tx \<Rightarrow> ((error + UserRec js) \<times> Tx) \<times> 'cb BaseIDBModelClass" where
  "UserIDBClass_update whereUnique data = asMethod (User_update whereUnique data)"

definition UserIDBClass_delete ::
  "UserWhere \<Rightarrow> 'cb BaseIDBModelClass \<Rightarrow> Tx \<Rightarrow> ((error + UserRec) \<times> Tx) \<times> 'cb BaseIDBModelClass" where
  "UserIDBClass_delete whereUnique = asMethod (User_delete whereUnique)"

subsection \<open>Definitions for the statements about writes\<close>

text \<open>The key the spec gives a row without one: \<open>1\<close> on an empty table, else the greatest key
  plus one.\<close>

definition nextKey :: "(int, 'v) objectStore \<Rightarrow> int" where
  "nextKey s = (if s = [] then 1 else Max (set (store_keys s)) + 1)"

text \<open>An object store with \<^verbatim>\<open>keyPath: ["id"]\<close> holds every row under the key read from the
  row.\<close>

definition keyed :: "('r \<Rightarrow> 'k::linorder) \<Rightarrow> ('k, 'r) objectStore \<Rightarrow> bool" where
  "keyed keyPath s = (store_ok s \<and> (\<forall>kr \<in> set s. keyPath (snd kr) = fst kr))"

text \<open>Example transactions: identifiers for \<^verbatim>\<open>createId()\<close>, and a transaction opened on the
  empty database in which the user Ann has been created.\<close>

definition cuid :: "nat \<Rightarrow> string" where
  "cuid n = replicate (Suc n) (CHR ''c'')"

definition tx_empty :: Tx where
  "tx_empty = transaction cuid 0 empty_DB"

definition tx_ann :: Tx where
  "tx_ann = snd (User_create (UserCreate None ''Ann'' None None None) tx_empty)"

text \<open>A transaction on a database that holds one comment.\<close>

definition hi :: CommentRec where
  "hi = \<lparr>c_id = ''c'', c_postId = Some 1, c_userId = Some 1, c_text = ''hi''\<rparr>"

definition tx_hi :: Tx where
  "tx_hi = transaction cuid 1 (empty_DB\<lparr>db_Comment := [(''c'', hi)]\<rparr>)"

text \<open>A transaction on a database whose greatest user key is \<open>2 ^ 53\<close>, and one on a
  database with users, a post and a comment.\<close>

definition tx_big :: Tx where
  "tx_big = transaction cuid 0
     (empty_DB\<lparr>db_User := [(1, ann1), (9007199254740992, \<lparr>u_id = 9007199254740992, u_name = ''Big''\<rparr>)]\<rparr>)"

definition tx_some :: Tx where
  "tx_some = transaction cuid 2
     (empty_DB\<lparr>db_User := [(1, ann1), (3, bob3)],
        db_Post := [(1, lonely_post), (7, \<lparr>po_id = 7, po_title = ''p7'', po_authorId = Some 1, po_tags = None,
                         po_numberArr = None\<rparr>)],
        db_Comment := [(''c'', hi)]\<rparr>)"

text \<open>
  The row \<^verbatim>\<open>update\<close> writes: the selected row after the patch of every scalar column, the key
  column among them.
\<close>

definition User_patched :: "UserUpdate \<Rightarrow> UserRec \<Rightarrow> UserRec" where
  "User_patched data old =
     \<lparr>u_id = required (u_id old) (handleIntUpdateField (Some (u_id old)) (uu_id data)),
      u_name = required (u_name old) (handleStringUpdateField (Some (u_name old)) (uu_name data))\<rparr>"

definition Profile_patched :: "ProfileUpdate \<Rightarrow> ProfileRec \<Rightarrow> ProfileRec" where
  "Profile_patched data old =
     \<lparr>pr_id = required (pr_id old) (handleIntUpdateField (Some (pr_id old)) (pu_id data)),
      pr_bio = handleStringUpdateField (pr_bio old) (pu_bio data),
      pr_userId = handleIntUpdateField (pr_userId old) (pu_userId data)\<rparr>"

definition Post_patched :: "PostUpdate \<Rightarrow> PostRec \<Rightarrow> PostRec" where
  "Post_patched data old =
     \<lparr>po_id = required (po_id old) (handleIntUpdateField (Some (po_id old)) (pou_id data)),
      po_title = required (po_title old) (handleStringUpdateField (Some (po_title old)) (pou_title data)),
      po_authorId = handleIntUpdateField (po_authorId old) (pou_authorId data),
      po_tags = handleScalarListUpdateField (po_tags old) (pou_tags data),
      po_numberArr = handleScalarListUpdateField (po_numberArr old) (pou_numberArr data)\<rparr>"

definition Comment_patched :: "CommentUpdate \<Rightarrow> CommentRec \<Rightarrow> CommentRec" where
  "Comment_patched data old =
     \<lparr>c_id = required (c_id old) (handleStringUpdateField (Some (c_id old)) (cu_id data)),
      c_postId = handleIntUpdateField (c_postId old) (cu_postId data),
      c_userId = handleIntUpdateField (c_userId old) (cu_userId data),
      c_text = required (c_text old) (handleStringUpdateField (Some (c_text old)) (cu_text data))\<rparr>"

text \<open>
  What C3 says of a store before and after an update that selected the row \<open>old\<close> and
  patched it to \<open>new\<close>: the patched row is stored under its key; and when the patch has left
  the key as it was, in a store that holds every row under its own key, the store after is the
  store before with the patched row put under that key, which has the same keys and again
  holds every row under its own key.
\<close>

definition repersisted ::
  "('r \<Rightarrow> 'k::linorder) \<Rightarrow> ('k, 'r) objectStore \<Rightarrow> ('k, 'r) objectStore \<Rightarrow> 'r \<Rightarrow> 'r \<Rightarrow> bool" where
  "repersisted keyPath before after old new =
     (store_get after (keyPath new) = Some new
      \<and> (keyed keyPath before \<and> keyPath new = keyPath old \<longrightarrow>
           after = store_put before (keyPath old) new
           \<and> store_keys after = store_keys before
           \<and> keyed keyPath after))"

text \<open>A transaction on a database with one row in every store.\<close>

definition tx_all :: Tx where
  "tx_all = transaction cuid 1
     \<lparr>db_User = [(1, ann1)], db_Profile = [(1, no_bio)], db_Post = [(1, lonely_post)],
      db_Comment = [(''c'', hi)]\<rparr>"

section \<open>Properties\<close>

subsection \<open>The order resolver\<close>

lemma Key_position_inj: "Key_position a = Key_position b \<Longrightarrow> a = b"
  by (cases a; cases b) (simp_all add: Key_position_def)

lemma compareKeys_zero [simp]: "(compareKeys a b = 0) = (a = b)"
  by (auto simp: compareKeys_def dest: Key_position_inj)

lemma compareKeys_le: "(compareKeys a b \<le> 0) = (Key_position a \<le> Key_position b)"
  by (auto simp: compareKeys_def)

lemma compareKeys_swap: "compareKeys b a = - compareKeys a b"
  by (auto simp: compareKeys_def)

lemma genericComparator_flip: "genericComparator a b (flipOrder d) = - genericComparator a b d"
  by (cases d) (simp_all add: genericComparator_def flipOrder_def)

lemma genericComparator_swap: "genericComparator b a d = - genericComparator a b d"
  by (cases d) (auto simp: genericComparator_def compareKeys_def)

lemma genericComparator_zero [simp]: "(genericComparator a b d = 0) = (a = b)"
  by (cases d) (simp_all add: genericComparator_def)

lemma genericComparator_trans:
  "genericComparator a b d \<le> 0 \<Longrightarrow> genericComparator b c d \<le> 0 \<Longrightarrow> genericComparator a c d \<le> 0"
  by (cases d) (auto simp: genericComparator_def compareKeys_def split: if_splits)

lemma compareByClauses_resolved:
  "mapE rso clauses = Inr ds \<Longrightarrow> compareByClauses rso clauses a b = Inr (compareKeyLists ds a b)"
  by (induction clauses arbitrary: ds a b) (auto simp: Let_def split: sum.splits)

lemma compareKeyLists_swap: "compareKeyLists ds b a = - compareKeyLists ds a b"
proof (induction ds arbitrary: a b)
  case Nil
  then show ?case by simp
next
  case (Cons d ds)
  show ?case
    using Cons.IH [of "tl a" "tl b"] genericComparator_swap [of "keyAt b" "keyAt a" d]
    by (cases "keyAt a = keyAt b") auto
qed

lemma compareKeyLists_flip: "compareKeyLists (map flipOrder ds) a b = - compareKeyLists ds a b"
  by (induction ds arbitrary: a b) (auto simp: genericComparator_flip)

lemma compareKeyLists_trans:
  "compareKeyLists ds a b \<le> 0 \<Longrightarrow> compareKeyLists ds b c \<le> 0 \<Longrightarrow> compareKeyLists ds a c \<le> 0"
proof (induction ds arbitrary: a b c)
  case Nil
  then show ?case by simp
next
  case (Cons d ds)
  show ?case
  proof (cases "keyAt a = keyAt b")
    case True
    with Cons show ?thesis by (auto split: if_splits)
  next
    case ab: False
    show ?thesis
    proof (cases "keyAt b = keyAt c")
      case True
      with Cons ab show ?thesis by (auto split: if_splits)
    next
      case bc: False
      from Cons.prems ab bc have "genericComparator (keyAt a) (keyAt b) d \<le> 0"
        "genericComparator (keyAt b) (keyAt c) d \<le> 0" by auto
      then have le: "genericComparator (keyAt a) (keyAt c) d \<le> 0"
        by (rule genericComparator_trans)
      show ?thesis
      proof (cases "keyAt a = keyAt c")
        case True
        from ab bc True \<open>genericComparator (keyAt a) (keyAt b) d \<le> 0\<close>
          \<open>genericComparator (keyAt b) (keyAt c) d \<le> 0\<close>
        have False
          using genericComparator_swap [of "keyAt b" "keyAt a" d]
            genericComparator_zero [of "keyAt a" "keyAt b" d]
          by auto
        then show ?thesis ..
      next
        case False
        with le show ?thesis by simp
      qed
    qed
  qed
qed

lemma compareKeyLists_zero:
  "length a = length ds \<Longrightarrow> length b = length ds \<Longrightarrow> compareKeyLists ds a b = 0 \<Longrightarrow> a = b"
proof (induction ds arbitrary: a b)
  case Nil
  then show ?case by simp
next
  case (Cons d ds)
  then obtain x a' y b' where "a = x # a'" "b = y # b'"
    by (cases a; cases b) auto
  with Cons show ?case by (auto simp: keyAt_def split: if_splits)
qed

lemma sort_insert_total: "sort_insert (\<lambda>a b. Inr (f a b)) x ys = Inr (insert_by f x ys)"
  by (induction ys) auto

lemma array_sort_total: "array_sort (\<lambda>a b. Inr (f a b)) xs = Inr (sort_by f xs)"
  by (induction xs) (auto simp: sort_insert_total)

lemma mset_insert_by: "mset (insert_by f x ys) = add_mset x (mset ys)"
  by (induction ys) auto

lemma mset_sort_by: "mset (sort_by f xs) = mset xs"
  by (induction xs) (auto simp: mset_insert_by)

lemma set_insert_by: "set (insert_by f x ys) = insert x (set ys)"
  by (induction ys) auto

lemma sorted_insert_by:
  assumes total: "\<And>a b. 0 < f a b \<Longrightarrow> f b a \<le> 0"
    and trans: "\<And>a b c. f a b \<le> 0 \<Longrightarrow> f b c \<le> 0 \<Longrightarrow> f a c \<le> 0"
    and "sorted_wrt (\<lambda>a b. f a b \<le> 0) ys"
  shows "sorted_wrt (\<lambda>a b. f a b \<le> 0) (insert_by f x ys)"
  using assms(3)
proof (induction ys)
  case Nil
  then show ?case by simp
next
  case (Cons y ys)
  show ?case
  proof (cases "f x y \<le> 0")
    case True
    with Cons.prems trans show ?thesis by auto
  next
    case False
    then have "f y x \<le> 0" using total [of x y] by simp
    with False Cons show ?thesis by (auto simp: set_insert_by)
  qed
qed

lemma sorted_sort_by:
  assumes "\<And>a b. 0 < f a b \<Longrightarrow> f b a \<le> 0"
    and "\<And>a b c. f a b \<le> 0 \<Longrightarrow> f b c \<le> 0 \<Longrightarrow> f a c \<le> 0"
  shows "sorted_wrt (\<lambda>a b. f a b \<le> 0) (sort_by f xs)"
  by (induction xs) (auto intro: sorted_insert_by assms)

lemma sorted_wrt_unique:
  assumes "sorted_wrt R xs" "sorted_wrt R ys" "mset xs = mset ys"
    and anti: "\<And>a b. a \<in> set xs \<Longrightarrow> b \<in> set xs \<Longrightarrow> R a b \<Longrightarrow> R b a \<Longrightarrow> a = b"
  shows "xs = ys"
  using assms
proof (induction xs arbitrary: ys)
  case Nil
  then show ?case by simp
next
  case (Cons x xs)
  then obtain y ys' where ys: "ys = y # ys'" by (cases ys) auto
  have sets: "set (x # xs) = set (y # ys')"
    using Cons.prems(3) ys by (metis mset_eq_setD)
  have "x = y"
  proof (rule ccontr)
    assume ne: "x \<noteq> y"
    have x_in: "x \<in> set ys'" and y_in: "y \<in> set xs" using sets ne by auto
    have "R y x" using Cons.prems(2) ys x_in by simp
    moreover have "R x y" using Cons.prems(1) y_in by simp
    ultimately have "x = y"
      using Cons.prems(4) [of x y] y_in by simp
    with ne show False by simp
  qed
  moreover have "xs = ys'"
  proof (rule Cons.IH)
    show "sorted_wrt R xs" using Cons.prems(1) by simp
    show "sorted_wrt R ys'" using Cons.prems(2) ys by simp
    show "mset xs = mset ys'" using Cons.prems(3) ys \<open>x = y\<close> by simp
    show "\<And>a b. a \<in> set xs \<Longrightarrow> b \<in> set xs \<Longrightarrow> R a b \<Longrightarrow> R b a \<Longrightarrow> a = b"
      using Cons.prems(4) by auto
  qed
  ultimately show ?case using ys by simp
qed

lemma sort_by_reversed:
  assumes total: "\<And>a b. 0 < f a b \<Longrightarrow> f b a \<le> 0"
    and trans: "\<And>a b c. f a b \<le> 0 \<Longrightarrow> f b c \<le> 0 \<Longrightarrow> f a c \<le> 0"
    and swap: "\<And>a b. f b a = - f a b"
    and neg: "\<And>a b. g a b = - f a b"
    and noties: "\<And>a b. a \<in> set xs \<Longrightarrow> b \<in> set xs \<Longrightarrow> f a b = 0 \<Longrightarrow> a = b"
  shows "sort_by g xs = rev (sort_by f xs)"
proof (rule sorted_wrt_unique [where R = "\<lambda>a b. g a b \<le> 0"])
  have g_is: "g a b = f b a" for a b
    using neg [of a b] swap [of a b] by linarith
  have gtotal: "\<And>a b. 0 < g a b \<Longrightarrow> g b a \<le> 0"
    using total by (simp only: g_is)
  have gtrans: "\<And>a b c. g a b \<le> 0 \<Longrightarrow> g b c \<le> 0 \<Longrightarrow> g a c \<le> 0"
    using trans by (simp only: g_is)
  show "sorted_wrt (\<lambda>a b. g a b \<le> 0) (sort_by g xs)"
    by (rule sorted_sort_by [OF gtotal gtrans])
  have "sorted_wrt (\<lambda>a b. f a b \<le> 0) (sort_by f xs)"
    by (rule sorted_sort_by [OF total trans])
  then have "sorted_wrt (\<lambda>a b. f b a \<le> 0) (rev (sort_by f xs))"
    by (simp add: sorted_wrt_rev)
  then show "sorted_wrt (\<lambda>a b. g a b \<le> 0) (rev (sort_by f xs))"
    by (simp only: g_is)
  show "mset (sort_by g xs) = mset (rev (sort_by f xs))"
    by (simp add: mset_sort_by)
  show "\<And>a b. a \<in> set (sort_by g xs) \<Longrightarrow> b \<in> set (sort_by g xs) \<Longrightarrow> g a b \<le> 0 \<Longrightarrow> g b a \<le> 0 \<Longrightarrow> a = b"
  proof -
    fix a b assume a: "a \<in> set (sort_by g xs)" and b: "b \<in> set (sort_by g xs)"
      and le: "g a b \<le> 0" "g b a \<le> 0"
    have "f a b = 0"
      using le neg [of a b] g_is [of b a] by linarith
    moreover have "a \<in> set xs" "b \<in> set xs"
      using a b mset_sort_by [of g xs] by (metis mset_eq_setD)+
    ultimately show "a = b" using noties by blast
  qed
qed


lemma bind_count_reverse:
  "Option.bind (map_option OrderByCount_reverse x) ob_count = map_option flipOrder (Option.bind x ob_count)"
  by (cases x) (simp_all add: OrderByCount_reverse_def)

lemma resolveSortOrder_reverse:
  "User_resolveSortOrder (User_reverseOrderBy uc) = map_sum id flipOrder (User_resolveSortOrder uc)"
  "Profile_resolveSortOrder (Profile_reverseOrderBy prc) = map_sum id flipOrder (Profile_resolveSortOrder prc)"
  "Post_resolveSortOrder (Post_reverseOrderBy poc) = map_sum id flipOrder (Post_resolveSortOrder poc)"
  "Comment_resolveSortOrder (Comment_reverseOrderBy cc) = map_sum id flipOrder (Comment_resolveSortOrder cc)"
  by (induction uc and prc and poc and cc
      rule: User_resolveSortOrder_Profile_resolveSortOrder_Post_resolveSortOrder_Comment_resolveSortOrder.induct)
     (auto simp: bind_count_reverse split: option.splits)

lemma resolveOrderByKey_reverse:
  "User_resolveOrderByKey db ur (User_reverseOrderBy uc) = User_resolveOrderByKey db ur uc"
  "Profile_resolveOrderByKey db prr (Profile_reverseOrderBy prc) = Profile_resolveOrderByKey db prr prc"
  "Post_resolveOrderByKey db por (Post_reverseOrderBy poc) = Post_resolveOrderByKey db por poc"
  "Comment_resolveOrderByKey db cr (Comment_reverseOrderBy cc) = Comment_resolveOrderByKey db cr cc"
  by (induction db ur uc and db prr prc and db por poc and db cr cc
      rule: User_resolveOrderByKey_Profile_resolveOrderByKey_Post_resolveOrderByKey_Comment_resolveOrderByKey.induct)
     (auto split: option.splits)


lemma mapE_list_all2: "mapE f xs = Inr ys \<Longrightarrow> list_all2 (\<lambda>x y. f x = Inr y) xs ys"
  by (induction xs arbitrary: ys) (auto split: sum.splits)

lemma mapE_length: "mapE f xs = Inr ys \<Longrightarrow> length ys = length xs"
  by (drule mapE_list_all2) (simp add: list_all2_lengthD)

lemma indexed_keys:
  assumes "mapE (\<lambda>record. case mapE (rk record) clauses of
        Inl e \<Rightarrow> Inl e | Inr keys \<Rightarrow> Inr (keys, record)) records = Inr indexed"
  shows "map snd indexed = records"
    and "\<And>p. p \<in> set indexed \<Longrightarrow> mapE (rk (snd p)) clauses = Inr (fst p)"
proof -
  have "list_all2 (\<lambda>r p. (case mapE (rk r) clauses of
        Inl e \<Rightarrow> Inl e | Inr keys \<Rightarrow> Inr (keys, r)) = Inr p) records indexed"
    using assms by (rule mapE_list_all2)
  then have all2: "list_all2 (\<lambda>r p. mapE (rk r) clauses = Inr (fst p) \<and> snd p = r) records indexed"
    by (rule list_all2_mono) (auto split: sum.splits)
  then show "map snd indexed = records"
    by (induction rule: list_all2_induct) auto
  show "\<And>p. p \<in> set indexed \<Longrightarrow> mapE (rk (snd p)) clauses = Inr (fst p)"
    using all2 by (induction rule: list_all2_induct) auto
qed

lemma applyOrderByClause_sorted_reversed:
  fixes records :: "'r list"
  assumes dirs: "mapE rso clauses = Inr ds"
    and dirs': "mapE rso' clauses' = Inr (map flipOrder ds)"
    and keys': "\<And>r. mapE (rk' r) clauses' = mapE (rk r) clauses"
    and res: "applyOrderByClause rk rso records (Some clauses) = Inr out"
  shows "sorted_wrt (\<lambda>a b. \<exists>ka kb. mapE (rk a) clauses = Inr ka \<and> mapE (rk b) clauses = Inr kb
            \<and> compareKeyLists ds ka kb \<le> 0) out
    \<and> mset out = mset records
    \<and> (distinct (map (\<lambda>r. mapE (rk r) clauses) records)
        \<longrightarrow> applyOrderByClause rk' rso' records (Some clauses') = Inr (rev out))"
proof -
  define f :: "Key list \<times> 'r \<Rightarrow> Key list \<times> 'r \<Rightarrow> int"
    where "f a b = compareKeyLists ds (fst a) (fst b)" for a b
  define g :: "Key list \<times> 'r \<Rightarrow> Key list \<times> 'r \<Rightarrow> int"
    where "g a b = compareKeyLists (map flipOrder ds) (fst a) (fst b)" for a b
  have cmp: "(\<lambda>a b. compareByClauses rso clauses (fst a) (fst b)) = (\<lambda>a b. Inr (f a b))"
    by (intro ext) (simp add: f_def compareByClauses_resolved [OF dirs])
  have cmp': "(\<lambda>a b. compareByClauses rso' clauses' (fst a) (fst b)) = (\<lambda>a b. Inr (g a b))"
    by (intro ext) (simp add: g_def compareByClauses_resolved [OF dirs'])
  obtain indexed where indexed:
    "mapE (\<lambda>record. case mapE (rk record) clauses of
        Inl e \<Rightarrow> Inl e | Inr keys \<Rightarrow> Inr (keys, record)) records = Inr indexed"
    using res by (auto simp: applyOrderByClause_def split: sum.splits)
  have out: "out = map snd (sort_by f indexed)"
    using res indexed by (simp add: applyOrderByClause_def cmp array_sort_total)
  note ik = indexed_keys [OF indexed]
  have total: "0 < f a b \<Longrightarrow> f b a \<le> 0" for a b
    using compareKeyLists_swap [of ds "fst b" "fst a"] by (simp add: f_def)
  have trans: "\<And>a b c. f a b \<le> 0 \<Longrightarrow> f b c \<le> 0 \<Longrightarrow> f a c \<le> 0"
    unfolding f_def by (rule compareKeyLists_trans)
  have swap: "\<And>a b. f b a = - f a b"
    unfolding f_def by (rule compareKeyLists_swap)
  have neg: "\<And>a b. g a b = - f a b"
    unfolding f_def g_def by (rule compareKeyLists_flip)
  have set_sorted: "set (sort_by f indexed) = set indexed"
    using mset_sort_by [of f indexed] by (metis mset_eq_setD)
  have "sorted_wrt (\<lambda>a b. f a b \<le> 0) (sort_by f indexed)"
    by (rule sorted_sort_by [OF total trans])
  then have "sorted_wrt (\<lambda>a b. \<exists>ka kb. mapE (rk (snd a)) clauses = Inr ka
      \<and> mapE (rk (snd b)) clauses = Inr kb \<and> compareKeyLists ds ka kb \<le> 0) (sort_by f indexed)"
    by (rule sorted_wrt_mono_rel [rotated]) (auto simp: set_sorted ik(2) f_def)
  then have part1: "sorted_wrt (\<lambda>a b. \<exists>ka kb. mapE (rk a) clauses = Inr ka
      \<and> mapE (rk b) clauses = Inr kb \<and> compareKeyLists ds ka kb \<le> 0) out"
    by (simp add: out sorted_wrt_map)
  have "mset out = mset (map snd indexed)"
    by (simp add: out mset_sort_by)
  then have part2: "mset out = mset records"
    by (simp add: ik(1))
  have part3: "applyOrderByClause rk' rso' records (Some clauses') = Inr (rev out)"
    if dist: "distinct (map (\<lambda>r. mapE (rk r) clauses) records)"
  proof -
    have noties: "a = b" if a: "a \<in> set indexed" and b: "b \<in> set indexed" and z: "f a b = 0" for a b
    proof -
      have la: "length (fst a) = length ds" and lb: "length (fst b) = length ds"
        using ik(2) [OF a] ik(2) [OF b] dirs by (auto dest!: mapE_length)
      have "fst a = fst b"
        using compareKeyLists_zero [OF la lb] z by (simp add: f_def)
      then have "mapE (rk (snd a)) clauses = mapE (rk (snd b)) clauses"
        using ik(2) [OF a] ik(2) [OF b] by simp
      moreover have "snd a \<in> set records" "snd b \<in> set records"
        using a b ik(1) by force+
      ultimately have "snd a = snd b"
        using dist by (auto simp: distinct_map dest: inj_onD)
      with \<open>fst a = fst b\<close> show "a = b" by (simp add: prod_eq_iff)
    qed
    have "sort_by g indexed = rev (sort_by f indexed)"
      by (rule sort_by_reversed [OF total trans swap neg noties])
    then show ?thesis
      using indexed by (simp add: applyOrderByClause_def keys' cmp' array_sort_total out rev_map)
  qed
  from part1 part2 part3 show ?thesis by blast
qed


lemma mapE_resolveSortOrder_reverse:
  "mapE User_resolveSortOrder clauses = Inr ds
    \<Longrightarrow> mapE User_resolveSortOrder (map User_reverseOrderBy clauses) = Inr (map flipOrder ds)"
  by (induction clauses arbitrary: ds) (auto simp: resolveSortOrder_reverse split: sum.splits)

lemma mapE_resolveOrderByKey_reverse:
  "mapE (User_resolveOrderByKey db r) (map User_reverseOrderBy clauses)
    = mapE (User_resolveOrderByKey db r) clauses"
  by (induction clauses) (auto simp: resolveOrderByKey_reverse split: sum.splits)

subsection \<open>The predicate evaluator and count\<close>

lemma equalTo_Some_filter [simp]: "whereNumberFilter v (equalTo (Some k)) = (v = Some k)"
  by (simp add: equalTo_def)

lemma pow_authorId_update [simp]: "pow_authorId (PostWhere_authorId_update v w) = v"
  by (cases w) simp

lemma cw_userId_update [simp]: "cw_userId (CommentWhere_userId_update v w) = v"
  by (cases w) simp

lemma cw_postId_update [simp]: "cw_postId (CommentWhere_postId_update v w) = v"
  by (cases w) simp

lemma pw_userId_update [simp]: "pw_userId (ProfileWhere_userId_update v w) = v"
  by (cases w) simp

lemma Post_scoped_by_authorId:
  "set (Post_applyWhereClause db rs (Some (PostWhere_authorId_update (equalTo (Some k)) w)))
    \<subseteq> {p \<in> set rs. po_authorId p = Some k}"
  using applyLogicalFilters_subset
  by (subst Post_applyWhereClause.simps) fastforce

lemma Comment_scoped_by_userId:
  "set (Comment_applyWhereClause db rs (Some (CommentWhere_userId_update (equalTo (Some k)) w)))
    \<subseteq> {c \<in> set rs. c_userId c = Some k}"
  using applyLogicalFilters_subset
  by (subst Comment_applyWhereClause.simps) fastforce

lemma Comment_scoped_by_postId:
  "set (Comment_applyWhereClause db rs (Some (CommentWhere_postId_update (equalTo (Some k)) w)))
    \<subseteq> {c \<in> set rs. c_postId c = Some k}"
  using applyLogicalFilters_subset
  by (subst Comment_applyWhereClause.simps) fastforce

lemma Profile_scoped_by_userId:
  "set (Profile_applyWhereClause db rs (Some (ProfileWhere_userId_update (equalTo (Some k)) w)))
    \<subseteq> {p \<in> set rs. pr_userId p = Some k}"
  using applyLogicalFilters_subset
  by (subst Profile_applyWhereClause.simps) fastforce

lemma applyLogicalFilters_none [simp]: "applyLogicalFilters k f rs None None None = rs"
  by (simp add: applyLogicalFilters_def)

lemma first_None [simp]: "(first rs = None) = (rs = [])"
  by (cases rs) (simp_all add: first_def)

lemma subset_empty_filter:
  assumes "set xs \<subseteq> {p \<in> set rs. P p}" and "\<forall>p \<in> set rs. \<not> P p"
  shows "xs = []"
  using assms by (cases xs) auto

lemma User_posts_quantifiers:
  assumes "\<forall>p \<in> set (store_getAll (db_Post db)). po_authorId p \<noteq> Some (u_id user)"
  shows "User_applyWhereClause db [user] (Some (User_where_posts (PostListRelation (Some ev) None None))) = [user]"
    and "User_applyWhereClause db [user] (Some (User_where_posts (PostListRelation None (Some sm) None))) = []"
    and "User_applyWhereClause db [user] (Some (User_where_posts (PostListRelation None None (Some nn)))) = [user]"
proof -
  have empty: "Post_applyWhereClause db (store_getAll (db_Post db))
      (Some (PostWhere_authorId_update (equalTo (Some (u_id user))) w)) = []" for w
    by (rule subset_empty_filter [OF Post_scoped_by_authorId]) (use assms in simp)
  show "User_applyWhereClause db [user] (Some (User_where_posts (PostListRelation (Some ev) None None))) = [user]"
    by (subst User_applyWhereClause.simps) (simp add: User_where_posts_def empty)
  show "User_applyWhereClause db [user] (Some (User_where_posts (PostListRelation None (Some sm) None))) = []"
    by (subst User_applyWhereClause.simps) (simp add: User_where_posts_def empty)
  show "User_applyWhereClause db [user] (Some (User_where_posts (PostListRelation None None (Some nn)))) = [user]"
    by (subst User_applyWhereClause.simps) (simp add: User_where_posts_def empty)
qed

lemma User_comments_quantifiers:
  assumes "\<forall>c \<in> set (store_getAll (db_Comment db)). c_userId c \<noteq> Some (u_id user)"
  shows "User_applyWhereClause db [user] (Some (User_where_comments (CommentListRelation (Some ev) None None))) = [user]"
    and "User_applyWhereClause db [user] (Some (User_where_comments (CommentListRelation None (Some sm) None))) = []"
    and "User_applyWhereClause db [user] (Some (User_where_comments (CommentListRelation None None (Some nn)))) = [user]"
proof -
  have empty: "Comment_applyWhereClause db (store_getAll (db_Comment db))
      (Some (CommentWhere_userId_update (equalTo (Some (u_id user))) w)) = []" for w
    by (rule subset_empty_filter [OF Comment_scoped_by_userId]) (use assms in simp)
  show "User_applyWhereClause db [user] (Some (User_where_comments (CommentListRelation (Some ev) None None))) = [user]"
    by (subst User_applyWhereClause.simps) (simp add: User_where_comments_def empty)
  show "User_applyWhereClause db [user] (Some (User_where_comments (CommentListRelation None (Some sm) None))) = []"
    by (subst User_applyWhereClause.simps) (simp add: User_where_comments_def empty)
  show "User_applyWhereClause db [user] (Some (User_where_comments (CommentListRelation None None (Some nn)))) = [user]"
    by (subst User_applyWhereClause.simps) (simp add: User_where_comments_def empty)
qed

lemma Post_comments_quantifiers:
  assumes "\<forall>c \<in> set (store_getAll (db_Comment db)). c_postId c \<noteq> Some (po_id post)"
  shows "Post_applyWhereClause db [post] (Some (Post_where_comments (CommentListRelation (Some ev) None None))) = [post]"
    and "Post_applyWhereClause db [post] (Some (Post_where_comments (CommentListRelation None (Some sm) None))) = []"
    and "Post_applyWhereClause db [post] (Some (Post_where_comments (CommentListRelation None None (Some nn)))) = [post]"
proof -
  have empty: "Comment_applyWhereClause db (store_getAll (db_Comment db))
      (Some (CommentWhere_postId_update (equalTo (Some (po_id post))) w)) = []" for w
    by (rule subset_empty_filter [OF Comment_scoped_by_postId]) (use assms in simp)
  have list [simp]: "whereStringListFilter v None" "whereNumberListFilter v' None" for v v'
    by (simp_all add: whereStringListFilter_def whereNumberListFilter_def whereListFilter_def)
  show "Post_applyWhereClause db [post] (Some (Post_where_comments (CommentListRelation (Some ev) None None))) = [post]"
    by (subst Post_applyWhereClause.simps) (simp add: Post_where_comments_def empty)
  show "Post_applyWhereClause db [post] (Some (Post_where_comments (CommentListRelation None (Some sm) None))) = []"
    by (subst Post_applyWhereClause.simps) (simp add: Post_where_comments_def empty)
  show "Post_applyWhereClause db [post] (Some (Post_where_comments (CommentListRelation None None (Some nn)))) = [post]"
    by (subst Post_applyWhereClause.simps) (simp add: Post_where_comments_def empty)
qed

lemma applyOrderByClause_None [simp]: "applyOrderByClause rk rso records None = Inr records"
  by (simp add: applyOrderByClause_def)

lemma User_findMany_where:
  "User_findMany w None tx = (Inr (User_applyWhereClause (tx_db tx) (store_getAll (db_User (tx_db tx))) w), tx)"
  by (simp add: User_findMany_def User_applyOrderByClause_def)

lemma Profile_findMany_where:
  "Profile_findMany w None tx = (Inr (Profile_applyWhereClause (tx_db tx) (store_getAll (db_Profile (tx_db tx))) w), tx)"
  by (simp add: Profile_findMany_def Profile_applyOrderByClause_def)

lemma User_whereNotNull_filter:
  "User_applyWhereClause db rs (Some (User_whereNotNull f)) = filter (User_fieldNotNull f) rs"
  by (cases f; subst User_applyWhereClause.simps)
     (simp_all add: numberNotNull_def stringNotNull_def)

lemma Profile_whereNotNull_filter:
  "Profile_applyWhereClause db rs (Some (Profile_whereNotNull f)) = filter (Profile_fieldNotNull f) rs"
  by (cases f; subst Profile_applyWhereClause.simps)
     (auto simp: numberNotNull_def stringNotNull_def intro!: filter_cong)


lemma User_count_keys:
  "mapCall keys (\<lambda>(key, flag).
       case key of
         CountAll \<Rightarrow> await (User_findMany w None) (\<lambda>records. return (key, length records))
       | CountField field \<Rightarrow>
           await (User_findMany (Some (User_whereNotNull field)) None) (\<lambda>records.
             return (key, length records))) tx
   = (Inr (map (\<lambda>(key, flag). (key, User_countKey (tx_db tx) w key)) keys), tx)"
  by (induction keys)
     (auto simp: await_def return_def User_findMany_where User_whereNotNull_filter User_countKey_def
       split: CountKey.splits)

lemma Profile_count_keys:
  "mapCall keys (\<lambda>(key, flag).
       case key of
         CountAll \<Rightarrow> await (Profile_findMany w None) (\<lambda>records. return (key, length records))
       | CountField field \<Rightarrow>
           await (Profile_findMany (Some (Profile_whereNotNull field)) None) (\<lambda>records.
             return (key, length records))) tx
   = (Inr (map (\<lambda>(key, flag). (key, Profile_countKey (tx_db tx) w key)) keys), tx)"
  by (induction keys)
     (auto simp: await_def return_def Profile_findMany_where Profile_whereNotNull_filter
       Profile_countKey_def split: CountKey.splits)

subsection \<open>Filtered rows are rows of the input\<close>

lemma User_applyWhereClause_subset: "set (User_applyWhereClause db rs w) \<subseteq> set rs"
  using applyLogicalFilters_subset
  by (subst User_applyWhereClause.simps) (fastforce split: option.splits)

lemma Profile_applyWhereClause_subset: "set (Profile_applyWhereClause db rs w) \<subseteq> set rs"
  using applyLogicalFilters_subset
  by (subst Profile_applyWhereClause.simps) (fastforce split: option.splits)

lemma Post_applyWhereClause_subset: "set (Post_applyWhereClause db rs w) \<subseteq> set rs"
  using applyLogicalFilters_subset
  by (subst Post_applyWhereClause.simps) (fastforce split: option.splits)

lemma Comment_applyWhereClause_subset: "set (Comment_applyWhereClause db rs w) \<subseteq> set rs"
  using applyLogicalFilters_subset
  by (subst Comment_applyWhereClause.simps) (fastforce split: option.splits)

subsection \<open>Ties\<close>

lemma compareKeyLists_same [simp]: "compareKeyLists ds a a = 0"
  by (induction ds arbitrary: a) auto

lemma filter_insert_by_other: "\<not> P x \<Longrightarrow> filter P (insert_by f x ys) = filter P ys"
  by (induction ys) auto

lemma filter_insert_by_same:
  assumes "P x" and "\<And>y. y \<in> set ys \<Longrightarrow> P y \<Longrightarrow> f x y \<le> 0"
  shows "filter P (insert_by f x ys) = x # filter P ys"
  using assms by (induction ys) (auto simp: filter_insert_by_other)

lemma sort_by_stable:
  assumes "\<And>a b. P a \<Longrightarrow> P b \<Longrightarrow> f a b \<le> 0"
  shows "filter P (sort_by f xs) = filter P xs"
proof (induction xs)
  case Nil
  show ?case by simp
next
  case (Cons x xs)
  show ?case
  proof (cases "P x")
    case True
    then have "filter P (insert_by f x (sort_by f xs)) = x # filter P (sort_by f xs)"
      by (intro filter_insert_by_same) (auto intro: assms)
    with True Cons show ?thesis by simp
  next
    case False
    with Cons show ?thesis by (simp add: filter_insert_by_other)
  qed
qed

lemma mapE_total: "(\<And>x. x \<in> set xs \<Longrightarrow> \<exists>y. f x = Inr y) \<Longrightarrow> \<exists>ys. mapE f xs = Inr ys"
proof (induction xs)
  case Nil
  show ?case by simp
next
  case (Cons x xs)
  then obtain y ys where "f x = Inr y" "mapE f xs = Inr ys"
    by (metis list.set_intros)
  then show ?case by simp
qed

lemma applyOrderByClause_returns:
  fixes records :: "'r list"
  assumes dirs: "mapE rso clauses = Inr ds"
    and resolved: "\<And>r. r \<in> set records \<Longrightarrow> \<exists>ks. mapE (rk r) clauses = Inr ks"
  shows "\<exists>out. applyOrderByClause rk rso records (Some clauses) = Inr out"
proof -
  define f :: "Key list \<times> 'r \<Rightarrow> Key list \<times> 'r \<Rightarrow> int"
    where "f a b = compareKeyLists ds (fst a) (fst b)" for a b
  have cmp: "(\<lambda>a b. compareByClauses rso clauses (fst a) (fst b)) = (\<lambda>a b. Inr (f a b))"
    by (intro ext) (simp add: f_def compareByClauses_resolved [OF dirs])
  have "\<exists>indexed. mapE (\<lambda>record. case mapE (rk record) clauses of
        Inl e \<Rightarrow> Inl e | Inr keys \<Rightarrow> Inr (keys, record)) records = Inr indexed"
  proof (rule mapE_total)
    fix r assume "r \<in> set records"
    from resolved [OF this] show "\<exists>y. (case mapE (rk r) clauses of
        Inl e \<Rightarrow> Inl e | Inr keys \<Rightarrow> Inr (keys, r)) = Inr y"
      by auto
  qed
  then obtain indexed where "mapE (\<lambda>record. case mapE (rk record) clauses of
        Inl e \<Rightarrow> Inl e | Inr keys \<Rightarrow> Inr (keys, record)) records = Inr indexed" ..
  then show ?thesis
    by (simp add: applyOrderByClause_def cmp array_sort_total)
qed

lemma applyOrderByClause_stable:
  fixes records :: "'r list"
  assumes dirs: "mapE rso clauses = Inr ds"
    and res: "applyOrderByClause rk rso records (Some clauses) = Inr out"
  shows "filter (\<lambda>r. mapE (rk r) clauses = Inr ks) out
       = filter (\<lambda>r. mapE (rk r) clauses = Inr ks) records"
proof -
  define f :: "Key list \<times> 'r \<Rightarrow> Key list \<times> 'r \<Rightarrow> int"
    where "f a b = compareKeyLists ds (fst a) (fst b)" for a b
  have cmp: "(\<lambda>a b. compareByClauses rso clauses (fst a) (fst b)) = (\<lambda>a b. Inr (f a b))"
    by (intro ext) (simp add: f_def compareByClauses_resolved [OF dirs])
  obtain indexed where indexed:
    "mapE (\<lambda>record. case mapE (rk record) clauses of
        Inl e \<Rightarrow> Inl e | Inr keys \<Rightarrow> Inr (keys, record)) records = Inr indexed"
    using res by (auto simp: applyOrderByClause_def split: sum.splits)
  have out: "out = map snd (sort_by f indexed)"
    using res indexed by (simp add: applyOrderByClause_def cmp array_sort_total)
  note ik = indexed_keys [OF indexed]
  have set_sorted: "set (sort_by f indexed) = set indexed"
    using mset_sort_by [of f indexed] by (metis mset_eq_setD)
  have same: "filter (\<lambda>r. mapE (rk r) clauses = Inr ks) (map snd ps)
      = map snd (filter (\<lambda>p. fst p = ks) ps)" if "set ps \<subseteq> set indexed" for ps
    using that by (induction ps) (auto simp: ik(2))
  have "filter (\<lambda>p. fst p = ks) (sort_by f indexed) = filter (\<lambda>p. fst p = ks) indexed"
    by (rule sort_by_stable) (simp add: f_def)
  then show ?thesis
    using same [of "sort_by f indexed"] same [of indexed] by (simp add: out set_sorted ik(1))
qed


lemma flipOrder_twice [simp]: "flipOrder (flipOrder d) = d"
  by (cases d) (simp_all add: flipOrder_def)

subsection \<open>Writes\<close>

lemmas eval_call = await_def return_def throw_def abort_and_throw_def abort_def orThrow_def ignore_def
  ifPresent_def readBack_def transaction_def empty_DB_def
  objectStore_get_def objectStore_getAll_def objectStore_add_def objectStore_put_def
  objectStore_delete_def objectStore_openCursor_prev_def
  store_get_def store_getAll_def store_keys_def store_delete_def store_openCursor_prev_def
  autoincrement_def firstOrUndefined_def

lemma where_id_key [simp]:
  "whereKey (uw_id (User_where_id k)) = (if k \<noteq> 0 then Some k else None)"
  "whereKey (pw_id (Profile_where_id k)) = (if k \<noteq> 0 then Some k else None)"
  "whereKey (pow_id (Post_where_id k)) = (if k \<noteq> 0 then Some k else None)"
  "whereStringKey (cw_id (Comment_where_id s)) = (if s \<noteq> [] then Some s else None)"
  by (simp_all add: User_where_id_def Profile_where_id_def Post_where_id_def Comment_where_id_def
      UserWhere_empty_def PostWhere_empty_def whereKey_def whereStringKey_def)

lemma User_where_id_filter:
  "User_applyWhereClause db rs (Some (User_where_id k)) = filter (\<lambda>r. u_id r = k) rs"
  by (subst User_applyWhereClause.simps) (simp add: User_where_id_def UserWhere_empty_def)

lemma Profile_where_id_filter:
  "Profile_applyWhereClause db rs (Some (Profile_where_id k)) = filter (\<lambda>r. pr_id r = k) rs"
  by (subst Profile_applyWhereClause.simps) (simp add: Profile_where_id_def)

lemma Post_where_id_filter:
  "Post_applyWhereClause db rs (Some (Post_where_id k)) = filter (\<lambda>r. po_id r = k) rs"
  by (subst Post_applyWhereClause.simps)
     (simp add: Post_where_id_def PostWhere_empty_def whereListFilter_def
        whereStringListFilter_def whereNumberListFilter_def)

lemma Comment_where_id_filter:
  "Comment_applyWhereClause db rs (Some (Comment_where_id k)) = filter (\<lambda>r. c_id r = k) rs"
  by (subst Comment_applyWhereClause.simps) (simp add: Comment_where_id_def)

lemma Profile_where_userId_filter:
  "Profile_applyWhereClause db rs (Some (ProfileWhere_userId_update (equalTo (Some k)) ProfileWhere_empty))
     = filter (\<lambda>r. pr_userId r = Some k) rs"
  by (subst Profile_applyWhereClause.simps) (simp add: ProfileWhere_empty_def)

lemma Comment_where_userId_filter:
  "Comment_applyWhereClause db rs (Some (CommentWhere_userId_update (equalTo (Some k)) CommentWhere_empty))
     = filter (\<lambda>r. c_userId r = Some k) rs"
  by (subst Comment_applyWhereClause.simps) (simp add: CommentWhere_empty_def)

lemma Comment_where_postId_filter:
  "Comment_applyWhereClause db rs (Some (CommentWhere_postId_update (equalTo (Some k)) CommentWhere_empty))
     = filter (\<lambda>r. c_postId r = Some k) rs"
  by (subst Comment_applyWhereClause.simps) (simp add: CommentWhere_empty_def)

lemma Post_where_authorId_filter:
  "Post_applyWhereClause db rs (Some (PostWhere_authorId_update (equalTo (Some k)) PostWhere_empty))
     = filter (\<lambda>r. po_authorId r = Some k) rs"
  by (subst Post_applyWhereClause.simps)
     (simp add: PostWhere_empty_def whereListFilter_def whereStringListFilter_def whereNumberListFilter_def)

lemma tx_ann_eval:
  "tx_ann = \<lparr>tx_snapshot = empty_DB, tx_db = empty_DB\<lparr>db_User := [(1, ann1)]\<rparr>, tx_aborted = False,
            tx_createId = cuid, tx_createId_calls = 0\<rparr>"
  by (simp add: tx_ann_def tx_empty_def User_create.simps User_fillDefaults_def
      User_removeNestedCreateData_def eval_call ann1_def)

subsection \<open>Stores\<close>

lemma store_put_keys:
  "sorted_wrt (<) (map fst s) \<Longrightarrow> k \<in> fst ` set s \<Longrightarrow> map fst (store_put s k v) = map fst s"
proof (induction s)
  case Nil
  then show ?case by simp
next
  case (Cons kv s)
  show ?case
  proof (cases "k = fst kv")
    case True
    then show ?thesis by (cases kv) simp
  next
    case False
    with Cons.prems have "k \<in> fst ` set s" and "fst kv < k"
      by auto
    with Cons show ?thesis by (cases kv) auto
  qed
qed

lemma store_put_get: "map_of (store_put s k v) k = Some v"
  by (induction s) auto

lemma store_put_set:
  "sorted_wrt (<) (map fst s) \<Longrightarrow> set (store_put s k v) = insert (k, v) {kr \<in> set s. fst kr \<noteq> k}"
proof (induction s)
  case Nil
  then show ?case by simp
next
  case (Cons kv s)
  then have IH: "set (store_put s k v) = insert (k, v) {kr \<in> set s. fst kr \<noteq> k}"
    and above: "\<forall>x \<in> set s. fst kv < fst x"
    by simp_all
  show ?case
  proof (cases kv)
    case (Pair k' v')
    consider "k < k'" | "k = k'" | "k' < k" by (rule linorder_cases)
    then show ?thesis
    proof cases
      case 1
      with above Pair show ?thesis by fastforce
    next
      case 2
      with above Pair show ?thesis by fastforce
    next
      case 3
      with IH Pair show ?thesis by auto
    qed
  qed
qed

lemma keyed_put:
  "keyed keyPath s \<Longrightarrow> k \<in> fst ` set s \<Longrightarrow> keyPath v = k \<Longrightarrow> keyed keyPath (store_put s k v)"
  by (auto simp: keyed_def store_ok_def store_keys_def store_put_keys store_put_set)

lemma keyed_get:
  "keyed keyPath s \<Longrightarrow> map_of s k = Some r \<Longrightarrow> keyPath r = k \<and> k \<in> fst ` set s"
  by (force simp: keyed_def dest: map_of_SomeD)


subsection \<open>Lookups by key\<close>

lemma firstOrUndefined_Val: "firstOrUndefined rs = Val r \<Longrightarrow> r \<in> set rs"
  by (cases rs) (simp_all add: firstOrUndefined_def)

lemma User_findUnique_Val:
  assumes "User_findUnique w tx = (Inr (Val r), tx')"
  shows "tx' = tx \<and> (\<exists>k. whereKey (uw_id w) = Some k \<and> map_of (db_User (tx_db tx)) k = Some r)"
proof (cases "whereKey (uw_id w)")
  case None
  with assms show ?thesis
    by (simp add: User_findUnique_def await_def return_def)
next
  case (Some k)
  show ?thesis
  proof (cases "map_of (db_User (tx_db tx)) k")
    case None
    with assms Some show ?thesis
      by (simp add: User_findUnique_def await_def return_def objectStore_get_def store_get_def)
  next
    case r0: (Some r0)
    with assms Some have r: "firstOrUndefined (User_applyWhereClause (tx_db tx) [r0] (Some w)) = Val r" and tx: "tx' = tx"
      by (auto simp: User_findUnique_def await_def return_def objectStore_get_def store_get_def)
    from firstOrUndefined_Val [OF r] have "r = r0"
      using User_applyWhereClause_subset [of "tx_db tx" "[r0]" "Some w"] by auto
    with Some r0 tx show ?thesis by simp
  qed
qed

lemma Comment_findUnique_Val:
  assumes "Comment_findUnique w tx = (Inr (Val r), tx')"
  shows "tx' = tx \<and> (\<exists>k. whereStringKey (cw_id w) = Some k \<and> map_of (db_Comment (tx_db tx)) k = Some r)"
proof (cases "whereStringKey (cw_id w)")
  case None
  with assms show ?thesis
    by (simp add: Comment_findUnique_def await_def return_def)
next
  case (Some k)
  show ?thesis
  proof (cases "map_of (db_Comment (tx_db tx)) k")
    case None
    with assms Some show ?thesis
      by (simp add: Comment_findUnique_def await_def return_def objectStore_get_def store_get_def)
  next
    case r0: (Some r0)
    with assms Some have r: "firstOrUndefined (Comment_applyWhereClause (tx_db tx) [r0] (Some w)) = Val r" and tx: "tx' = tx"
      by (auto simp: Comment_findUnique_def await_def return_def objectStore_get_def store_get_def)
    from firstOrUndefined_Val [OF r] have "r = r0"
      using Comment_applyWhereClause_subset [of "tx_db tx" "[r0]" "Some w"] by auto
    with Some r0 tx show ?thesis by simp
  qed
qed

lemma whereKey_nonzero: "whereKey f = Some k \<Longrightarrow> k \<noteq> 0"
  by (auto simp: whereKey_def split: option.splits NumberFilter.splits if_splits)

lemma whereStringKey_nonempty: "whereStringKey f = Some k \<Longrightarrow> k \<noteq> []"
  by (auto simp: whereStringKey_def split: option.splits StringFilter.splits if_splits)

lemma User_findUnique_found:
  "k \<noteq> 0 \<Longrightarrow> map_of (db_User (tx_db tx)) k = Some r \<Longrightarrow> u_id r = k
    \<Longrightarrow> User_findUnique (User_where_id k) tx = (Inr (Val r), tx)"
  by (simp add: User_findUnique_def await_def objectStore_get_def store_get_def User_where_id_filter
      firstOrUndefined_def)

lemma Comment_findUnique_found:
  "k \<noteq> [] \<Longrightarrow> map_of (db_Comment (tx_db tx)) k = Some r \<Longrightarrow> c_id r = k
    \<Longrightarrow> Comment_findUnique (Comment_where_id k) tx = (Inr (Val r), tx)"
  by (simp add: Comment_findUnique_def await_def objectStore_get_def store_get_def Comment_where_id_filter
      firstOrUndefined_def)



lemma keyed_member:
  "keyed keyPath s \<Longrightarrow> r \<in> snd ` set s \<Longrightarrow> keyPath r \<in> fst ` set s"
  by (force simp: keyed_def)

lemma repersisted_put:
  assumes "keyed keyPath s \<Longrightarrow> keyPath old \<in> fst ` set s"
  shows "repersisted keyPath s (store_put s (keyPath new) new) old new"
  unfolding repersisted_def
proof (intro conjI impI)
  show "store_get (store_put s (keyPath new) new) (keyPath new) = Some new"
    by (simp add: store_get_def store_put_get)
next
  assume k: "keyed keyPath s \<and> keyPath new = keyPath old"
  then have mem: "keyPath old \<in> fst ` set s" using assms by simp
  show "store_put s (keyPath new) new = store_put s (keyPath old) new"
    using k by simp
  show "store_keys (store_put s (keyPath new) new) = store_keys s"
    using k mem by (simp add: store_keys_def store_put_keys keyed_def store_ok_def)
  show "keyed keyPath (store_put s (keyPath new) new)"
    using keyed_put [of keyPath s "keyPath old" new] k mem by simp
qed


lemma map_of_member: "map_of s k = Some r \<Longrightarrow> r \<in> snd ` set s"
  by (force dest: map_of_SomeD)

lemma find_member: "find P xs = Some x \<Longrightarrow> x \<in> set xs"
  by (induction xs) (auto split: if_splits)

lemma Profile_findUnique_Val:
  assumes "Profile_findUnique w tx = (Inr (Val r), tx')"
  shows "tx' = tx \<and> r \<in> snd ` set (db_Profile (tx_db tx))"
proof -
  define lookup where "lookup = (case whereKey (pw_id w) of
              Some k \<Rightarrow> objectStore_get db_Profile k
            | None \<Rightarrow>
                (case whereKey (pw_userId w) of
                   Some u \<Rightarrow> userIdIndex_get u
                 | None \<Rightarrow> return None))"
  have lookup: "\<exists>found. lookup tx = (Inr found, tx)
      \<and> (\<forall>r0. found = Some r0 \<longrightarrow> r0 \<in> snd ` set (db_Profile (tx_db tx)))"
    by (auto simp: lookup_def objectStore_get_def userIdIndex_get_def return_def store_get_def
        store_getAll_def split: option.splits dest!: map_of_member find_member)
  then obtain found where found: "lookup tx = (Inr found, tx)"
    and mem: "\<And>r0. found = Some r0 \<Longrightarrow> r0 \<in> snd ` set (db_Profile (tx_db tx))"
    by blast
  show ?thesis
  proof (cases found)
    case None
    with assms found show ?thesis
      by (simp add: Profile_findUnique_def await_def return_def flip: lookup_def)
  next
    case (Some r0)
    with assms found have r: "firstOrUndefined (Profile_applyWhereClause (tx_db tx) [r0] (Some w)) = Val r"
      and tx: "tx' = tx"
      by (auto simp: Profile_findUnique_def await_def return_def simp flip: lookup_def)
    from firstOrUndefined_Val [OF r] have "r = r0"
      using Profile_applyWhereClause_subset [of "tx_db tx" "[r0]" "Some w"] by auto
    with mem [OF Some] tx show ?thesis by simp
  qed
qed

lemma Post_findUnique_Val:
  assumes "Post_findUnique w tx = (Inr (Val r), tx')"
  shows "tx' = tx \<and> (\<exists>r0 \<in> snd ` set (db_Post (tx_db tx)). r = Post_preprocessListFields r0)"
proof (cases "whereKey (pow_id w)")
  case None
  with assms show ?thesis
    by (simp add: Post_findUnique_def await_def return_def)
next
  case (Some k)
  show ?thesis
  proof (cases "map_of (db_Post (tx_db tx)) k")
    case None
    with assms Some show ?thesis
      by (simp add: Post_findUnique_def await_def return_def objectStore_get_def store_get_def)
  next
    case r0: (Some r0)
    with assms Some obtain r' rest where r': "Post_applyWhereClause (tx_db tx) [r0] (Some w) = r' # rest"
      and r: "r = Post_preprocessListFields r'" and tx: "tx' = tx"
      by (auto simp: Post_findUnique_def await_def return_def objectStore_get_def store_get_def
          split: list.splits)
    have "r' = r0"
      using Post_applyWhereClause_subset [of "tx_db tx" "[r0]" "Some w"] r' by auto
    with r tx map_of_member [OF r0] show ?thesis by auto
  qed
qed

lemma Profile_findUnique_found:
  "k \<noteq> 0 \<Longrightarrow> map_of (db_Profile (tx_db tx)) k = Some r \<Longrightarrow> pr_id r = k
    \<Longrightarrow> Profile_findUnique (Profile_where_id k) tx = (Inr (Val r), tx)"
  by (simp add: Profile_findUnique_def await_def objectStore_get_def store_get_def Profile_where_id_filter
      firstOrUndefined_def)

lemma Post_findUnique_found:
  "k \<noteq> 0 \<Longrightarrow> map_of (db_Post (tx_db tx)) k = Some r \<Longrightarrow> po_id r = k
    \<Longrightarrow> Post_findUnique (Post_where_id k) tx = (Inr (Val (Post_preprocessListFields r)), tx)"
  by (simp add: Post_findUnique_def await_def objectStore_get_def store_get_def Post_where_id_filter)

lemma findUnique_no_key:
  "User_findUnique (User_where_id 0) tx = (Inr Null, tx)"
  "Profile_findUnique (Profile_where_id 0) tx = (Inr Null, tx)"
  "Post_findUnique (Post_where_id 0) tx = (Inr Null, tx)"
  "Comment_findUnique (Comment_where_id []) tx = (Inr Null, tx)"
proof -
  have "whereKey (pw_userId (Profile_where_id 0)) = None"
    by (simp add: Profile_where_id_def whereKey_def)
  then show "Profile_findUnique (Profile_where_id 0) tx = (Inr Null, tx)"
    by (simp add: Profile_findUnique_def await_def return_def)
qed (simp_all add: User_findUnique_def Post_findUnique_def Comment_findUnique_def await_def return_def)


lemma User_update_result:
  assumes "User_update whereUnique data tx = (Inr result, tx')"
  shows "\<exists>old. User_findUnique whereUnique tx = (Inr (Val old), tx)
           \<and> (keyed u_id (db_User (tx_db tx)) \<longrightarrow> u_id old \<in> fst ` set (db_User (tx_db tx)))
           \<and> tx' = tx\<lparr>tx_db := db_User_update (\<lambda>s. store_put s (u_id (User_patched data old)) (User_patched data old))
                                   (tx_db tx)\<rparr>
           \<and> result = (if u_id (User_patched data old) = 0 then Null else Val (User_patched data old))"
proof -
  obtain found tx1 where found: "User_findUnique whereUnique tx = (Inr found, tx1)"
    using assms by (auto simp: User_update_def await_def split: prod.splits sum.splits)
  with assms obtain old where old: "found = Val old"
    by (cases found) (auto simp: User_update_def await_def abort_and_throw_def throw_def)
  note val = User_findUnique_Val [OF found [unfolded old]]
  then have tx1: "tx1 = tx" by simp
  have mem: "u_id old \<in> fst ` set (db_User (tx_db tx))" if "keyed u_id (db_User (tx_db tx))"
    using val that by (auto dest!: keyed_get)
  define new where "new = User_patched data old"
  define tx2 where "tx2 = tx\<lparr>tx_db := db_User_update (\<lambda>s. store_put s (u_id new) new) (tx_db tx)\<rparr>"
  have get2: "map_of (db_User (tx_db tx2)) (u_id new) = Some new"
    by (simp add: tx2_def store_put_get)
  have "User_update whereUnique data tx = User_findUnique (User_where_id (u_id new)) tx2"
    using assms
    by (cases old)
       (auto simp: User_update_def found old tx1 await_def objectStore_put_def Let_def new_def tx2_def
          User_patched_def  split: if_splits)
  also have "\<dots> = (Inr (if u_id new = 0 then Null else Val new), tx2)"
    using User_findUnique_found [OF _ get2 refl] findUnique_no_key [of tx2] by (cases "u_id new = 0") simp_all
  finally have "result = (if u_id new = 0 then Null else Val new)" and "tx' = tx2"
    using assms by simp_all
  with found old tx1 mem show ?thesis
    by (auto simp: new_def tx2_def)
qed

lemma Profile_update_result:
  assumes "Profile_update whereUnique data tx = (Inr result, tx')"
  shows "\<exists>old. Profile_findUnique whereUnique tx = (Inr (Val old), tx)
           \<and> (keyed pr_id (db_Profile (tx_db tx)) \<longrightarrow> pr_id old \<in> fst ` set (db_Profile (tx_db tx)))
           \<and> tx' = tx\<lparr>tx_db := db_Profile_update (\<lambda>s. store_put s (pr_id (Profile_patched data old)) (Profile_patched data old))
                                   (tx_db tx)\<rparr>
           \<and> result = (if pr_id (Profile_patched data old) = 0 then Null else Val (Profile_patched data old))"
proof -
  obtain found tx1 where found: "Profile_findUnique whereUnique tx = (Inr found, tx1)"
    using assms by (auto simp: Profile_update_def await_def split: prod.splits sum.splits)
  with assms obtain old where old: "found = Val old"
    by (cases found) (auto simp: Profile_update_def await_def abort_and_throw_def throw_def)
  note val = Profile_findUnique_Val [OF found [unfolded old]]
  then have tx1: "tx1 = tx" by simp
  have mem: "pr_id old \<in> fst ` set (db_Profile (tx_db tx))" if "keyed pr_id (db_Profile (tx_db tx))"
    using val that by (auto dest: keyed_member)
  define new where "new = Profile_patched data old"
  define tx2 where "tx2 = tx\<lparr>tx_db := db_Profile_update (\<lambda>s. store_put s (pr_id new) new) (tx_db tx)\<rparr>"
  have get2: "map_of (db_Profile (tx_db tx2)) (pr_id new) = Some new"
    by (simp add: tx2_def store_put_get)
  have "Profile_update whereUnique data tx = Profile_findUnique (Profile_where_id (pr_id new)) tx2"
    using assms
    by (cases old)
       (auto simp: Profile_update_def found old tx1 await_def objectStore_put_def Let_def new_def tx2_def
          Profile_patched_def Profile_store_put_def split: if_splits)
  also have "\<dots> = (Inr (if pr_id new = 0 then Null else Val new), tx2)"
    using Profile_findUnique_found [OF _ get2 refl] findUnique_no_key [of tx2] by (cases "pr_id new = 0") simp_all
  finally have "result = (if pr_id new = 0 then Null else Val new)" and "tx' = tx2"
    using assms by simp_all
  with found old tx1 mem show ?thesis
    by (auto simp: new_def tx2_def)
qed

lemma Post_update_result:
  assumes "Post_update whereUnique data tx = (Inr result, tx')"
  shows "\<exists>old. Post_findUnique whereUnique tx = (Inr (Val old), tx)
           \<and> (keyed po_id (db_Post (tx_db tx)) \<longrightarrow> po_id old \<in> fst ` set (db_Post (tx_db tx)))
           \<and> tx' = tx\<lparr>tx_db := db_Post_update (\<lambda>s. store_put s (po_id (Post_patched data old)) (Post_patched data old))
                                   (tx_db tx)\<rparr>
           \<and> result = (if po_id (Post_patched data old) = 0 then Null else Val (Post_preprocessListFields (Post_patched data old)))"
proof -
  obtain found tx1 where found: "Post_findUnique whereUnique tx = (Inr found, tx1)"
    using assms by (auto simp: Post_update_def await_def split: prod.splits sum.splits)
  with assms obtain old where old: "found = Val old"
    by (cases found) (auto simp: Post_update_def await_def abort_and_throw_def throw_def)
  note val = Post_findUnique_Val [OF found [unfolded old]]
  then have tx1: "tx1 = tx" by simp
  have mem: "po_id old \<in> fst ` set (db_Post (tx_db tx))" if "keyed po_id (db_Post (tx_db tx))"
    using val that by (force simp: Post_preprocessListFields_def dest!: keyed_member)
  define new where "new = Post_patched data old"
  define tx2 where "tx2 = tx\<lparr>tx_db := db_Post_update (\<lambda>s. store_put s (po_id new) new) (tx_db tx)\<rparr>"
  have get2: "map_of (db_Post (tx_db tx2)) (po_id new) = Some new"
    by (simp add: tx2_def store_put_get)
  have "Post_update whereUnique data tx = Post_findUnique (Post_where_id (po_id new)) tx2"
    using assms
    by (cases old)
       (auto simp: Post_update_def found old tx1 await_def objectStore_put_def Let_def new_def tx2_def
          Post_patched_def  split: if_splits)
  also have "\<dots> = (Inr (if po_id new = 0 then Null else Val (Post_preprocessListFields new)), tx2)"
    using Post_findUnique_found [OF _ get2 refl] findUnique_no_key [of tx2] by (cases "po_id new = 0") simp_all
  finally have "result = (if po_id new = 0 then Null else Val (Post_preprocessListFields new))" and "tx' = tx2"
    using assms by simp_all
  with found old tx1 mem show ?thesis
    by (auto simp: new_def tx2_def)
qed

lemma Comment_update_result:
  assumes "Comment_update whereUnique data tx = (Inr result, tx')"
  shows "\<exists>old. Comment_findUnique whereUnique tx = (Inr (Val old), tx)
           \<and> (keyed c_id (db_Comment (tx_db tx)) \<longrightarrow> c_id old \<in> fst ` set (db_Comment (tx_db tx)))
           \<and> tx' = tx\<lparr>tx_db := db_Comment_update (\<lambda>s. store_put s (c_id (Comment_patched data old)) (Comment_patched data old))
                                   (tx_db tx)\<rparr>
           \<and> result = (if c_id (Comment_patched data old) = [] then Null else Val (Comment_patched data old))"
proof -
  obtain found tx1 where found: "Comment_findUnique whereUnique tx = (Inr found, tx1)"
    using assms by (auto simp: Comment_update_def await_def split: prod.splits sum.splits)
  with assms obtain old where old: "found = Val old"
    by (cases found) (auto simp: Comment_update_def await_def abort_and_throw_def throw_def)
  note val = Comment_findUnique_Val [OF found [unfolded old]]
  then have tx1: "tx1 = tx" by simp
  have mem: "c_id old \<in> fst ` set (db_Comment (tx_db tx))" if "keyed c_id (db_Comment (tx_db tx))"
    using val that by (auto dest!: keyed_get)
  define new where "new = Comment_patched data old"
  define tx2 where "tx2 = tx\<lparr>tx_db := db_Comment_update (\<lambda>s. store_put s (c_id new) new) (tx_db tx)\<rparr>"
  have get2: "map_of (db_Comment (tx_db tx2)) (c_id new) = Some new"
    by (simp add: tx2_def store_put_get)
  have "Comment_update whereUnique data tx = Comment_findUnique (Comment_where_id (c_id new)) tx2"
    using assms
    by (cases old)
       (auto simp: Comment_update_def found old tx1 await_def objectStore_put_def Let_def new_def tx2_def
          Comment_patched_def  split: if_splits)
  also have "\<dots> = (Inr (if c_id new = [] then Null else Val new), tx2)"
    using Comment_findUnique_found [OF _ get2 refl] findUnique_no_key [of tx2] by (cases "c_id new = []") simp_all
  finally have "result = (if c_id new = [] then Null else Val new)" and "tx' = tx2"
    using assms by simp_all
  with found old tx1 mem show ?thesis
    by (auto simp: new_def tx2_def)
qed


lemma patched_without_key_patch:
  "uu_id ud = None \<Longrightarrow> u_id (User_patched ud uold) = u_id uold"
  "pu_id pd = None \<Longrightarrow> pr_id (Profile_patched pd pold) = pr_id pold"
  "pou_id pod = None \<Longrightarrow> po_id (Post_patched pod poold) = po_id poold"
  "cu_id cd = None \<Longrightarrow> c_id (Comment_patched cd cold) = c_id cold"
  by (simp_all add: User_patched_def Profile_patched_def Post_patched_def Comment_patched_def
      handleIntUpdateField_def handleStringUpdateField_def required_def)

subsection \<open>Keys\<close>

lemma sorted_last_Max:
  fixes ks :: "int list"
  shows "sorted_wrt (<) ks \<Longrightarrow> ks \<noteq> [] \<Longrightarrow> last ks = Max (set ks)"
proof (induction ks)
  case Nil
  then show ?case by simp
next
  case (Cons k ks)
  show ?case
  proof (cases "ks = []")
    case True
    then show ?thesis by simp
  next
    case False
    with Cons have "last ks = Max (set ks)" by simp
    moreover have "k < Max (set ks)"
      using Cons.prems(1) False by (auto simp: Max_gr_iff intro: hd_in_set)
    ultimately show ?thesis
      using False by (simp add: max_def)
  qed
qed

lemma bitLength_le: "n < 2 ^ k \<Longrightarrow> bitLength n \<le> k"
proof (induction n arbitrary: k rule: bitLength.induct)
  case (1 n)
  show ?case
  proof (cases "n = 0")
    case True
    then show ?thesis by (simp add: bitLength.simps)
  next
    case False
    with "1.prems" obtain j where k: "k = Suc j"
      by (cases k) auto
    with "1.prems" have "n div 2 < 2 ^ j"
      by auto
    with "1.IH" [OF False] have "bitLength (n div 2) \<le> j" .
    with False k show ?thesis
      by (subst bitLength.simps) simp
  qed
qed

lemma bitLength_power: "bitLength (2 ^ k) = Suc k"
proof (induction k)
  case 0
  show ?case by (simp add: bitLength.simps [of "Suc 0"] bitLength.simps [of 0])
next
  case (Suc k)
  then show ?case by (subst bitLength.simps) simp
qed

lemma roundToDouble_small: "\<bar>n\<bar> < 2 ^ 53 \<Longrightarrow> roundToDouble n = n"
proof -
  assume "\<bar>n\<bar> < 2 ^ 53"
  then have "nat \<bar>n\<bar> < 2 ^ 53"
    by (simp add: nat_less_iff)
  then have "bitLength (nat \<bar>n\<bar>) - 53 = 0"
    using bitLength_le [of "nat \<bar>n\<bar>" 53] by simp
  then have "roundToDouble n = sgn n * \<bar>n\<bar>"
    by (simp add: roundToDouble_def Let_def)
  then show ?thesis
    by (simp add: mult_sgn_abs)
qed

lemma roundToDouble_power: "roundToDouble (2 ^ 53) = 2 ^ 53" "roundToDouble (- (2 ^ 53)) = - (2 ^ 53)"
proof -
  have len: "bitLength (nat \<bar>2 ^ 53 :: int\<bar>) - 53 = 1" "bitLength (nat \<bar>- (2 ^ 53) :: int\<bar>) - 53 = 1"
    using bitLength_power [of 53] by (simp_all add: nat_power_eq)
  show "roundToDouble (2 ^ 53) = 2 ^ 53"
    unfolding roundToDouble_def Let_def len by simp
  show "roundToDouble (- (2 ^ 53)) = - (2 ^ 53)"
    unfolding roundToDouble_def Let_def len by simp
qed

lemma roundToDouble_exact: "\<bar>n\<bar> \<le> 2 ^ 53 \<Longrightarrow> roundToDouble n = n"
proof (cases "\<bar>n\<bar> < 2 ^ 53")
  case True
  then show ?thesis by (rule roundToDouble_small)
next
  case False
  assume "\<bar>n\<bar> \<le> 2 ^ 53"
  with False have "n = 2 ^ 53 \<or> n = - (2 ^ 53)" by linarith
  then show ?thesis
    using roundToDouble_power by auto
qed

lemma openCursor_prev_nextKey:
  "store_ok s \<Longrightarrow> \<bar>nextKey s\<bar> \<le> 2 ^ 53 \<Longrightarrow> autoincrement (store_openCursor_prev s) = nextKey s"
  using sorted_last_Max [of "store_keys s"]
  by (auto simp: autoincrement_def store_openCursor_prev_def nextKey_def store_ok_def store_keys_def
      last_map Number_plus_def roundToDouble_exact)


lemma bitLength_eq: "2 ^ k \<le> n \<Longrightarrow> n < 2 ^ Suc k \<Longrightarrow> bitLength n = Suc k"
proof (induction k arbitrary: n)
  case 0
  then have "n = Suc 0" by simp
  then show ?case by (simp add: bitLength.simps [of "Suc 0"] bitLength.simps [of 0])
next
  case (Suc k)
  then have "2 ^ k \<le> n div 2" and "n div 2 < 2 ^ Suc k" and "n \<noteq> 0"
    by auto
  with Suc.IH [of "n div 2"] show ?case
    by (subst bitLength.simps) simp
qed

lemma roundToDouble_tie: "roundToDouble (2 ^ 53 + 1) = 2 ^ 53"
proof -
  have "bitLength (nat \<bar>2 ^ 53 + 1 :: int\<bar>) = Suc 53"
    by (rule bitLength_eq) simp_all
  then have len: "bitLength (nat \<bar>2 ^ 53 + 1 :: int\<bar>) - 53 = 1"
    by simp
  show ?thesis
    unfolding roundToDouble_def Let_def len by simp
qed

lemma inj_cuid: "inj cuid"
  by (auto simp: inj_def cuid_def dest: arg_cong [where f = length])

subsection \<open>The claims\<close>







text \<open>
  C7. For a parent row with no child row of a to-many relation, a where clause on that relation
  accepts the parent under \<^verbatim>\<open>every\<close>, rejects it under \<^verbatim>\<open>some\<close> and accepts it under
  \<^verbatim>\<open>none\<close>, whatever the nested clause is; this for the posts and the comments of a user and
  for the comments of a post. Each quantifier is a sub-query on the child table scoped by the
  foreign key: whatever the nested clause, the sub-query returns only rows whose foreign key is
  the parent's key.
\<close>

theorem quantifiers_on_empty_child_set:
  "((\<forall>p \<in> set (store_getAll (db_Post db)). po_authorId p \<noteq> Some (u_id user)) \<longrightarrow>
      User_applyWhereClause db [user] (Some (User_where_posts (PostListRelation (Some ev) None None))) = [user]
      \<and> User_applyWhereClause db [user] (Some (User_where_posts (PostListRelation None (Some ev) None))) = []
      \<and> User_applyWhereClause db [user] (Some (User_where_posts (PostListRelation None None (Some ev)))) = [user])
   \<and> ((\<forall>c \<in> set (store_getAll (db_Comment db)). c_userId c \<noteq> Some (u_id user)) \<longrightarrow>
      User_applyWhereClause db [user] (Some (User_where_comments (CommentListRelation (Some cev) None None))) = [user]
      \<and> User_applyWhereClause db [user] (Some (User_where_comments (CommentListRelation None (Some cev) None))) = []
      \<and> User_applyWhereClause db [user] (Some (User_where_comments (CommentListRelation None None (Some cev)))) = [user])
   \<and> ((\<forall>c \<in> set (store_getAll (db_Comment db)). c_postId c \<noteq> Some (po_id post)) \<longrightarrow>
      Post_applyWhereClause db [post] (Some (Post_where_comments (CommentListRelation (Some cev) None None))) = [post]
      \<and> Post_applyWhereClause db [post] (Some (Post_where_comments (CommentListRelation None (Some cev) None))) = []
      \<and> Post_applyWhereClause db [post] (Some (Post_where_comments (CommentListRelation None None (Some cev)))) = [post])
   \<and> set (Post_applyWhereClause db rs (Some (PostWhere_authorId_update (equalTo (Some k)) ev)))
        \<subseteq> {p \<in> set rs. po_authorId p = Some k}
   \<and> set (Comment_applyWhereClause db cs (Some (CommentWhere_userId_update (equalTo (Some k)) cev)))
        \<subseteq> {c \<in> set cs. c_userId c = Some k}
   \<and> set (Comment_applyWhereClause db cs (Some (CommentWhere_postId_update (equalTo (Some k)) cev)))
        \<subseteq> {c \<in> set cs. c_postId c = Some k}"
  using User_posts_quantifiers [of db user] User_comments_quantifiers [of db user]
    Post_comments_quantifiers [of db post] Post_scoped_by_authorId [of db rs k ev]
    Comment_scoped_by_userId [of db cs k cev] Comment_scoped_by_postId [of db cs k cev]
  by blast


theorem quantifiers_on_empty_child_set_witness:
  "User_applyWhereClause (empty_DB\<lparr>db_Post := [(1, lonely_post)]\<rparr>) [alice]
       (Some (User_where_posts (PostListRelation (Some title_is_p1) None None))) = [alice]
   \<and> User_applyWhereClause (empty_DB\<lparr>db_Post := [(1, lonely_post)]\<rparr>) [alice]
       (Some (User_where_posts (PostListRelation None (Some title_is_p1) None))) = []
   \<and> User_applyWhereClause (empty_DB\<lparr>db_Post := [(1, lonely_post)]\<rparr>) [alice]
       (Some (User_where_posts (PostListRelation None None (Some title_is_p1)))) = [alice]
   \<and> User_applyWhereClause (empty_DB\<lparr>db_Post := [(1, lonely_post)]\<rparr>) [alice]
       (Some (User_where_comments (CommentListRelation (Some text_is_hi) None None))) = [alice]
   \<and> Post_applyWhereClause (empty_DB\<lparr>db_Post := [(1, lonely_post)]\<rparr>) [lonely_post]
       (Some (Post_where_comments (CommentListRelation None (Some text_is_hi) None))) = []"
  using quantifiers_on_empty_child_set
    [of "empty_DB\<lparr>db_Post := [(1, lonely_post)]\<rparr>" alice title_is_p1 text_is_hi lonely_post]
  by (simp add: empty_DB_def store_getAll_def lonely_post_def alice_def)


text \<open>
  C8. The scope analyzer is claimed to add the target table of every relation referenced,
  recursively, in \<^verbatim>\<open>where\<close>, \<^verbatim>\<open>orderBy\<close>, \<^verbatim>\<open>select\<close> or \<^verbatim>\<open>include\<close>, also for a relation
  reached through another relation's \<^verbatim>\<open>orderBy\<close>. The analyzer hands the related engine the
  outer clause instead of the nested one, so the walk stops after one relation: for
  \<^verbatim>\<open>comment.findMany({ orderBy: { post: { author: { name: "asc" } } } })\<close> the computed set is
  Comment and Post, without User.
\<close>

theorem Comment_orderBy_post_author_needs:
  "Comment_getNeededStoresForFind
     (Some (CommentQuery None (Some [orderBy_post_author_name]) None None)) = {Comment, Post}"
  by (auto simp: orderBy_post_author_name_def Comment_getNeededStoresForFind.simps
      Post_getNeededStoresForFind.simps Comment_as_PostOrderBy_def attached_def attachArgs_def)















text \<open>
  C5. The claim is that every \<open>NotFound\<close> failure aborts the active transaction.
  \<^verbatim>\<open>update\<close>, \<^verbatim>\<open>findUniqueOrThrow\<close> and \<^verbatim>\<open>findFirstOrThrow\<close> call \<^verbatim>\<open>tx.abort()\<close> before they throw;
  \<^verbatim>\<open>delete\<close> throws without it. In a transaction that has created a user, a \<^verbatim>\<open>delete\<close> with a
  selector that matches nothing returns the error and the transaction as it was, not aborted
  and with the created row in place, where the other three return it aborted and rolled back.
\<close>

theorem delete_not_found_keeps_transaction:
  "User_delete (User_where_id 42) tx_ann = (Inl NotFound, tx_ann)
   \<and> tx_aborted tx_ann = False
   \<and> tx_db tx_ann = empty_DB\<lparr>db_User := [(1, ann1)]\<rparr>
   \<and> User_update (User_where_id 42) \<lparr>uu_id = None, uu_name = None\<rparr> tx_ann = (Inl NotFound, abort tx_ann)
   \<and> User_findUniqueOrThrow (User_where_id 42) tx_ann = (Inl NotFound, abort tx_ann)
   \<and> User_findFirstOrThrow (Some (User_where_id 42)) None tx_ann = (Inl NotFound, abort tx_ann)
   \<and> tx_aborted (abort tx_ann) = True
   \<and> tx_db (abort tx_ann) = empty_DB"
  by (simp add: tx_ann_eval User_delete_def User_update_def User_findUniqueOrThrow_def
      User_findFirstOrThrow_def User_findFirst_def User_findMany_where User_where_id_filter
      User_findUnique_def first_def eval_call ann1_def)

end
